theory Spec2Isabelle
  imports Complex_Main "HOL-Library.Word"
begin

unbundle bit_operations_syntax

section \<open>Data model of the cache (cache.c, neighsnoopd.c)\<close>

text \<open>
  The daemon keeps its entities in heap blocks that point at each other, and seven GLib
  hash tables index them. The model keeps that shape: one store per entity type (a map
  from addresses to records), tables that map keys to addresses, and GLib lists as lists
  of nodes, each node an address of its own paired with the data pointer it carries.
  Addresses come from one counter \<open>brk\<close> and are never handed out twice; address 0 is
  NULL. Reading through an address that holds no block is the fault \<open>UseAfterFree\<close>;
  \<open>DoubleFree\<close> is the process aborted by the allocator when a block is released twice.
  \<open>g_new0\<close> aborts the process when memory runs out, so an allocation always returns
  a block. Hash-table keys are compared by content (the \<open>*_key_equal\<close> functions), so
  they are modelled by value; the one key block that the code releases twice is modelled
  where that happens, in \<open>cache_add_network_err3\<close>. Display strings (\<open>mac_str\<close>, \<open>ip_str\<close>, \<open>network_str\<close>) and
  log output are left out.
\<close>

type_synonym ptr = nat
type_synonym u32 = "32 word"
type_synonym mac_addr = "48 word"
type_synonym in6_addr = "128 word"
type_synonym glist = "(ptr \<times> ptr) list"

datatype fault = UseAfterFree | DoubleFree

record cache_times =
  created :: nat
  updated :: nat
  referenced :: nat

record link_cache =
  lc_ifindex :: u32
  lc_ifname :: string
  lc_mac :: mac_addr
  lc_kind :: string
  lc_slave_kind :: string
  lc_vlan_id :: u32
  lc_vlan_protocol :: u32
  lc_has_vlan :: bool
  lc_is_macvlan :: bool
  lc_is_svi :: bool
  lc_ignore_link :: bool
  lc_link_ifindex :: u32
  lc_times :: cache_times
  lc_reference_count :: nat
  lc_network_list :: glist
  lc_fdb_list :: glist

record network_cache =
  nc_id :: u32
  nc_network :: in6_addr
  nc_prefixlen :: u32
  nc_true_prefixlen :: u32
  nc_links :: glist
  nc_refcnt :: int
  nc_times :: cache_times
  nc_reference_count :: nat

record link_network_cache =
  lnc_ip :: in6_addr
  lnc_network :: ptr
  lnc_link :: ptr

record fdb_cache =
  fc_mac :: mac_addr
  fc_link :: ptr
  fc_vlan_id :: u32
  fc_times :: cache_times
  fc_reference_count :: nat

record neigh_cache =
  ngc_ifindex :: u32
  ngc_mac :: mac_addr
  ngc_ip :: in6_addr
  ngc_nud_state :: u32
  ngc_sending_link_network :: ptr
  ngc_timer :: "ptr option"
  ngc_id :: "64 word"
  ngc_update_count :: nat
  ngc_reference_count :: nat
  ngc_times :: cache_times

text \<open>The decoded netlink commands and the ring-buffer record.\<close>

record netlink_link_cmd =
  lcmd_ifindex :: u32
  lcmd_ifname :: string
  lcmd_mac :: mac_addr
  lcmd_kind :: string
  lcmd_slave_kind :: string
  lcmd_vlan_id :: u32
  lcmd_vlan_protocol :: u32
  lcmd_has_vlan :: bool
  lcmd_is_macvlan :: bool
  lcmd_link_ifindex :: u32

record netlink_addr_cmd =
  acmd_ifindex :: u32
  acmd_ip :: in6_addr
  acmd_network :: in6_addr
  acmd_prefixlen :: u32
  acmd_true_prefixlen :: u32

record netlink_neigh_cmd =
  ncmd_ifindex :: u32
  ncmd_vlan_id :: u32
  ncmd_mac :: mac_addr
  ncmd_ip :: in6_addr
  ncmd_nud_state :: u32
  ncmd_is_externally_learned :: bool

record neighbor_reply =
  nr_in_family :: u32
  nr_vlan_id :: u32
  nr_network_id :: u32
  nr_mac :: mac_addr
  nr_ip :: in6_addr

datatype netlink_cmd =
    CMD_NEIGH_ADD netlink_neigh_cmd
  | CMD_NEIGH_DEL netlink_neigh_cmd
  | CMD_FDB_ADD netlink_neigh_cmd
  | CMD_FDB_DEL netlink_neigh_cmd
  | CMD_ADDR_ADD netlink_addr_cmd
  | CMD_ADDR_DEL netlink_addr_cmd
  | CMD_LINK_ADD netlink_link_cmd
  | CMD_LINK_DEL netlink_link_cmd

record probe =
  pr_is_arp :: bool
  pr_ifindex :: u32
  pr_dst_mac :: mac_addr
  pr_src_mac :: mac_addr
  pr_src_ip :: in6_addr
  pr_dst_ip :: in6_addr

text \<open>
  The whole process state. The \<open>sys_*\<close> fields are the environment: what the
  \<open>tick\<close>-th call into the system returns (the clock, the eBPF map update, the sysctl
  file, \<open>rand\<close>, the timer module, the packet socket). Every such call advances
  \<open>tick\<close>, so any pattern of successes and failures is some choice of these fields.
  \<open>sys_double_free_aborts\<close> is the allocator: releasing a block twice is undefined in C;
  glibc detects it and aborts the process, another allocator may go on.
\<close>

record state =
  h_link :: "ptr \<rightharpoonup> link_cache"
  h_network :: "ptr \<rightharpoonup> network_cache"
  h_link_network :: "ptr \<rightharpoonup> link_network_cache"
  h_fdb :: "ptr \<rightharpoonup> fdb_cache"
  h_neigh :: "ptr \<rightharpoonup> neigh_cache"
  brk :: ptr
  db_link_cache :: "u32 \<rightharpoonup> ptr"
  db_network_cache :: "u32 \<rightharpoonup> ptr"
  db_fdb_cache :: "(mac_addr \<times> u32 \<times> u32) \<rightharpoonup> ptr"
  db_neigh_cache :: "(u32 \<times> in6_addr) \<rightharpoonup> ptr"
  db_lookup_addr :: "in6_addr \<rightharpoonup> ptr"
  db_lookup_vlan_networkid :: "(u32 \<times> u32) \<rightharpoonup> ptr"
  db_lookup_addr_ifindex :: "(in6_addr \<times> u32) \<rightharpoonup> ptr"
  network_next_id :: u32
  neigh_next_id :: "64 word"
  env_has_links :: bool
  env_has_networks :: bool
  env_has_fdb :: bool
  env_only_ipv4 :: bool
  env_only_ipv6 :: bool
  env_disable_ipv6ll_filter :: bool
  env_count :: int
  env_ifidx_mon :: u32
  env_has_deny_filter :: bool
  env_deny_filter :: "string \<Rightarrow> bool"
  target_networks :: "(u32 \<times> in6_addr) \<rightharpoonup> u32"
  netlink_tx :: "(u32 \<times> mac_addr \<times> in6_addr) list"
  timers :: "ptr \<rightharpoonup> (ptr \<times> real)"
  packets :: "probe list"
  tick :: nat
  sys_clock :: "nat \<Rightarrow> nat option"
  sys_bpf_ok :: "nat \<Rightarrow> bool"
  sys_base_reachable_time :: "nat \<Rightarrow> bool \<Rightarrow> string \<Rightarrow> real option"
  sys_rand :: "nat \<Rightarrow> nat"
  sys_timer_ok :: "nat \<Rightarrow> bool"
  sys_send_ok :: "nat \<Rightarrow> bool"
  sys_errno :: int
  sys_double_free_aborts :: bool

section \<open>Results, pointers, lists and system calls\<close>

definition seq :: "fault + 'a \<Rightarrow> ('a \<Rightarrow> fault + 'b) \<Rightarrow> fault + 'b" where
  "seq m f = (case m of Inl e \<Rightarrow> Inl e | Inr x \<Rightarrow> f x)"

definition deref :: "(ptr \<rightharpoonup> 'a) \<Rightarrow> ptr \<Rightarrow> fault + 'a" where
  "deref h p = (case h p of None \<Rightarrow> Inl UseAfterFree | Some x \<Rightarrow> Inr x)"

text \<open>\<open>clock_gettime(CLOCK_REALTIME, &t)\<close>: \<open>None\<close> is the return value -1, and then
  \<open>t\<close> is left as it was.\<close>

definition clock_gettime :: "state \<Rightarrow> nat option \<times> state" where
  "clock_gettime s = (sys_clock s (tick s), s\<lparr>tick := Suc (tick s)\<rparr>)"

text \<open>\<open>bpf_map_update_elem(fd, key, value, BPF_ANY)\<close> and \<open>bpf_map_delete_elem\<close> on the
  target-networks map; deleting a key the map does not hold fails.\<close>

definition bpf_map_update_elem :: "(u32 \<times> in6_addr) \<Rightarrow> u32 \<Rightarrow> state \<Rightarrow> bool \<times> state" where
  "bpf_map_update_elem key val s =
     (let s1 = s\<lparr>tick := Suc (tick s)\<rparr> in
      if sys_bpf_ok s (tick s)
      then (True, s1\<lparr>target_networks := (target_networks s1)(key \<mapsto> val)\<rparr>)
      else (False, s1))"

definition bpf_map_delete_elem :: "(u32 \<times> in6_addr) \<Rightarrow> state \<Rightarrow> bool \<times> state" where
  "bpf_map_delete_elem key s =
     (let s1 = s\<lparr>tick := Suc (tick s)\<rparr> in
      if sys_bpf_ok s (tick s) \<and> target_networks s key \<noteq> None
      then (True, s1\<lparr>target_networks := (target_networks s1)(key := None)\<rparr>)
      else (False, s1))"

text \<open>The walk \<open>for (iter = list; iter; iter = g_list_next(iter)) if (iter->data == d)
  { list = g_list_delete_link(list, iter); break; }\<close>: the first node that carries \<open>d\<close>
  is unlinked and freed.\<close>

fun g_list_delete_data :: "ptr \<Rightarrow> glist \<Rightarrow> glist" where
  "g_list_delete_data d [] = []"
| "g_list_delete_data d ((node, x) # xs) =
     (if x = d then xs else (node, x) # g_list_delete_data d xs)"

definition g_list_has_node :: "ptr \<Rightarrow> glist \<Rightarrow> bool" where
  "g_list_has_node node xs = (node \<in> fst ` set xs)"

definition times0 :: cache_times where
  "times0 = \<lparr>created = 0, updated = 0, referenced = 0\<rparr>"

text \<open>The libc macros on the 16 address bytes, byte 0 the most significant.\<close>

definition IN6_IS_ADDR_V4MAPPED :: "in6_addr \<Rightarrow> bool" where
  "IN6_IS_ADDR_V4MAPPED a = (drop_bit 32 a = 0xFFFF)"

definition IN6_IS_ADDR_LINKLOCAL :: "in6_addr \<Rightarrow> bool" where
  "IN6_IS_ADDR_LINKLOCAL a = (drop_bit 118 a = 0x3FA)"

text \<open>
  Modelled from the spec: the identifier helpers \<open>compare_ipv6_addresses\<close>,
  \<open>is_zero_mac\<close>, \<open>is_same_mac\<close> and \<open>calculate_network_using_cidr\<close> are declared in
  neighsnoopd.h and defined outside the two source files. Section 2 of the specification
  lists them as equality and CIDR masking, and section 4.2 describes the mask as
  "zeroing all bits beyond prefixlen". An IPv4 address is carried IPv4-mapped and its
  prefix length counts the bits of the IPv4 address (section 8, seed 2: 10.0.0.1/24
  has the canonical address ::ffff:10.0.0.0 with \<open>prefixlen\<close> 24), so for an
  IPv4-mapped address the 96 bits of the mapping are kept and the bits beyond the first
  \<open>prefixlen\<close> of the last 32 are zeroed.
\<close>

definition compare_ipv6_addresses :: "in6_addr \<Rightarrow> in6_addr \<Rightarrow> bool" where
  "compare_ipv6_addresses a b = (a = b)"

definition is_zero_mac :: "mac_addr \<Rightarrow> bool" where
  "is_zero_mac m = (m = 0)"

definition is_same_mac :: "mac_addr \<Rightarrow> mac_addr \<Rightarrow> bool" where
  "is_same_mac a b = (a = b)"

definition calculate_network_using_cidr :: "in6_addr \<Rightarrow> u32 \<Rightarrow> in6_addr" where
  "calculate_network_using_cidr ip cidr =
     (if IN6_IS_ADDR_V4MAPPED ip then ip AND NOT (mask (32 - unat cidr))
      else ip AND NOT (mask (128 - unat cidr)))"

definition AF_INET :: u32 where "AF_INET = 2"
definition AF_INET6 :: u32 where "AF_INET6 = 10"
definition NUD_REACHABLE :: u32 where "NUD_REACHABLE = 2"
definition NUD_STALE :: u32 where "NUD_STALE = 4"
definition ENOENT :: int where "ENOENT = 2"

section \<open>cache.c\<close>

text \<open>\<open>cache_add_link\<close>. When the clock fails the block is freed and the function still
  returns its address (\<open>g_free(cache); goto out; ... return cache;\<close>).\<close>

definition cache_add_link :: "netlink_link_cmd \<Rightarrow> state \<Rightarrow> ptr option \<times> state" where
  "cache_add_link link_cmd s =
     (let cache = brk s;
          c = \<lparr>lc_ifindex = lcmd_ifindex link_cmd, lc_ifname = lcmd_ifname link_cmd,
               lc_mac = lcmd_mac link_cmd, lc_kind = lcmd_kind link_cmd,
               lc_slave_kind = lcmd_slave_kind link_cmd, lc_vlan_id = lcmd_vlan_id link_cmd,
               lc_vlan_protocol = lcmd_vlan_protocol link_cmd,
               lc_has_vlan = lcmd_has_vlan link_cmd, lc_is_macvlan = lcmd_is_macvlan link_cmd,
               lc_is_svi = False, lc_ignore_link = False, lc_link_ifindex = 0,
               lc_times = times0, lc_reference_count = 0,
               lc_network_list = [], lc_fdb_list = []\<rparr>;
          (t, s1) = clock_gettime (s\<lparr>brk := Suc (brk s)\<rparr>)
      in case t of
           None \<Rightarrow> (Some cache, s1)
         | Some now \<Rightarrow>
             (Some cache,
              s1\<lparr>h_link := (h_link s1)(cache \<mapsto>
                     c\<lparr>lc_times := \<lparr>created = now, updated = now, referenced = now\<rparr>\<rparr>),
                 db_link_cache := (db_link_cache s1)(lcmd_ifindex link_cmd \<mapsto> cache)\<rparr>))"

text \<open>\<open>cache_update_link\<close>. Each attribute is assigned exactly when it differs from
  the command's, which leaves the same block as assigning it always; \<open>updated\<close> records
  whether any differed.\<close>

definition cache_update_link ::
  "ptr \<Rightarrow> netlink_link_cmd \<Rightarrow> state \<Rightarrow> fault + (int \<times> state)" where
  "cache_update_link cache link_cmd s =
     seq (deref (h_link s) cache) (\<lambda>c.
       let upd = (lc_link_ifindex c \<noteq> lcmd_link_ifindex link_cmd
                  \<or> lc_ifname c \<noteq> lcmd_ifname link_cmd
                  \<or> lc_mac c \<noteq> lcmd_mac link_cmd
                  \<or> lc_kind c \<noteq> lcmd_kind link_cmd
                  \<or> lc_slave_kind c \<noteq> lcmd_slave_kind link_cmd
                  \<or> lc_vlan_protocol c \<noteq> lcmd_vlan_protocol link_cmd
                  \<or> lc_vlan_id c \<noteq> lcmd_vlan_id link_cmd
                  \<or> lc_has_vlan c \<noteq> lcmd_has_vlan link_cmd
                  \<or> lc_is_macvlan c \<noteq> lcmd_is_macvlan link_cmd);
           c1 = c\<lparr>lc_link_ifindex := lcmd_link_ifindex link_cmd,
                  lc_ifname := lcmd_ifname link_cmd, lc_mac := lcmd_mac link_cmd,
                  lc_kind := lcmd_kind link_cmd, lc_slave_kind := lcmd_slave_kind link_cmd,
                  lc_vlan_protocol := lcmd_vlan_protocol link_cmd,
                  lc_vlan_id := lcmd_vlan_id link_cmd, lc_has_vlan := lcmd_has_vlan link_cmd,
                  lc_is_macvlan := lcmd_is_macvlan link_cmd\<rparr>
       in if upd then
            (let (t, s1) = clock_gettime s in
             case t of
               None \<Rightarrow> Inr (sys_errno s1, s1\<lparr>h_link := (h_link s1)(cache \<mapsto> c1)\<rparr>)
             | Some now \<Rightarrow>
                 Inr (0, s1\<lparr>h_link := (h_link s1)(cache \<mapsto>
                              c1\<lparr>lc_times := (lc_times c1)\<lparr>updated := now\<rparr>\<rparr>)\<rparr>))
          else Inr (0, s))"

text \<open>\<open>cache_add_link_network\<close>: both lookup tables, then the Network's list and its
  \<open>refcnt\<close>, then the Link's list. Each \<open>g_list_append\<close> allocates a node.\<close>

definition cache_add_link_network :: "ptr \<Rightarrow> state \<Rightarrow> fault + (int \<times> state)" where
  "cache_add_link_network link_network s =
     seq (deref (h_link_network s) link_network) (\<lambda>ln.
     seq (deref (h_network s) (lnc_network ln)) (\<lambda>network.
     seq (deref (h_link s) (lnc_link ln)) (\<lambda>link.
       let s1 = s\<lparr>db_lookup_vlan_networkid :=
                    (db_lookup_vlan_networkid s)((nc_id network, lc_vlan_id link) \<mapsto> link_network),
                  db_lookup_addr_ifindex :=
                    (db_lookup_addr_ifindex s)((nc_network network, lc_ifindex link) \<mapsto> link_network)\<rparr>;
           s2 = s1\<lparr>brk := Suc (brk s1),
                   h_network := (h_network s1)(lnc_network ln \<mapsto>
                     network\<lparr>nc_links := nc_links network @ [(brk s1, link_network)],
                             nc_refcnt := nc_refcnt network + 1\<rparr>)\<rparr>;
           s3 = s2\<lparr>brk := Suc (brk s2),
                   h_link := (h_link s2)(lnc_link ln \<mapsto>
                     link\<lparr>lc_network_list := lc_network_list link @ [(brk s2, link_network)]\<rparr>)\<rparr>
       in Inr (0, s3))))"

text \<open>\<open>cache_del_link_network\<close>. The second walk compares each node of the Link's list,
  which carries LinkNetwork addresses, with the address of the Network.\<close>

definition cache_del_link_network :: "ptr \<Rightarrow> state \<Rightarrow> fault + state" where
  "cache_del_link_network link_network s =
     seq (deref (h_link_network s) link_network) (\<lambda>ln.
     seq (deref (h_network s) (lnc_network ln)) (\<lambda>network.
     seq (deref (h_link s) (lnc_link ln)) (\<lambda>link.
       let s1 = s\<lparr>db_lookup_vlan_networkid :=
                    (db_lookup_vlan_networkid s)((nc_id network, lc_vlan_id link) := None),
                  db_lookup_addr_ifindex :=
                    (db_lookup_addr_ifindex s)((nc_network network, lc_ifindex link) := None)\<rparr>;
           s2 = s1\<lparr>h_network := (h_network s1)(lnc_network ln \<mapsto>
                     network\<lparr>nc_links := g_list_delete_data link_network (nc_links network),
                             nc_refcnt := nc_refcnt network - 1\<rparr>)\<rparr>;
           s3 = s2\<lparr>h_link := (h_link s2)(lnc_link ln \<mapsto>
                     link\<lparr>lc_network_list :=
                            g_list_delete_data (lnc_network ln) (lc_network_list link)\<rparr>)\<rparr>
       in Inr (s3\<lparr>h_link_network := (h_link_network s3)(link_network := None)\<rparr>))))"

definition cache_get_link :: "u32 \<Rightarrow> state \<Rightarrow> fault + (ptr option \<times> state)" where
  "cache_get_link ifindex s =
     (case db_link_cache s ifindex of
        None \<Rightarrow> Inr (None, s)
      | Some cache \<Rightarrow>
          seq (deref (h_link s) cache) (\<lambda>c.
            let (t, s1) = clock_gettime s in
            case t of
              None \<Rightarrow> Inr (None, s1)
            | Some now \<Rightarrow>
                Inr (Some cache,
                     s1\<lparr>h_link := (h_link s1)(cache \<mapsto>
                          c\<lparr>lc_times := (lc_times c)\<lparr>referenced := now\<rparr>,
                            lc_reference_count := Suc (lc_reference_count c)\<rparr>)\<rparr>)))"

text \<open>
  The loop of \<open>cache_del_link\<close> over \<open>cache->network_list\<close>. The argument list is what
  is left of the list the loop started on. A node that an earlier call unlinked is no
  longer reached through \<open>next\<close>; when the call for the current node unlinks (and frees)
  that very node, \<open>g_list_next(iter)\<close> reads a freed node.
\<close>

fun del_link_networks :: "ptr \<Rightarrow> glist \<Rightarrow> state \<Rightarrow> fault + state" where
  "del_link_networks cache [] s = Inr s"
| "del_link_networks cache ((node, d) # rest) s =
     seq (deref (h_link s) cache) (\<lambda>c.
       if \<not> g_list_has_node node (lc_network_list c) then del_link_networks cache rest s
       else seq (cache_del_link_network d s) (\<lambda>s1.
            seq (deref (h_link s1) cache) (\<lambda>c1.
              if \<not> g_list_has_node node (lc_network_list c1) then Inl UseAfterFree
              else del_link_networks cache rest s1)))"

text \<open>\<open>g_hash_table_remove(db_fdb_cache, key)\<close>: the table was created with \<open>g_free\<close> as
  its value destructor, so the entry's block is freed.\<close>

definition fdb_table_remove :: "(mac_addr \<times> u32 \<times> u32) \<Rightarrow> state \<Rightarrow> state" where
  "fdb_table_remove key s =
     (case db_fdb_cache s key of
        None \<Rightarrow> s
      | Some p \<Rightarrow> s\<lparr>db_fdb_cache := (db_fdb_cache s)(key := None),
                     h_fdb := (h_fdb s)(p := None)\<rparr>)"

text \<open>The loop of \<open>cache_del_link\<close> over \<open>cache->fdb_list\<close>. The key it builds sets
  \<open>ifindex\<close> and \<open>vlan_id\<close> only; its \<open>mac\<close> bytes are zero from the initialiser.\<close>

fun del_link_fdbs :: "glist \<Rightarrow> state \<Rightarrow> fault + state" where
  "del_link_fdbs [] s = Inr s"
| "del_link_fdbs ((node, d) # rest) s =
     seq (deref (h_fdb s) d) (\<lambda>fdb.
     seq (deref (h_link s) (fc_link fdb)) (\<lambda>l.
       del_link_fdbs rest (fdb_table_remove (0, lc_ifindex l, fc_vlan_id fdb) s)))"

definition cache_del_link :: "netlink_link_cmd \<Rightarrow> state \<Rightarrow> fault + (int \<times> state)" where
  "cache_del_link link_cmd s =
     (case db_link_cache s (lcmd_ifindex link_cmd) of
        None \<Rightarrow> Inr (- 1, s)
      | Some cache \<Rightarrow>
          seq (deref (h_link s) cache) (\<lambda>c.
          seq (del_link_networks cache (lc_network_list c) s) (\<lambda>s1.
          seq (deref (h_link s1) cache) (\<lambda>c1.
          seq (del_link_fdbs (lc_fdb_list c1) s1) (\<lambda>s2.
            Inr (0, s2\<lparr>db_link_cache := (db_link_cache s2)(lcmd_ifindex link_cmd := None),
                       h_link := (h_link s2)(cache := None)\<rparr>))))))"

definition cache_get_link_network_by_reply :: "neighbor_reply \<Rightarrow> state \<Rightarrow> ptr option" where
  "cache_get_link_network_by_reply neighbor_reply s =
     db_lookup_vlan_networkid s (nr_network_id neighbor_reply, nr_vlan_id neighbor_reply)"

fun link_network_by_addr :: "glist \<Rightarrow> in6_addr \<Rightarrow> state \<Rightarrow> fault + ptr option" where
  "link_network_by_addr [] ip s = Inr None"
| "link_network_by_addr ((node, d) # rest) ip s =
     seq (deref (h_link_network s) d) (\<lambda>cache.
     seq (deref (h_network s) (lnc_network cache)) (\<lambda>network.
       if compare_ipv6_addresses (calculate_network_using_cidr ip (nc_prefixlen network))
            (nc_network network)
       then Inr (Some d)
       else link_network_by_addr rest ip s))"

definition cache_get_link_network_by_addr ::
  "ptr \<Rightarrow> in6_addr \<Rightarrow> state \<Rightarrow> fault + ptr option" where
  "cache_get_link_network_by_addr link ip s =
     seq (deref (h_link s) link) (\<lambda>l. link_network_by_addr (lc_network_list l) ip s)"

definition cache_get_link_network :: "u32 \<Rightarrow> in6_addr \<Rightarrow> state \<Rightarrow> ptr option" where
  "cache_get_link_network ifindex network_ip s = db_lookup_addr_ifindex s (network_ip, ifindex)"

text \<open>
  \<open>cache_add_network\<close>. The two blocks are allocated first; the model writes their
  fields at once, since nothing reads them before the source has assigned them.

  The label \<open>err3\<close> runs \<open>g_hash_table_remove(db_lookup_addr, addr_key); g_free(addr_key);\<close>.
  The table was created with \<open>g_free\<close> as its key destructor and \<open>addr_key\<close> is the very
  block that was inserted as the key, so the removal releases it and \<open>g_free\<close> releases
  it a second time. Where the allocator aborts on that, the call ends there, in
  \<open>DoubleFree\<close>; otherwise the ladder goes on through \<open>err2\<close> and \<open>err1\<close>, which remove the
  Network from the network table and free it.
\<close>

definition cache_add_network_err3 ::
  "netlink_addr_cmd \<Rightarrow> u32 \<Rightarrow> ptr \<Rightarrow> state \<Rightarrow> fault + (ptr option \<times> state)" where
  "cache_add_network_err3 addr_cmd ident cache s =
     (let s1 = s\<lparr>db_lookup_addr := (db_lookup_addr s)(acmd_network addr_cmd := None)\<rparr> in
      if sys_double_free_aborts s1 then Inl DoubleFree
      else Inr (None, s1\<lparr>db_network_cache := (db_network_cache s1)(ident := None),
                         h_network := (h_network s1)(cache := None)\<rparr>))"

definition cache_add_network ::
  "netlink_addr_cmd \<Rightarrow> state \<Rightarrow> fault + (ptr option \<times> state)" where
  "cache_add_network addr_cmd s =
     seq (cache_get_link (acmd_ifindex addr_cmd) s) (\<lambda>(link_cache, s1).
       case link_cache of
         None \<Rightarrow> Inr (None, s1)
       | Some lp \<Rightarrow>
           (let cache = brk s1;
                link_network_cache = Suc (brk s1);
                ident = network_next_id s1;
                s2 = s1\<lparr>brk := Suc (Suc (brk s1)),
                        network_next_id := ident + 1,
                        h_network := (h_network s1)(cache \<mapsto>
                          \<lparr>nc_id = ident, nc_network = acmd_network addr_cmd,
                           nc_prefixlen = acmd_prefixlen addr_cmd,
                           nc_true_prefixlen = acmd_true_prefixlen addr_cmd,
                           nc_links = [], nc_refcnt = 0, nc_times = times0,
                           nc_reference_count = 0\<rparr>),
                        h_link_network := (h_link_network s1)(link_network_cache \<mapsto>
                          \<lparr>lnc_ip = acmd_ip addr_cmd, lnc_network = cache, lnc_link = lp\<rparr>),
                        db_network_cache := (db_network_cache s1)(ident \<mapsto> cache),
                        db_lookup_addr := (db_lookup_addr s1)(acmd_network addr_cmd \<mapsto> cache)\<rparr>
            in seq (cache_add_link_network link_network_cache s2) (\<lambda>(r, s3).
                 let (ok, s4) = bpf_map_update_elem
                                  (acmd_prefixlen addr_cmd, acmd_network addr_cmd) ident s3
                 in if \<not> ok then cache_add_network_err3 addr_cmd ident cache s4
                    else
                      (let (t, s5) = clock_gettime s4 in
                       case t of
                         None \<Rightarrow> cache_add_network_err3 addr_cmd ident cache s5
                       | Some now \<Rightarrow>
                           seq (deref (h_network s5) cache) (\<lambda>n.
                             Inr (Some cache,
                                  s5\<lparr>h_network := (h_network s5)(cache \<mapsto>
                                       n\<lparr>nc_times := (nc_times n)\<lparr>created := now,
                                                                     referenced := now\<rparr>\<rparr>)\<rparr>))))))"

text \<open>\<open>cache_get_network_by_id\<close>, \<open>cache_get_fdb\<close> and \<open>cache_get_neigh\<close>: when the clock
  fails they \<open>goto out\<close> with \<open>cache\<close> still set.\<close>

definition cache_get_network_by_id :: "u32 \<Rightarrow> state \<Rightarrow> fault + (ptr option \<times> state)" where
  "cache_get_network_by_id network_id s =
     (case db_network_cache s network_id of
        None \<Rightarrow> Inr (None, s)
      | Some cache \<Rightarrow>
          seq (deref (h_network s) cache) (\<lambda>c.
            let (t, s1) = clock_gettime s in
            case t of
              None \<Rightarrow> Inr (Some cache, s1)
            | Some now \<Rightarrow>
                Inr (Some cache,
                     s1\<lparr>h_network := (h_network s1)(cache \<mapsto>
                          c\<lparr>nc_times := (nc_times c)\<lparr>referenced := now\<rparr>,
                            nc_reference_count := Suc (nc_reference_count c)\<rparr>)\<rparr>)))"

definition cache_get_network :: "netlink_addr_cmd \<Rightarrow> state \<Rightarrow> ptr option" where
  "cache_get_network addr_cmd s = db_lookup_addr s (acmd_network addr_cmd)"

text \<open>The search loop of \<open>cache_del_network\<close>: the first binding of the Link whose
  Network has the command's \<open>ip\<close> as its address and the command's \<open>prefixlen\<close>.\<close>

fun find_network :: "glist \<Rightarrow> netlink_addr_cmd \<Rightarrow> state \<Rightarrow> fault + ptr option" where
  "find_network [] addr_cmd s = Inr None"
| "find_network ((node, d) # rest) addr_cmd s =
     seq (deref (h_link_network s) d) (\<lambda>link_network.
     seq (deref (h_network s) (lnc_network link_network)) (\<lambda>network.
       if compare_ipv6_addresses (nc_network network) (acmd_ip addr_cmd)
          \<and> nc_prefixlen network = acmd_prefixlen addr_cmd
       then Inr (Some (lnc_network link_network))
       else find_network rest addr_cmd s))"

text \<open>The loop of \<open>cache_del_network\<close> over \<open>network->links\<close>, read like the loop of
  \<open>cache_del_link\<close> above: here each call unlinks a node of the very list being walked.\<close>

fun del_network_links :: "ptr \<Rightarrow> glist \<Rightarrow> state \<Rightarrow> fault + state" where
  "del_network_links network [] s = Inr s"
| "del_network_links network ((node, d) # rest) s =
     seq (deref (h_network s) network) (\<lambda>n.
       if \<not> g_list_has_node node (nc_links n) then del_network_links network rest s
       else seq (cache_del_link_network d s) (\<lambda>s1.
            seq (deref (h_network s1) network) (\<lambda>n1.
              if \<not> g_list_has_node node (nc_links n1) then Inl UseAfterFree
              else del_network_links network rest s1)))"

text \<open>\<open>cache_del_network\<close>. The address table is keyed by the 16 address bytes; the key
  passed to its removal is a \<open>struct ifindex_addr_cache_key\<close> whose \<open>network_ip\<close> member
  holds the Network's address, read here as that address.\<close>

definition cache_del_network :: "netlink_addr_cmd \<Rightarrow> state \<Rightarrow> fault + (int \<times> state)" where
  "cache_del_network addr_cmd s =
     seq (cache_get_link (acmd_ifindex addr_cmd) s) (\<lambda>(link_cache, s1).
       case link_cache of
         None \<Rightarrow> Inr (0, s1)
       | Some lp \<Rightarrow>
           seq (deref (h_link s1) lp) (\<lambda>l.
           seq (find_network (lc_network_list l) addr_cmd s1) (\<lambda>found.
             case found of
               None \<Rightarrow> Inr (0, s1)
             | Some network \<Rightarrow>
                 seq (deref (h_network s1) network) (\<lambda>n.
                   let s2 = s1\<lparr>db_network_cache := (db_network_cache s1)(nc_id n := None),
                               db_lookup_addr := (db_lookup_addr s1)(nc_network n := None)\<rparr>
                   in seq (del_network_links network (nc_links n) s2) (\<lambda>s3.
                        let (ok, s4) = bpf_map_delete_elem
                                         (acmd_prefixlen addr_cmd, acmd_ip addr_cmd) s3
                        in Inr (if ok then 0 else sys_errno s4, s4))))))"

definition cache_get_fdb :: "netlink_neigh_cmd \<Rightarrow> state \<Rightarrow> fault + (ptr option \<times> state)" where
  "cache_get_fdb neigh_cmd s =
     (case db_fdb_cache s (ncmd_mac neigh_cmd, ncmd_ifindex neigh_cmd, ncmd_vlan_id neigh_cmd) of
        None \<Rightarrow> Inr (None, s)
      | Some cache \<Rightarrow>
          seq (deref (h_fdb s) cache) (\<lambda>c.
            let (t, s1) = clock_gettime s in
            case t of
              None \<Rightarrow> Inr (Some cache, s1)
            | Some now \<Rightarrow>
                Inr (Some cache,
                     s1\<lparr>h_fdb := (h_fdb s1)(cache \<mapsto>
                          c\<lparr>fc_times := (fc_times c)\<lparr>referenced := now\<rparr>,
                            fc_reference_count := Suc (fc_reference_count c)\<rparr>)\<rparr>)))"

definition cache_get_fdb_by_reply ::
  "neighbor_reply \<Rightarrow> u32 \<Rightarrow> state \<Rightarrow> fault + (ptr option \<times> state)" where
  "cache_get_fdb_by_reply neighbor_reply ifindex s =
     cache_get_fdb \<lparr>ncmd_ifindex = ifindex, ncmd_vlan_id = nr_vlan_id neighbor_reply,
                    ncmd_mac = nr_mac neighbor_reply, ncmd_ip = 0, ncmd_nud_state = 0,
                    ncmd_is_externally_learned = False\<rparr> s"

text \<open>\<open>cache_add_fdb\<close>. \<open>g_hash_table_insert\<close> on a key the table holds replaces the
  value and frees the old one (the value destructor). Nothing is appended to the Link's
  \<open>fdb_list\<close>.\<close>

definition cache_add_fdb :: "netlink_neigh_cmd \<Rightarrow> state \<Rightarrow> fault + (ptr option \<times> state)" where
  "cache_add_fdb neigh_cmd s =
     seq (cache_get_link (ncmd_ifindex neigh_cmd) s) (\<lambda>(link, s1).
       case link of
         None \<Rightarrow> Inr (None, s1)
       | Some lp \<Rightarrow>
           (let cache = brk s1;
                key = (ncmd_mac neigh_cmd, ncmd_ifindex neigh_cmd, ncmd_vlan_id neigh_cmd);
                (t, s2) = clock_gettime (s1\<lparr>brk := Suc (brk s1)\<rparr>)
            in case t of
                 None \<Rightarrow> Inr (None, s2)
               | Some now \<Rightarrow>
                   (let s3 = fdb_table_remove key s2 in
                    Inr (Some cache,
                         s3\<lparr>h_fdb := (h_fdb s3)(cache \<mapsto>
                              \<lparr>fc_mac = ncmd_mac neigh_cmd, fc_link = lp,
                               fc_vlan_id = ncmd_vlan_id neigh_cmd,
                               fc_times = \<lparr>created = now, updated = 0, referenced = now\<rparr>,
                               fc_reference_count = 0\<rparr>),
                            db_fdb_cache := (db_fdb_cache s3)(key \<mapsto> cache)\<rparr>))))"

definition cache_del_fdb :: "netlink_neigh_cmd \<Rightarrow> state \<Rightarrow> int \<times> state" where
  "cache_del_fdb neigh_cmd s =
     (let key = (ncmd_mac neigh_cmd, ncmd_ifindex neigh_cmd, ncmd_vlan_id neigh_cmd) in
      case db_fdb_cache s key of
        None \<Rightarrow> (- 1, s)
      | Some cache \<Rightarrow> (0, fdb_table_remove key s))"

definition cache_add_neigh ::
  "ptr \<Rightarrow> netlink_neigh_cmd \<Rightarrow> state \<Rightarrow> ptr option \<times> state" where
  "cache_add_neigh link_network neigh_cmd s =
     (let cache = brk s;
          (t, s1) = clock_gettime (s\<lparr>brk := Suc (brk s)\<rparr>)
      in case t of
           None \<Rightarrow> (None, s1)
         | Some now \<Rightarrow>
             (Some cache,
              s1\<lparr>h_neigh := (h_neigh s1)(cache \<mapsto>
                     \<lparr>ngc_ifindex = ncmd_ifindex neigh_cmd, ngc_mac = ncmd_mac neigh_cmd,
                      ngc_ip = ncmd_ip neigh_cmd, ngc_nud_state = ncmd_nud_state neigh_cmd,
                      ngc_sending_link_network = link_network, ngc_timer = None,
                      ngc_id = neigh_next_id s1, ngc_update_count = 0,
                      ngc_reference_count = 0,
                      ngc_times = \<lparr>created = now, updated = 0, referenced = now\<rparr>\<rparr>),
                 db_neigh_cache :=
                   (db_neigh_cache s1)((ncmd_ifindex neigh_cmd, ncmd_ip neigh_cmd) \<mapsto> cache),
                 neigh_next_id := neigh_next_id s1 + 1\<rparr>))"

definition cache_get_neigh :: "netlink_neigh_cmd \<Rightarrow> state \<Rightarrow> fault + (ptr option \<times> state)" where
  "cache_get_neigh neigh_cmd s =
     (case db_neigh_cache s (ncmd_ifindex neigh_cmd, ncmd_ip neigh_cmd) of
        None \<Rightarrow> Inr (None, s)
      | Some cache \<Rightarrow>
          seq (deref (h_neigh s) cache) (\<lambda>c.
            let (t, s1) = clock_gettime s in
            case t of
              None \<Rightarrow> Inr (Some cache, s1)
            | Some now \<Rightarrow>
                Inr (Some cache,
                     s1\<lparr>h_neigh := (h_neigh s1)(cache \<mapsto>
                          c\<lparr>ngc_times := (ngc_times c)\<lparr>referenced := now\<rparr>,
                            ngc_reference_count := Suc (ngc_reference_count c)\<rparr>)\<rparr>)))"

definition cache_get_neigh_by_reply ::
  "neighbor_reply \<Rightarrow> u32 \<Rightarrow> state \<Rightarrow> fault + (ptr option \<times> state)" where
  "cache_get_neigh_by_reply neighbor_reply ifindex s =
     cache_get_neigh \<lparr>ncmd_ifindex = ifindex, ncmd_vlan_id = 0,
                      ncmd_mac = nr_mac neighbor_reply, ncmd_ip = nr_ip neighbor_reply,
                      ncmd_nud_state = 0, ncmd_is_externally_learned = False\<rparr> s"

definition cache_neigh_update :: "netlink_neigh_cmd \<Rightarrow> state \<Rightarrow> fault + (int \<times> state)" where
  "cache_neigh_update neigh_cmd s =
     (case db_neigh_cache s (ncmd_ifindex neigh_cmd, ncmd_ip neigh_cmd) of
        None \<Rightarrow> Inr (- ENOENT, s)
      | Some cache \<Rightarrow>
          seq (deref (h_neigh s) cache) (\<lambda>c.
            let c1 = (if \<not> is_same_mac (ngc_mac c) (ncmd_mac neigh_cmd)
                      then c\<lparr>ngc_mac := ncmd_mac neigh_cmd\<rparr> else c)
            in if ncmd_nud_state neigh_cmd \<noteq> ngc_nud_state c1 then
                 (let c2 = c1\<lparr>ngc_nud_state := ncmd_nud_state neigh_cmd\<rparr>;
                      (t, s1) = clock_gettime s
                  in case t of
                       None \<Rightarrow> Inr (- sys_errno s1, s1\<lparr>h_neigh := (h_neigh s1)(cache \<mapsto> c2)\<rparr>)
                     | Some now \<Rightarrow>
                         Inr (0, s1\<lparr>h_neigh := (h_neigh s1)(cache \<mapsto>
                                c2\<lparr>ngc_times := (ngc_times c2)\<lparr>updated := now,
                                                                  referenced := now\<rparr>,
                                   ngc_update_count := Suc (ngc_update_count c2)\<rparr>)\<rparr>))
               else Inr (0, s\<lparr>h_neigh := (h_neigh s)(cache \<mapsto> c1)\<rparr>)))"

definition cache_del_neigh :: "ptr \<Rightarrow> state \<Rightarrow> fault + state" where
  "cache_del_neigh neigh s =
     seq (deref (h_neigh s) neigh) (\<lambda>c.
       Inr (s\<lparr>db_neigh_cache := (db_neigh_cache s)((ngc_ifindex c, ngc_ip c) := None),
              h_neigh := (h_neigh s)(neigh := None)\<rparr>))"

section \<open>neighsnoopd.c: timers, probes and the handlers\<close>

text \<open>
  Modelled from the spec: \<open>timer_add_neigh\<close> and \<open>timer_remove_event\<close> belong to the
  timer module and \<open>netlink_send_neigh\<close> to the netlink transport, both outside the two
  source files. Sections 4.3, 4.4 and 5 of the specification: arming stores one entry
  for the Neighbor and its handle in the Neighbor's timer slot, and can fail; cancelling
  removes the entry; \<open>netlink_send_neigh\<close> appends a \<open>NEIGH_ADD\<close> for
  \<open>(ifindex, mac, ip)\<close> to the netlink TX queue.
\<close>

definition timer_add_neigh :: "ptr \<Rightarrow> real \<Rightarrow> state \<Rightarrow> fault + (int \<times> state)" where
  "timer_add_neigh neigh seconds s =
     (let s1 = s\<lparr>tick := Suc (tick s)\<rparr> in
      if \<not> sys_timer_ok s (tick s) then Inr (- 1, s1)
      else seq (deref (h_neigh s1) neigh) (\<lambda>c.
             Inr (0, s1\<lparr>brk := Suc (brk s1),
                        timers := (timers s1)(brk s1 \<mapsto> (neigh, seconds)),
                        h_neigh := (h_neigh s1)(neigh \<mapsto> c\<lparr>ngc_timer := Some (brk s1)\<rparr>)\<rparr>)))"

definition timer_remove_event :: "ptr \<Rightarrow> state \<Rightarrow> state" where
  "timer_remove_event t s = s\<lparr>timers := (timers s)(t := None)\<rparr>"

definition netlink_send_neigh :: "neighbor_reply \<Rightarrow> u32 \<Rightarrow> state \<Rightarrow> state" where
  "netlink_send_neigh neighbor_reply ifindex s =
     s\<lparr>netlink_tx := netlink_tx s @ [(ifindex, nr_mac neighbor_reply, nr_ip neighbor_reply)]\<rparr>"

text \<open>
  \<open>get_next_gratuitous_time\<close>. \<open>None\<close> from \<open>sys_base_reachable_time\<close> is a failed
  \<open>fopen\<close> or \<open>fscanf\<close>. The source computes in \<open>double\<close>; the model computes the same
  expression in the reals, so rounding is not part of it. \<open>rand()\<close> is never negative.
\<close>

definition next_gratuitous_seconds :: "real \<Rightarrow> nat \<Rightarrow> real" where
  "next_gratuitous_seconds base_reachable_time rnd =
     base_reachable_time / 4 / 1000 + real (rnd mod 2000) / 1000"

definition get_next_gratuitous_time :: "ptr \<Rightarrow> state \<Rightarrow> fault + (real option \<times> state)" where
  "get_next_gratuitous_time neigh s =
     seq (deref (h_neigh s) neigh) (\<lambda>c.
     seq (deref (h_link_network s) (ngc_sending_link_network c)) (\<lambda>ln.
     seq (deref (h_link s) (lnc_link ln)) (\<lambda>link.
       let s1 = s\<lparr>tick := Suc (tick s)\<rparr> in
       case sys_base_reachable_time s (tick s) (IN6_IS_ADDR_V4MAPPED (ngc_ip c)) (lc_ifname link) of
         None \<Rightarrow> Inr (None, s1)
       | Some base_reachable_time \<Rightarrow>
           Inr (Some (next_gratuitous_seconds base_reachable_time (sys_rand s1 (tick s1))),
                s1\<lparr>tick := Suc (tick s1)\<rparr>))))"

definition new_neigh_timer :: "ptr \<Rightarrow> state \<Rightarrow> fault + (int \<times> state)" where
  "new_neigh_timer neigh s =
     seq (get_next_gratuitous_time neigh s) (\<lambda>(secs, s1).
       case secs of
         None \<Rightarrow> Inr (- 1, s1)
       | Some next_gratuitous_time \<Rightarrow>
           seq (timer_add_neigh neigh next_gratuitous_time s1) (\<lambda>(r, s2).
             if r \<noteq> 0 then Inr (- 1, s2) else Inr (0, s2)))"

text \<open>\<open>send_gratuitous_neighbor_request\<close>: an ARP request for an IPv4-mapped address, a
  Neighbor Solicitation otherwise. The frame is recorded by its addresses; a failed
  \<open>sendto\<close> is logged only.\<close>

definition send_gratuitous_neighbor_request :: "ptr \<Rightarrow> state \<Rightarrow> fault + state" where
  "send_gratuitous_neighbor_request neigh s =
     seq (deref (h_neigh s) neigh) (\<lambda>c.
     seq (deref (h_link_network s) (ngc_sending_link_network c)) (\<lambda>src.
     seq (deref (h_link s) (lnc_link src)) (\<lambda>link.
       let s1 = s\<lparr>tick := Suc (tick s)\<rparr> in
       if sys_send_ok s (tick s)
       then Inr (s1\<lparr>packets := packets s1 @
                      [\<lparr>pr_is_arp = IN6_IS_ADDR_V4MAPPED (ngc_ip c), pr_ifindex = lc_ifindex link,
                        pr_dst_mac = ngc_mac c, pr_src_mac = lc_mac link,
                        pr_src_ip = lnc_ip src, pr_dst_ip = ngc_ip c\<rparr>]\<rparr>)
       else Inr s1)))"

text \<open>\<open>handle_neighbor_reply\<close>, the ring-buffer callback. \<open>link->ifindex\<close> is read once
  here; nothing the handler calls in between writes a Link's \<open>ifindex\<close>.\<close>

definition handle_neighbor_reply :: "neighbor_reply \<Rightarrow> state \<Rightarrow> fault + (int \<times> state)" where
  "handle_neighbor_reply neighbor_reply s =
     (if env_only_ipv6 s \<and> nr_in_family neighbor_reply \<noteq> AF_INET6 then Inr (1, s)
      else if env_only_ipv4 s \<and> nr_in_family neighbor_reply \<noteq> AF_INET then Inr (1, s)
      else
        (let s0 = s\<lparr>env_count := env_count s - 1\<rparr> in
         case cache_get_link_network_by_reply neighbor_reply s0 of
           None \<Rightarrow> Inr (1, s0)
         | Some link_net \<Rightarrow>
             seq (deref (h_link_network s0) link_net) (\<lambda>ln.
             seq (deref (h_link s0) (lnc_link ln)) (\<lambda>link.
             seq (cache_get_fdb_by_reply neighbor_reply (lc_ifindex link) s0) (\<lambda>(fdb, s1).
               case fdb of
                 Some f \<Rightarrow> Inr (0, s1)
               | None \<Rightarrow>
                   seq (cache_get_neigh_by_reply neighbor_reply (lc_ifindex link) s1) (\<lambda>(neigh, s2).
                     case neigh of
                       None \<Rightarrow> Inr (0, netlink_send_neigh neighbor_reply (lc_ifindex link) s2)
                     | Some np \<Rightarrow>
                         seq (deref (h_neigh s2) np) (\<lambda>c.
                           let s3 = (case ngc_timer c of
                                       None \<Rightarrow> s2
                                     | Some t \<Rightarrow> timer_remove_event t s2)
                           in seq (new_neigh_timer np s3) (\<lambda>(r, s4).
                                if r \<noteq> 0 then Inr (1, s4)
                                else Inr (0, netlink_send_neigh neighbor_reply
                                                (lc_ifindex link) s4)))))))))"

definition handle_neigh_add :: "netlink_neigh_cmd \<Rightarrow> state \<Rightarrow> fault + (int \<times> state)" where
  "handle_neigh_add cmd s =
     (if \<not> (env_has_links s \<and> env_has_networks s \<and> env_has_fdb s) then Inr (0, s)
      else if ncmd_ifindex cmd = 0 then Inr (0, s)
      else if is_zero_mac (ncmd_mac cmd) then Inr (0, s)
      else if ncmd_is_externally_learned cmd then Inr (0, s)
      else
        seq (cache_get_link (ncmd_ifindex cmd) s) (\<lambda>(link, s1).
          case link of
            None \<Rightarrow> Inr (0, s1)
          | Some lp \<Rightarrow>
              seq (cache_get_link_network_by_addr lp (ncmd_ip cmd) s1) (\<lambda>link_net.
                case link_net of
                  None \<Rightarrow> Inr (0, s1)
                | Some lnp \<Rightarrow>
                    seq (cache_get_neigh cmd s1) (\<lambda>(neigh, s2).
                    seq (case neigh of
                           Some np \<Rightarrow> seq (cache_neigh_update cmd s2) (\<lambda>(r, s3). Inr (Some np, s3))
                         | None \<Rightarrow> Inr (cache_add_neigh lnp cmd s2)) (\<lambda>(neigh2, s3).
                      case neigh2 of
                        None \<Rightarrow> Inr (0, s3)
                      | Some np \<Rightarrow>
                          seq (deref (h_neigh s3) np) (\<lambda>c.
                          seq (if ngc_nud_state c = NUD_REACHABLE \<and> ngc_timer c = None
                               then new_neigh_timer np s3 else Inr (0, s3)) (\<lambda>(r, s4).
                            if r \<noteq> 0 then Inr (0, s4)
                            else
                              seq (deref (h_neigh s4) np) (\<lambda>c4.
                                if ngc_nud_state c4 = NUD_STALE
                                then seq (send_gratuitous_neighbor_request np s4)
                                       (\<lambda>s5. Inr (0, s5))
                                else Inr (0, s4)))))))))"

definition handle_neigh_del :: "netlink_neigh_cmd \<Rightarrow> state \<Rightarrow> fault + (int \<times> state)" where
  "handle_neigh_del cmd s =
     seq (cache_get_neigh cmd s) (\<lambda>(neigh, s1).
       case neigh of
         None \<Rightarrow> Inr (0, s1)
       | Some np \<Rightarrow>
           seq (deref (h_neigh s1) np) (\<lambda>c.
             let s2 = (case ngc_timer c of
                         None \<Rightarrow> s1
                       | Some t \<Rightarrow>
                           (let s' = timer_remove_event t s1 in
                            s'\<lparr>h_neigh := (h_neigh s')(np \<mapsto> c\<lparr>ngc_timer := None\<rparr>)\<rparr>))
             in seq (cache_del_neigh np s2) (\<lambda>s3. Inr (0, s3))))"

text \<open>\<open>handle_fdb_add\<close>. The guard on \<open>is_externally_learned\<close> leaves with the log line
  "is externally learned: Not cached".\<close>

definition handle_fdb_add :: "netlink_neigh_cmd \<Rightarrow> state \<Rightarrow> fault + (int \<times> state)" where
  "handle_fdb_add cmd s =
     (if \<not> (env_has_links s \<and> env_has_networks s) then Inr (0, s)
      else if ncmd_ifindex cmd = 0 then Inr (0, s)
      else
        seq (cache_get_link (ncmd_ifindex cmd) s) (\<lambda>(link, s1).
          case link of
            None \<Rightarrow> Inr (0, s1)
          | Some lp \<Rightarrow>
              if ncmd_is_externally_learned cmd then Inr (0, s1)
              else
                seq (cache_get_fdb cmd s1) (\<lambda>(fdb, s2).
                  case fdb of
                    Some f \<Rightarrow> Inr (0, s2)
                  | None \<Rightarrow>
                      seq (cache_add_fdb cmd s2) (\<lambda>(fdb2, s3).
                        case fdb2 of
                          None \<Rightarrow> Inr (- 1, s3)
                        | Some f \<Rightarrow> Inr (0, s3)))))"

definition handle_fdb_del :: "netlink_neigh_cmd \<Rightarrow> state \<Rightarrow> fault + (int \<times> state)" where
  "handle_fdb_del cmd s =
     seq (cache_get_fdb cmd s) (\<lambda>(fdb, s1).
       case fdb of
         None \<Rightarrow> Inr (0, s1)
       | Some f \<Rightarrow> Inr (0, snd (cache_del_fdb cmd s1)))"

definition handle_addr_add :: "netlink_addr_cmd \<Rightarrow> state \<Rightarrow> fault + (int \<times> state)" where
  "handle_addr_add cmd s =
     (if \<not> env_has_links s then Inr (0, s)
      else if \<not> env_disable_ipv6ll_filter s \<and> IN6_IS_ADDR_LINKLOCAL (acmd_ip cmd) then Inr (0, s)
      else
        seq (cache_get_link (acmd_ifindex cmd) s) (\<lambda>(link, s1).
          case link of
            None \<Rightarrow> Inr (0, s1)
          | Some lp \<Rightarrow>
              seq (deref (h_link s1) lp) (\<lambda>l.
                if \<not> lc_is_svi l then Inr (0, s1)
                else
                  seq (case cache_get_network cmd s1 of
                         Some np \<Rightarrow> Inr (Some np, s1)
                       | None \<Rightarrow> cache_add_network cmd s1) (\<lambda>(network, s2).
                    case network of
                      None \<Rightarrow> Inr (- 1, s2)
                    | Some np \<Rightarrow>
                        seq (deref (h_link s2) lp) (\<lambda>l2.
                        seq (deref (h_network s2) np) (\<lambda>n.
                          case cache_get_link_network (lc_ifindex l2) (nc_network n) s2 of
                            Some lnp \<Rightarrow> Inr (0, s2)
                          | None \<Rightarrow>
                              (let link_net = brk s2;
                                   s3 = s2\<lparr>brk := Suc (brk s2),
                                           h_link_network := (h_link_network s2)(link_net \<mapsto>
                                             \<lparr>lnc_ip = calculate_network_using_cidr (nc_network n)
                                                         (acmd_prefixlen cmd),
                                              lnc_network = np, lnc_link = lp\<rparr>)\<rparr>
                               in cache_add_link_network link_net s3)))))))"

definition handle_addr_del :: "netlink_addr_cmd \<Rightarrow> state \<Rightarrow> fault + (int \<times> state)" where
  "handle_addr_del cmd s =
     (case cache_get_network cmd s of
        None \<Rightarrow> Inr (0, s)
      | Some network \<Rightarrow> seq (cache_del_network cmd s) (\<lambda>(r, s1). Inr (0, s1)))"

definition filter_deny_interfaces :: "string \<Rightarrow> state \<Rightarrow> bool" where
  "filter_deny_interfaces ifname s =
     (if \<not> env_has_deny_filter s then False
      else if \<not> env_deny_filter s ifname then False
      else True)"

definition handle_link_add :: "netlink_link_cmd \<Rightarrow> state \<Rightarrow> fault + (int \<times> state)" where
  "handle_link_add cmd s =
     seq (cache_get_link (lcmd_ifindex cmd) s) (\<lambda>(link, s1).
       case link of
         Some lp \<Rightarrow> seq (cache_update_link lp cmd s1) (\<lambda>(r, s2). Inr (0, s2))
       | None \<Rightarrow>
           (let (link2, s2) = cache_add_link cmd s1 in
            case link2 of
              None \<Rightarrow> Inr (- 1, s2)
            | Some lp \<Rightarrow>
                seq (deref (h_link s2) lp) (\<lambda>l.
                  let l1 = l\<lparr>lc_is_svi := (lcmd_link_ifindex cmd = env_ifidx_mon s2)\<rparr>;
                      l2 = (if filter_deny_interfaces (lcmd_ifname cmd) s2
                            then l1\<lparr>lc_ignore_link := True\<rparr> else l1)
                  in Inr (0, s2\<lparr>h_link := (h_link s2)(lp \<mapsto> l2)\<rparr>))))"

definition handle_link_del :: "netlink_link_cmd \<Rightarrow> state \<Rightarrow> fault + (int \<times> state)" where
  "handle_link_del cmd s =
     seq (cache_get_link (lcmd_ifindex cmd) s) (\<lambda>(link, s1).
       case link of
         None \<Rightarrow> Inr (0, s1)
       | Some lp \<Rightarrow> seq (cache_del_link cmd s1) (\<lambda>(r, s2). Inr (0, s2)))"

fun handle_netlink_cmd :: "netlink_cmd \<Rightarrow> state \<Rightarrow> fault + (int \<times> state)" where
  "handle_netlink_cmd (CMD_NEIGH_ADD c) s = handle_neigh_add c s"
| "handle_netlink_cmd (CMD_NEIGH_DEL c) s = handle_neigh_del c s"
| "handle_netlink_cmd (CMD_FDB_ADD c) s = handle_fdb_add c s"
| "handle_netlink_cmd (CMD_FDB_DEL c) s = handle_fdb_del c s"
| "handle_netlink_cmd (CMD_ADDR_ADD c) s = handle_addr_add c s"
| "handle_netlink_cmd (CMD_ADDR_DEL c) s = handle_addr_del c s"
| "handle_netlink_cmd (CMD_LINK_ADD c) s = handle_link_add c s"
| "handle_netlink_cmd (CMD_LINK_DEL c) s = handle_link_del c s"

text \<open>
  What reaches the engine: a decoded netlink command, a ring-buffer record, or the end
  of an initial kernel dump, which raises a readiness flag.

  Modelled from the spec: the flags are raised by the netlink layer, outside the two
  source files (section 4.2: "set when the corresponding initial kernel dump
  completes").
\<close>

datatype event = Netlink netlink_cmd | RingBuffer neighbor_reply | DumpDone bool bool bool

fun step :: "event \<Rightarrow> state \<Rightarrow> fault + state" where
  "step (Netlink cmd) s = seq (handle_netlink_cmd cmd s) (\<lambda>(r, s1). Inr s1)"
| "step (RingBuffer r) s = seq (handle_neighbor_reply r s) (\<lambda>(r, s1). Inr s1)"
| "step (DumpDone links networks fdb) s =
     Inr (s\<lparr>env_has_links := env_has_links s \<or> links,
            env_has_networks := env_has_networks s \<or> networks,
            env_has_fdb := env_has_fdb s \<or> fdb\<rparr>)"

fun run :: "event list \<Rightarrow> state \<Rightarrow> fault + state" where
  "run [] s = Inr s"
| "run (e # es) s = seq (step e s) (run es)"

text \<open>The process after \<open>setup_cache\<close>: empty tables and stores, the two static \<open>id\<close>
  counters at 1. The configuration and the environment are those of the argument.\<close>

definition boot :: "state \<Rightarrow> state" where
  "boot s =
     s\<lparr>h_link := Map.empty, h_network := Map.empty, h_link_network := Map.empty,
       h_fdb := Map.empty, h_neigh := Map.empty, brk := 1,
       db_link_cache := Map.empty, db_network_cache := Map.empty, db_fdb_cache := Map.empty,
       db_neigh_cache := Map.empty, db_lookup_addr := Map.empty,
       db_lookup_vlan_networkid := Map.empty, db_lookup_addr_ifindex := Map.empty,
       network_next_id := 1, neigh_next_id := 1,
       env_has_links := False, env_has_networks := False, env_has_fdb := False,
       target_networks := Map.empty, netlink_tx := [], timers := Map.empty,
       packets := [], tick := 0\<rparr>"

section \<open>Observations on states\<close>

text \<open>The seven hash tables hold the same entries in both states.\<close>

definition same_tables :: "state \<Rightarrow> state \<Rightarrow> bool" where
  "same_tables s s' =
     (db_link_cache s' = db_link_cache s \<and> db_network_cache s' = db_network_cache s
      \<and> db_fdb_cache s' = db_fdb_cache s \<and> db_neigh_cache s' = db_neigh_cache s
      \<and> db_lookup_addr s' = db_lookup_addr s
      \<and> db_lookup_vlan_networkid s' = db_lookup_vlan_networkid s
      \<and> db_lookup_addr_ifindex s' = db_lookup_addr_ifindex s)"

text \<open>\<open>post P m\<close>: whatever the computation \<open>m\<close> returns satisfies \<open>P\<close>; a fault returns
  nothing.\<close>

definition post :: "('a \<Rightarrow> bool) \<Rightarrow> fault + 'a \<Rightarrow> bool" where
  "post P m = (\<forall>x. m = Inr x \<longrightarrow> P x)"

text \<open>From \<open>s\<close> to \<open>s'\<close> no Network and no LinkNetwork block was written, allocated or
  freed, the network table holds the same entries, and the allocator only moved on.\<close>

definition net_frame :: "state \<Rightarrow> state \<Rightarrow> bool" where
  "net_frame s s' =
     (brk s \<le> brk s' \<and> h_network s' = h_network s \<and> h_link_network s' = h_link_network s
      \<and> db_network_cache s' = db_network_cache s)"

text \<open>
  The invariant behind the \<open>refcnt\<close> law, on the allocator mark \<open>b\<close>, the Network blocks
  \<open>hn\<close>, the LinkNetwork blocks \<open>hl\<close> and the network table \<open>db\<close>:
  every Network block lies below the mark and its \<open>refcnt\<close> is the length of its
  \<open>links\<close>; every LinkNetwork points below the mark and, unless it is one of \<open>ex\<close> (a
  binding allocated but not yet wired), it is on the \<open>links\<close> list of its Network when
  that block is still allocated; every entry of the network table points to an
  allocated Network that carries the entry's key as its \<open>id\<close>.
\<close>

definition net_inv ::
  "ptr set \<Rightarrow> ptr \<Rightarrow> (ptr \<rightharpoonup> network_cache) \<Rightarrow> (ptr \<rightharpoonup> link_network_cache)
     \<Rightarrow> (u32 \<rightharpoonup> ptr) \<Rightarrow> bool" where
  "net_inv ex b hn hl db =
     ((\<forall>p n. hn p = Some n \<longrightarrow> p < b \<and> nc_refcnt n = int (length (nc_links n)))
      \<and> (\<forall>q c. hl q = Some c
          \<longrightarrow> lnc_network c < b
              \<and> (q \<notin> ex \<longrightarrow> (\<forall>n. hn (lnc_network c) = Some n
                                 \<longrightarrow> q \<in> snd ` set (nc_links n))))
      \<and> (\<forall>i p. db i = Some p \<longrightarrow> (\<exists>n. hn p = Some n \<and> nc_id n = i)))"

definition refcnt_inv :: "ptr set \<Rightarrow> state \<Rightarrow> bool" where
  "refcnt_inv ex s = net_inv ex (brk s) (h_network s) (h_link_network s) (db_network_cache s)"

section \<open>Example worlds and events\<close>

text \<open>A bridge with ifindex 1 is monitored; \<open>br0.10\<close> and \<open>br0.20\<close> are SVIs on it. In
  \<open>world0\<close> every call into the system succeeds, and the allocator is glibc's.\<close>

definition world0 :: state where
  "world0 = \<lparr>h_link = Map.empty, h_network = Map.empty, h_link_network = Map.empty,
     h_fdb = Map.empty, h_neigh = Map.empty, brk = 1,
     db_link_cache = Map.empty, db_network_cache = Map.empty, db_fdb_cache = Map.empty,
     db_neigh_cache = Map.empty, db_lookup_addr = Map.empty,
     db_lookup_vlan_networkid = Map.empty, db_lookup_addr_ifindex = Map.empty,
     network_next_id = 1, neigh_next_id = 1,
     env_has_links = False, env_has_networks = False, env_has_fdb = False,
     env_only_ipv4 = False, env_only_ipv6 = False, env_disable_ipv6ll_filter = False,
     env_count = 0, env_ifidx_mon = 1, env_has_deny_filter = False,
     env_deny_filter = (\<lambda>_. False),
     target_networks = Map.empty, netlink_tx = [], timers = Map.empty,
     packets = [], tick = 0, sys_clock = (\<lambda>n. Some (1000 + n)), sys_bpf_ok = (\<lambda>_. True),
     sys_base_reachable_time = (\<lambda>_ _ _. Some 30000), sys_rand = (\<lambda>_. 1234),
     sys_timer_ok = (\<lambda>_. True), sys_send_ok = (\<lambda>_. True), sys_errno = 22,
     sys_double_free_aborts = True\<rparr>"

definition link_svi10 :: netlink_link_cmd where
  "link_svi10 = \<lparr>lcmd_ifindex = 2, lcmd_ifname = ''br0.10'', lcmd_mac = 0x020000000001,
     lcmd_kind = ''vlan'', lcmd_slave_kind = [], lcmd_vlan_id = 10,
     lcmd_vlan_protocol = 0x8100, lcmd_has_vlan = True, lcmd_is_macvlan = False,
     lcmd_link_ifindex = 1\<rparr>"

definition link_svi20 :: netlink_link_cmd where
  "link_svi20 = \<lparr>lcmd_ifindex = 3, lcmd_ifname = ''br0.20'', lcmd_mac = 0x020000000002,
     lcmd_kind = ''vlan'', lcmd_slave_kind = [], lcmd_vlan_id = 20,
     lcmd_vlan_protocol = 0x8100, lcmd_has_vlan = True, lcmd_is_macvlan = False,
     lcmd_link_ifindex = 1\<rparr>"

text \<open>2001:db8::1/64 on \<open>br0.10\<close> and 2001:db8::2/64 on \<open>br0.20\<close>; the network is
  2001:db8::.\<close>

definition addr_a :: netlink_addr_cmd where
  "addr_a = \<lparr>acmd_ifindex = 2, acmd_ip = 0x20010db8000000000000000000000001,
     acmd_network = 0x20010db8000000000000000000000000, acmd_prefixlen = 64,
     acmd_true_prefixlen = 64\<rparr>"

text \<open>The ADDR DEL that names the network itself, 2001:db8::/64 on \<open>br0.10\<close>.\<close>

definition addr_del_net :: netlink_addr_cmd where
  "addr_del_net = \<lparr>acmd_ifindex = 2, acmd_ip = 0x20010db8000000000000000000000000,
     acmd_network = 0x20010db8000000000000000000000000, acmd_prefixlen = 64,
     acmd_true_prefixlen = 64\<rparr>"

text \<open>10.0.0.1/24 on \<open>br0.10\<close> and 10.0.0.2/24 on \<open>br0.20\<close>, IPv4-mapped; the network is
  ::ffff:10.0.0.0.\<close>

definition addr_v4 :: netlink_addr_cmd where
  "addr_v4 = \<lparr>acmd_ifindex = 2, acmd_ip = 0xffff0a000001, acmd_network = 0xffff0a000000,
     acmd_prefixlen = 24, acmd_true_prefixlen = 24\<rparr>"

definition addr_v4b :: netlink_addr_cmd where
  "addr_v4b = \<lparr>acmd_ifindex = 3, acmd_ip = 0xffff0a000002, acmd_network = 0xffff0a000000,
     acmd_prefixlen = 24, acmd_true_prefixlen = 24\<rparr>"

text \<open>The neighbor 10.0.0.5, reachable, on \<open>br0.10\<close>.\<close>

definition neigh_v4 :: netlink_neigh_cmd where
  "neigh_v4 = \<lparr>ncmd_ifindex = 2, ncmd_vlan_id = 0, ncmd_mac = 0x020000000005,
     ncmd_ip = 0xffff0a000005, ncmd_nud_state = 2, ncmd_is_externally_learned = False\<rparr>"

definition addr_b :: netlink_addr_cmd where
  "addr_b = \<lparr>acmd_ifindex = 3, acmd_ip = 0x20010db8000000000000000000000002,
     acmd_network = 0x20010db8000000000000000000000000, acmd_prefixlen = 64,
     acmd_true_prefixlen = 64\<rparr>"

definition fdb_local :: netlink_neigh_cmd where
  "fdb_local = \<lparr>ncmd_ifindex = 2, ncmd_vlan_id = 10, ncmd_mac = 0x020000000005, ncmd_ip = 0,
     ncmd_nud_state = 0, ncmd_is_externally_learned = False\<rparr>"

definition fdb_ext :: netlink_neigh_cmd where
  "fdb_ext = \<lparr>ncmd_ifindex = 2, ncmd_vlan_id = 10, ncmd_mac = 0x020000000006, ncmd_ip = 0,
     ncmd_nud_state = 0, ncmd_is_externally_learned = True\<rparr>"

definition neigh_a :: netlink_neigh_cmd where
  "neigh_a = \<lparr>ncmd_ifindex = 2, ncmd_vlan_id = 0, ncmd_mac = 0x020000000007,
     ncmd_ip = 0x20010db8000000000000000000000007,
     ncmd_nud_state = 2, ncmd_is_externally_learned = False\<rparr>"

text \<open>A reply for 2001:db8::7 that carries another MAC than the cached Neighbor's, one
  for 2001:db8::5 that carries the MAC of the cached FDB entry, and one for 2001:db8::7
  that carries the MAC of the cached FDB entry.\<close>

definition reply_a :: neighbor_reply where
  "reply_a = \<lparr>nr_in_family = 10, nr_vlan_id = 10, nr_network_id = 1,
     nr_mac = 0x020000000099, nr_ip = 0x20010db8000000000000000000000007\<rparr>"

definition reply_fdb :: neighbor_reply where
  "reply_fdb = \<lparr>nr_in_family = 10, nr_vlan_id = 10, nr_network_id = 1,
     nr_mac = 0x020000000005, nr_ip = 0x20010db8000000000000000000000005\<rparr>"

definition reply_a_fdb :: neighbor_reply where
  "reply_a_fdb = \<lparr>nr_in_family = 10, nr_vlan_id = 10, nr_network_id = 1,
     nr_mac = 0x020000000005, nr_ip = 0x20010db8000000000000000000000007\<rparr>"

definition ev_svi :: "event list" where
  "ev_svi = [DumpDone True True True, Netlink (CMD_LINK_ADD link_svi10)]"

definition ev_net :: "event list" where
  "ev_net = ev_svi @ [Netlink (CMD_ADDR_ADD addr_a)]"

definition ev_full :: "event list" where
  "ev_full = ev_net @ [Netlink (CMD_FDB_ADD fdb_local), Netlink (CMD_NEIGH_ADD neigh_a)]"

text \<open>The clock stops answering after the thirteen calls that \<open>ev_full\<close> makes.\<close>

definition world_clock_stops :: state where
  "world_clock_stops = world0\<lparr>sys_clock := (\<lambda>n. if n < 13 then Some (1000 + n) else None)\<rparr>"

text \<open>Every update of the eBPF target-networks map fails; in the second world the
  allocator does not notice a block released twice.\<close>

definition world_bpf_fails :: state where
  "world_bpf_fails = world0\<lparr>sys_bpf_ok := (\<lambda>_. False)\<rparr>"

definition world_bpf_fails_lax :: state where
  "world_bpf_fails_lax = world_bpf_fails\<lparr>sys_double_free_aborts := False\<rparr>"

text \<open>The sysctl file \<open>base_reachable_time_ms\<close> cannot be read.\<close>

definition world_sysctl_fails :: state where
  "world_sysctl_fails = world0\<lparr>sys_base_reachable_time := (\<lambda>_ _ _. None)\<rparr>"

text \<open>The sysctl file can be read during \<open>ev_full\<close> and no more afterwards.\<close>

definition world_sysctl_stops :: state where
  "world_sysctl_stops =
     world0\<lparr>sys_base_reachable_time := (\<lambda>n _ _. if n < 13 then Some 30000 else None)\<rparr>"

text \<open>Both SVIs are up and the first has its address.\<close>

definition ev_two :: "event list" where
  "ev_two = ev_net @ [Netlink (CMD_LINK_ADD link_svi20)]"

text \<open>The same for the IPv4 network.\<close>

definition ev_two_v4 :: "event list" where
  "ev_two_v4 = ev_svi @ [Netlink (CMD_ADDR_ADD addr_v4), Netlink (CMD_LINK_ADD link_svi20)]"

text \<open>The second SVI gets its address on the same network, then the first SVI goes.\<close>

definition ev_unbind :: "event list" where
  "ev_unbind = ev_two @ [Netlink (CMD_ADDR_ADD addr_b), Netlink (CMD_LINK_DEL link_svi10)]"

section \<open>Basic facts\<close>

lemma seq_Inl [simp]: "seq (Inl e) f = Inl e"
  by (simp add: seq_def)

lemma seq_Inr [simp]: "seq (Inr x) f = f x"
  by (simp add: seq_def)

lemma seq_eq_Inr: "seq m f = Inr y \<longleftrightarrow> (\<exists>x. m = Inr x \<and> f x = Inr y)"
  by (cases m) simp_all

lemma deref_eq_Inr [simp]: "deref h p = Inr x \<longleftrightarrow> h p = Some x"
  by (simp add: deref_def split: option.splits)

lemma deref_Some [simp]: "h p = Some x \<Longrightarrow> deref h p = Inr x"
  by simp

lemma deref_None [simp]: "h p = None \<Longrightarrow> deref h p = Inl UseAfterFree"
  by (simp add: deref_def)

text \<open>A lookup of a cached Link while the clock answers.\<close>

lemma cache_get_link_ok:
  "db_link_cache s i = Some p \<Longrightarrow> h_link s p = Some l \<Longrightarrow> sys_clock s (tick s) = Some t
   \<Longrightarrow> cache_get_link i s
       = Inr (Some p, s\<lparr>tick := Suc (tick s),
                        h_link := (h_link s)(p \<mapsto> l\<lparr>lc_times := (lc_times l)\<lparr>referenced := t\<rparr>,
                                   lc_reference_count := Suc (lc_reference_count l)\<rparr>)\<rparr>)"
  by (simp add: cache_get_link_def clock_gettime_def)

lemmas example_defs = world0_def link_svi10_def link_svi20_def addr_a_def addr_b_def
  addr_del_net_def addr_v4_def addr_v4b_def reply_a_fdb_def world_bpf_fails_lax_def ev_two_v4_def world_sysctl_stops_def
  neigh_v4_def
  fdb_local_def fdb_ext_def neigh_a_def reply_a_def reply_fdb_def boot_def
  ev_svi_def ev_net_def ev_full_def ev_two_def ev_unbind_def world_clock_stops_def world_bpf_fails_def
  world_sysctl_fails_def

lemmas model_defs = deref_def clock_gettime_def bpf_map_update_elem_def bpf_map_delete_elem_def
  g_list_has_node_def times0_def compare_ipv6_addresses_def is_zero_mac_def is_same_mac_def
  calculate_network_using_cidr_def IN6_IS_ADDR_V4MAPPED_def IN6_IS_ADDR_LINKLOCAL_def
  AF_INET_def AF_INET6_def NUD_REACHABLE_def NUD_STALE_def ENOENT_def
  cache_add_link_def cache_update_link_def cache_add_link_network_def cache_del_link_network_def
  cache_get_link_def fdb_table_remove_def cache_del_link_def cache_get_link_network_by_reply_def
  cache_get_link_network_by_addr_def cache_get_link_network_def cache_add_network_err3_def
  cache_add_network_def cache_get_network_by_id_def cache_get_network_def cache_del_network_def
  cache_get_fdb_def cache_get_fdb_by_reply_def cache_add_fdb_def cache_del_fdb_def
  cache_add_neigh_def cache_get_neigh_def cache_get_neigh_by_reply_def cache_neigh_update_def
  cache_del_neigh_def timer_add_neigh_def timer_remove_event_def netlink_send_neigh_def
  next_gratuitous_seconds_def get_next_gratuitous_time_def new_neigh_timer_def
  send_gratuitous_neighbor_request_def handle_neighbor_reply_def handle_neigh_add_def
  handle_neigh_del_def handle_fdb_add_def handle_fdb_del_def handle_addr_add_def
  handle_addr_del_def filter_deny_interfaces_def handle_link_add_def handle_link_del_def
  Let_def mask_eq_exp_minus_1

text \<open>The state after \<open>ev_full\<close>: Link 2 at address 1, Network 1 at 2, their binding at 3,
  the FDB entry at 6, the Neighbor at 7 with its timer at 8.\<close>

lemma st_full_facts:
  "\<exists>s. run ev_full (boot world0) = Inr s
   \<and> db_link_cache s 2 = Some 1 \<and> db_network_cache s 1 = Some 2
   \<and> db_fdb_cache s (0x020000000005, 2, 10) = Some 6
   \<and> db_neigh_cache s (2, 0x20010db8000000000000000000000007) = Some 7
   \<and> db_lookup_vlan_networkid s (1, 10) = Some 3
   \<and> h_link s 1 \<noteq> None \<and> h_network s 2 \<noteq> None
   \<and> h_link_network s 3 \<noteq> None \<and> h_fdb s 6 \<noteq> None
   \<and> h_neigh s 7 \<noteq> None
   \<and> ngc_sending_link_network (the (h_neigh s 7)) = 3
   \<and> ngc_timer (the (h_neigh s 7)) = Some 8
   \<and> ngc_mac (the (h_neigh s 7)) = 0x020000000007
   \<and> lnc_link (the (h_link_network s 3)) = 1
   \<and> lc_ifindex (the (h_link s 1)) = 2
   \<and> fst (the (timers s 8)) = 7
   \<and> sys_base_reachable_time s = (\<lambda>_ _ _. Some 30000)
   \<and> sys_timer_ok s = (\<lambda>_. True) \<and> brk s = 9 \<and> tick s = 13
   \<and> env_only_ipv4 s = False \<and> env_only_ipv6 s = False \<and> netlink_tx s = []"
  by (simp add: example_defs model_defs)

section \<open>The refresh interval\<close>

lemma next_gratuitous_seconds_bounds:
  "B / 4000 \<le> next_gratuitous_seconds B rnd \<and> next_gratuitous_seconds B rnd < B / 4000 + 2"
proof -
  have "rnd mod 2000 < 2000" by simp
  then have "real (rnd mod 2000) < 2000" by linarith
  then have j: "real (rnd mod 2000) / 1000 < 2" by simp
  have k: "0 \<le> real (rnd mod 2000) / 1000" by simp
  have e: "B / 4 / 1000 = B / 4000" by simp
  show ?thesis unfolding next_gratuitous_seconds_def e using j k by linarith
qed

text \<open>
  C8. For a Neighbor whose sending Link's \<open>base_reachable_time_ms\<close> reads as \<open>B\<close>,
  \<open>get_next_gratuitous_time\<close> returns an interval in \<open>[B/4000, B/4000 + 2]\<close> seconds, and
  when the timer module accepts the timer, \<open>new_neigh_timer\<close> arms it with that interval.
  The arithmetic is that of the reals.
\<close>

theorem timer_bound:
  assumes "h_neigh s neigh = Some c"
    and "h_link_network s (ngc_sending_link_network c) = Some bnd"
    and "h_link s (lnc_link bnd) = Some link"
    and "sys_base_reachable_time s (tick s) (IN6_IS_ADDR_V4MAPPED (ngc_ip c)) (lc_ifname link)
           = Some B"
  shows "\<exists>secs s1. get_next_gratuitous_time neigh s = Inr (Some secs, s1)
           \<and> B / 4000 \<le> secs \<and> secs \<le> B / 4000 + 2
           \<and> (sys_timer_ok s (Suc (Suc (tick s)))
                \<longrightarrow> (\<exists>s2. new_neigh_timer neigh s = Inr (0, s2)
                        \<and> timers s2 (brk s) = Some (neigh, secs)))"
  using assms next_gratuitous_seconds_bounds [of B "sys_rand s (Suc (tick s))"]
  by (simp add: get_next_gratuitous_time_def new_neigh_timer_def timer_add_neigh_def Let_def)

theorem timer_bound_witness:
  "\<exists>s c bnd link secs s1 s2.
     run ev_full (boot world0) = Inr s
     \<and> h_neigh s 7 = Some c
     \<and> h_link_network s (ngc_sending_link_network c) = Some bnd
     \<and> h_link s (lnc_link bnd) = Some link
     \<and> sys_base_reachable_time s (tick s) (IN6_IS_ADDR_V4MAPPED (ngc_ip c))
           (lc_ifname link) = Some 30000
     \<and> get_next_gratuitous_time 7 s = Inr (Some secs, s1)
     \<and> 30000 / 4000 \<le> secs \<and> secs \<le> 30000 / 4000 + 2
     \<and> new_neigh_timer 7 s = Inr (0, s2) \<and> timers s2 9 = Some (7, secs)"
proof -
  from st_full_facts obtain s where run: "run ev_full (boot world0) = Inr s"
    and f: "h_neigh s 7 \<noteq> None" "ngc_sending_link_network (the (h_neigh s 7)) = 3"
       "h_link_network s 3 \<noteq> None" "lnc_link (the (h_link_network s 3)) = 1"
       "h_link s 1 \<noteq> None" "sys_base_reachable_time s = (\<lambda>_ _ _. Some 30000)"
       "sys_timer_ok s = (\<lambda>_. True)" "brk s = 9"
    by blast
  obtain c where c: "h_neigh s 7 = Some c" using f by auto
  then have c3: "ngc_sending_link_network c = 3" using f by auto
  obtain bnd where b: "h_link_network s (ngc_sending_link_network c) = Some bnd"
    using f c3 by auto
  then have b1: "lnc_link bnd = 1" using f c3 by auto
  obtain link where l: "h_link s (lnc_link bnd) = Some link"
    using f b1 by auto
  have r: "sys_base_reachable_time s (tick s) (IN6_IS_ADDR_V4MAPPED (ngc_ip c))
             (lc_ifname link) = Some 30000"
    using f by simp
  have ok: "sys_timer_ok s (Suc (Suc (tick s)))" using f by simp
  show ?thesis using timer_bound [OF c b l r] ok run c b l r unfolding f(8) by blast
qed

section \<open>Lookups when the clock fails\<close>

lemma st_clock_stops_facts:
  "\<exists>s. run ev_full (boot world_clock_stops) = Inr s
   \<and> sys_clock s (tick s) = None
   \<and> db_link_cache s 2 = Some 1 \<and> db_network_cache s 1 = Some 2
   \<and> db_fdb_cache s (0x020000000005, 2, 10) = Some 6
   \<and> db_neigh_cache s (2, 0x20010db8000000000000000000000007) = Some 7
   \<and> h_link s 1 \<noteq> None \<and> h_network s 2 \<noteq> None \<and> h_fdb s 6 \<noteq> None \<and> h_neigh s 7 \<noteq> None"
  by (simp add: example_defs model_defs)

text \<open>
  C9. When \<open>clock_gettime\<close> fails during an owning-index lookup of a cached entity,
  only \<open>cache_get_link\<close> returns NULL. \<open>cache_get_network_by_id\<close>, \<open>cache_get_fdb\<close> and
  \<open>cache_get_neigh\<close> return the entity, untouched.
\<close>

theorem lookup_clock_failure:
  assumes "sys_clock s (tick s) = None"
  shows "(db_link_cache s i = Some p \<and> h_link s p = Some l
            \<longrightarrow> cache_get_link i s = Inr (None, s\<lparr>tick := Suc (tick s)\<rparr>))
       \<and> (db_network_cache s nid = Some q \<and> h_network s q = Some n
            \<longrightarrow> cache_get_network_by_id nid s = Inr (Some q, s\<lparr>tick := Suc (tick s)\<rparr>))
       \<and> (db_fdb_cache s (ncmd_mac fcmd, ncmd_ifindex fcmd, ncmd_vlan_id fcmd) = Some r
              \<and> h_fdb s r = Some f
            \<longrightarrow> cache_get_fdb fcmd s = Inr (Some r, s\<lparr>tick := Suc (tick s)\<rparr>))
       \<and> (db_neigh_cache s (ncmd_ifindex ncmd, ncmd_ip ncmd) = Some t \<and> h_neigh s t = Some g
            \<longrightarrow> cache_get_neigh ncmd s = Inr (Some t, s\<lparr>tick := Suc (tick s)\<rparr>))"
  using assms
  by (simp add: cache_get_link_def cache_get_network_by_id_def cache_get_fdb_def
        cache_get_neigh_def clock_gettime_def)

theorem lookup_clock_failure_witness:
  "\<exists>s. run ev_full (boot world_clock_stops) = Inr s
     \<and> sys_clock s (tick s) = None
     \<and> db_link_cache s 2 = Some 1 \<and> h_link s 1 \<noteq> None
     \<and> cache_get_link 2 s = Inr (None, s\<lparr>tick := Suc (tick s)\<rparr>)
     \<and> db_network_cache s 1 = Some 2 \<and> h_network s 2 \<noteq> None
     \<and> cache_get_network_by_id 1 s = Inr (Some 2, s\<lparr>tick := Suc (tick s)\<rparr>)
     \<and> db_fdb_cache s (0x020000000005, 2, 10) = Some 6 \<and> h_fdb s 6 \<noteq> None
     \<and> cache_get_fdb fdb_local s = Inr (Some 6, s\<lparr>tick := Suc (tick s)\<rparr>)
     \<and> db_neigh_cache s (2, 0x20010db8000000000000000000000007) = Some 7 \<and> h_neigh s 7 \<noteq> None
     \<and> cache_get_neigh neigh_a s = Inr (Some 7, s\<lparr>tick := Suc (tick s)\<rparr>)"
proof -
  from st_clock_stops_facts obtain s where run: "run ev_full (boot world_clock_stops) = Inr s"
    and clk: "sys_clock s (tick s) = None"
    and t: "db_link_cache s 2 = Some 1" "db_network_cache s 1 = Some 2"
       "db_fdb_cache s (0x020000000005, 2, 10) = Some 6"
       "db_neigh_cache s (2, 0x20010db8000000000000000000000007) = Some 7"
    and h: "h_link s 1 \<noteq> None" "h_network s 2 \<noteq> None" "h_fdb s 6 \<noteq> None" "h_neigh s 7 \<noteq> None"
    by blast
  from h obtain l n f g where hh: "h_link s 1 = Some l" "h_network s 2 = Some n"
    "h_fdb s 6 = Some f" "h_neigh s 7 = Some g" by auto
  have "ncmd_mac fdb_local = 0x020000000005" "ncmd_ifindex fdb_local = 2"
    "ncmd_vlan_id fdb_local = 10" "ncmd_ifindex neigh_a = 2"
    "ncmd_ip neigh_a = 0x20010db8000000000000000000000007"
    by (simp_all add: fdb_local_def neigh_a_def)
  then show ?thesis
    using lookup_clock_failure [OF clk, of 2 1 l 1 2 n fdb_local 6 f neigh_a 7 g] run clk t h hh
    by auto
qed

section \<open>The cascade of LINK DEL\<close>

lemma cache_del_link_network_fdb:
  "cache_del_link_network q s = Inr s' \<Longrightarrow> db_fdb_cache s' = db_fdb_cache s \<and> h_fdb s' = h_fdb s"
  by (auto simp: cache_del_link_network_def seq_eq_Inr Let_def)

lemma del_link_networks_fdb:
  "del_link_networks cache xs s = Inr s' \<Longrightarrow> db_fdb_cache s' = db_fdb_cache s \<and> h_fdb s' = h_fdb s"
proof (induction xs arbitrary: s)
  case Nil
  then show ?case by simp
next
  case (Cons x xs)
  obtain node d where x: "x = (node, d)" by (cases x)
  from Cons.prems show ?case
    unfolding x
    by (auto simp: seq_eq_Inr split: if_splits dest!: Cons.IH cache_del_link_network_fdb)
qed

lemma fdb_table_remove_other:
  "key \<noteq> key' \<Longrightarrow> db_fdb_cache (fdb_table_remove key s) key' = db_fdb_cache s key'"
  by (simp add: fdb_table_remove_def split: option.splits)

lemma fdb_table_remove_link [simp]:
  "h_link (fdb_table_remove key s) = h_link s"
  by (simp add: fdb_table_remove_def split: option.splits)

lemma del_link_fdbs_keeps:
  "del_link_fdbs xs s = Inr s' \<Longrightarrow> mac \<noteq> 0
     \<Longrightarrow> db_fdb_cache s' (mac, i, v) = db_fdb_cache s (mac, i, v)"
proof (induction xs arbitrary: s)
  case Nil
  then show ?case by simp
next
  case (Cons x xs)
  obtain node d where x: "x = (node, d)" by (cases x)
  from Cons.prems show ?case
    unfolding x
    by (auto simp: seq_eq_Inr fdb_table_remove_other dest!: Cons.IH)
qed

lemma cache_get_link_fdb:
  "cache_get_link i s = Inr (r, s') \<Longrightarrow> db_fdb_cache s' = db_fdb_cache s \<and> h_fdb s' = h_fdb s"
  by (auto simp: cache_get_link_def clock_gettime_def seq_eq_Inr split: option.splits)

lemma cache_del_link_keeps_fdb:
  assumes "cache_del_link cmd s = Inr (r, s')" and "mac \<noteq> 0"
  shows "db_fdb_cache s' (mac, i, v) = db_fdb_cache s (mac, i, v)"
  using assms
  by (auto simp: cache_del_link_def seq_eq_Inr split: option.splits
      dest!: del_link_networks_fdb del_link_fdbs_keeps [where mac = mac and i = i and v = v])

lemma st_link_del_facts:
  "\<exists>s r s'. run ev_full (boot world0) = Inr s
     \<and> handle_link_del link_svi10 s = Inr (r, s')
     \<and> db_fdb_cache s (0x020000000005, 2, 10) = Some 6
     \<and> db_link_cache s' 2 = None \<and> h_link s' 1 = None
     \<and> fc_link (the (h_fdb s' 6)) = 1 \<and> h_fdb s' 6 \<noteq> None
     \<and> db_lookup_vlan_networkid s' (1, 10) = None
     \<and> db_lookup_addr_ifindex s' (0x20010db8000000000000000000000000, 2) = None"
  by (simp add: example_defs model_defs)

text \<open>
  C3. \<open>handle_link_del\<close> leaves every FDB entry with a non-zero MAC in the fdb table:
  the walk over the Link's \<open>fdb_list\<close> removes only keys whose MAC is zero, and nothing
  ever appends to that list. In the witness the entry of the deleted Link stays in the
  table, its \<open>link\<close> pointer now dangling, while the Link and its binding are gone from
  their tables.
\<close>

theorem link_del_keeps_fdb:
  assumes "handle_link_del cmd s = Inr (r, s')" and "mac \<noteq> 0"
  shows "db_fdb_cache s' (mac, i, v) = db_fdb_cache s (mac, i, v)"
  using assms
  by (auto simp: handle_link_del_def seq_eq_Inr split: option.splits
      dest!: cache_get_link_fdb cache_del_link_keeps_fdb [where mac = mac and i = i and v = v])

theorem link_del_keeps_fdb_witness:
  "\<exists>s r s'. run ev_full (boot world0) = Inr s
     \<and> handle_link_del link_svi10 s = Inr (r, s')
     \<and> (0x020000000005 :: mac_addr) \<noteq> 0
     \<and> db_link_cache s' 2 = None \<and> h_link s' 1 = None
     \<and> db_fdb_cache s' (0x020000000005, 2, 10) = Some 6
     \<and> h_fdb s' 6 \<noteq> None \<and> fc_link (the (h_fdb s' 6)) = 1"
proof -
  from st_link_del_facts obtain s r s' where run: "run ev_full (boot world0) = Inr s"
    and d: "handle_link_del link_svi10 s = Inr (r, s')"
    and f: "db_fdb_cache s (0x020000000005, 2, 10) = Some 6"
      "db_link_cache s' 2 = None" "h_link s' 1 = None"
      "fc_link (the (h_fdb s' 6)) = 1" "h_fdb s' 6 \<noteq> None"
    by blast
  have m: "(0x020000000005 :: mac_addr) \<noteq> 0" by simp
  have "db_fdb_cache s' (0x020000000005, 2, 10) = Some 6"
    using link_del_keeps_fdb [OF d m, of 2 10] f by simp
  with run d m f show ?thesis by blast
qed

section \<open>ADDR ADD when the eBPF map update fails\<close>

lemma cache_add_network_bpf_failure:
  assumes "db_link_cache s (acmd_ifindex cmd) = Some lp" and "h_link s lp = Some l"
    and "sys_clock s (tick s) = Some t1"
    and "\<not> sys_bpf_ok s (Suc (tick s))" and "\<not> sys_double_free_aborts s"
  shows "\<exists>s' l'. cache_add_network cmd s = Inr (None, s')
           \<and> db_network_cache s' (network_next_id s) = None
           \<and> db_lookup_addr s' (acmd_network cmd) = None
           \<and> db_lookup_vlan_networkid s' (network_next_id s, lc_vlan_id l) = Some (Suc (brk s))
           \<and> db_lookup_addr_ifindex s' (acmd_network cmd, lc_ifindex l) = Some (Suc (brk s))
           \<and> h_link_network s' (Suc (brk s))
                = Some \<lparr>lnc_ip = acmd_ip cmd, lnc_network = brk s, lnc_link = lp\<rparr>
           \<and> h_network s' (brk s) = None
           \<and> h_link s' lp = Some l'
           \<and> lc_network_list l'
                = lc_network_list l @ [(Suc (Suc (Suc (brk s))), Suc (brk s))]"
  using assms
  by (simp add: cache_get_link_def cache_add_network_def cache_add_link_network_def
        bpf_map_update_elem_def cache_add_network_err3_def clock_gettime_def Let_def)

lemma cache_add_network_bpf_abort:
  assumes "db_link_cache s (acmd_ifindex cmd) = Some lp" and "h_link s lp = Some l"
    and "sys_clock s (tick s) = Some t1"
    and "\<not> sys_bpf_ok s (Suc (tick s))" and "sys_double_free_aborts s"
  shows "cache_add_network cmd s = Inl DoubleFree"
  using assms
  by (simp add: cache_get_link_def cache_add_network_def cache_add_link_network_def
        bpf_map_update_elem_def cache_add_network_err3_def clock_gettime_def Let_def)

lemma st_bpf_fails_abort_facts:
  "\<exists>s. run ev_svi (boot world_bpf_fails) = Inr s
     \<and> env_has_links s \<and> \<not> IN6_IS_ADDR_LINKLOCAL (acmd_ip addr_a)
     \<and> db_link_cache s (acmd_ifindex addr_a) = Some 1 \<and> h_link s 1 \<noteq> None
     \<and> lc_is_svi (the (h_link s 1))
     \<and> db_lookup_addr s (acmd_network addr_a) = None
     \<and> sys_clock s (tick s) \<noteq> None \<and> sys_clock s (Suc (tick s)) \<noteq> None
     \<and> \<not> sys_bpf_ok s (Suc (Suc (tick s))) \<and> sys_double_free_aborts s"
  by (simp add: example_defs model_defs)

lemma st_bpf_fails_facts:
  "\<exists>s. run ev_svi (boot world_bpf_fails_lax) = Inr s
     \<and> env_has_links s \<and> \<not> IN6_IS_ADDR_LINKLOCAL (acmd_ip addr_a)
     \<and> db_link_cache s (acmd_ifindex addr_a) = Some 1 \<and> h_link s 1 \<noteq> None
     \<and> lc_is_svi (the (h_link s 1)) \<and> lc_vlan_id (the (h_link s 1)) = 10
     \<and> lc_ifindex (the (h_link s 1)) = 2 \<and> lc_network_list (the (h_link s 1)) = []
     \<and> db_lookup_addr s (acmd_network addr_a) = None
     \<and> sys_clock s (tick s) \<noteq> None \<and> sys_clock s (Suc (tick s)) \<noteq> None
     \<and> \<not> sys_bpf_ok s (Suc (Suc (tick s))) \<and> \<not> sys_double_free_aborts s
     \<and> network_next_id s = 1 \<and> brk s = 2
     \<and> db_network_cache s = Map.empty \<and> db_lookup_addr s = Map.empty
     \<and> db_lookup_vlan_networkid s = Map.empty \<and> db_lookup_addr_ifindex s = Map.empty
     \<and> h_link_network s = Map.empty"
  by (simp add: example_defs model_defs)

text \<open>
  C4. An ADDR ADD that creates a Network, on an SVI, with the eBPF map update failing.
  The rollback releases the key block of the address table twice. Where the allocator
  aborts on that (glibc), the process ends inside \<open>handle_addr_add\<close>. Where it does not,
  \<open>handle_addr_add\<close> returns -1 and the two Network tables are as before, but the
  LinkNetwork that \<open>cache_add_network\<close> bound stays in both LinkNetwork tables and in
  the Link's list, and its \<open>network\<close> pointer is the address of the freed Network.
\<close>

theorem addr_add_bpf_failure:
  assumes "env_has_links s"
    and "\<not> (\<not> env_disable_ipv6ll_filter s \<and> IN6_IS_ADDR_LINKLOCAL (acmd_ip cmd))"
    and "db_link_cache s (acmd_ifindex cmd) = Some lp" and "h_link s lp = Some l"
    and "lc_is_svi l"
    and "db_lookup_addr s (acmd_network cmd) = None"
    and "sys_clock s (tick s) = Some t0" and "sys_clock s (Suc (tick s)) = Some t1"
    and "\<not> sys_bpf_ok s (Suc (Suc (tick s)))"
  shows "if sys_double_free_aborts s then handle_addr_add cmd s = Inl DoubleFree
         else (\<exists>s' l'. handle_addr_add cmd s = Inr (- 1, s')
           \<and> db_network_cache s' (network_next_id s) = None
           \<and> db_lookup_addr s' (acmd_network cmd) = None
           \<and> db_lookup_vlan_networkid s' (network_next_id s, lc_vlan_id l) = Some (Suc (brk s))
           \<and> db_lookup_addr_ifindex s' (acmd_network cmd, lc_ifindex l) = Some (Suc (brk s))
           \<and> h_link_network s' (Suc (brk s))
                = Some \<lparr>lnc_ip = acmd_ip cmd, lnc_network = brk s, lnc_link = lp\<rparr>
           \<and> h_network s' (brk s) = None
           \<and> h_link s' lp = Some l'
           \<and> lc_network_list l'
                = lc_network_list l @ [(Suc (Suc (Suc (brk s))), Suc (brk s))])"
proof -
  define l1 where "l1 = l\<lparr>lc_times := (lc_times l)\<lparr>referenced := t0\<rparr>,
                         lc_reference_count := Suc (lc_reference_count l)\<rparr>"
  define s1 where "s1 = s\<lparr>tick := Suc (tick s), h_link := (h_link s)(lp \<mapsto> l1)\<rparr>"
  have g: "cache_get_link (acmd_ifindex cmd) s = Inr (Some lp, s1)"
    unfolding s1_def l1_def using assms(3,4,7) by (rule cache_get_link_ok)
  have p: "db_link_cache s1 (acmd_ifindex cmd) = Some lp" "h_link s1 lp = Some l1"
    "sys_clock s1 (tick s1) = Some t1" "\<not> sys_bpf_ok s1 (Suc (tick s1))"
    "db_lookup_addr s1 (acmd_network cmd) = None" "lc_is_svi l1"
    using assms by (simp_all add: s1_def l1_def)
  have q: "network_next_id s1 = network_next_id s" "brk s1 = brk s"
    "lc_vlan_id l1 = lc_vlan_id l" "lc_ifindex l1 = lc_ifindex l"
    "lc_network_list l1 = lc_network_list l"
    "sys_double_free_aborts s1 = sys_double_free_aborts s"
    by (simp_all add: s1_def l1_def)
  have f: "(\<not> env_disable_ipv6ll_filter s \<and> IN6_IS_ADDR_LINKLOCAL (acmd_ip cmd)) = False"
    using assms(2) by simp
  show ?thesis
  proof (cases "sys_double_free_aborts s")
    case True
    with q have "sys_double_free_aborts s1" by simp
    from cache_add_network_bpf_abort [OF p(1,2,3,4) this]
    have "handle_addr_add cmd s = Inl DoubleFree"
      using assms(1) g p(2,5,6) by (simp add: handle_addr_add_def cache_get_network_def f)
    with True show ?thesis by simp
  next
    case False
    with q have "\<not> sys_double_free_aborts s1" by simp
    from cache_add_network_bpf_failure [OF p(1,2,3,4) this] obtain s' l' where
      a: "cache_add_network cmd s1 = Inr (None, s')"
      and r: "db_network_cache s' (network_next_id s1) = None"
        "db_lookup_addr s' (acmd_network cmd) = None"
        "db_lookup_vlan_networkid s' (network_next_id s1, lc_vlan_id l1) = Some (Suc (brk s1))"
        "db_lookup_addr_ifindex s' (acmd_network cmd, lc_ifindex l1) = Some (Suc (brk s1))"
        "h_link_network s' (Suc (brk s1))
           = Some \<lparr>lnc_ip = acmd_ip cmd, lnc_network = brk s1, lnc_link = lp\<rparr>"
        "h_network s' (brk s1) = None" "h_link s' lp = Some l'"
        "lc_network_list l' = lc_network_list l1 @ [(Suc (Suc (Suc (brk s1))), Suc (brk s1))]"
      by blast
    have "handle_addr_add cmd s = Inr (- 1, s')"
      using assms(1) g p(2,5,6) a by (simp add: handle_addr_add_def cache_get_network_def f)
    with r have "\<exists>s' l'. handle_addr_add cmd s = Inr (- 1, s')
           \<and> db_network_cache s' (network_next_id s) = None
           \<and> db_lookup_addr s' (acmd_network cmd) = None
           \<and> db_lookup_vlan_networkid s' (network_next_id s, lc_vlan_id l) = Some (Suc (brk s))
           \<and> db_lookup_addr_ifindex s' (acmd_network cmd, lc_ifindex l) = Some (Suc (brk s))
           \<and> h_link_network s' (Suc (brk s))
                = Some \<lparr>lnc_ip = acmd_ip cmd, lnc_network = brk s, lnc_link = lp\<rparr>
           \<and> h_network s' (brk s) = None
           \<and> h_link s' lp = Some l'
           \<and> lc_network_list l'
                = lc_network_list l @ [(Suc (Suc (Suc (brk s))), Suc (brk s))]"
      unfolding q by blast
    with False show ?thesis by simp
  qed
qed

theorem addr_add_bpf_failure_witness:
  "\<exists>s s' l' u. run ev_svi (boot world_bpf_fails_lax) = Inr s
     \<and> env_has_links s
     \<and> \<not> (\<not> env_disable_ipv6ll_filter s \<and> IN6_IS_ADDR_LINKLOCAL (acmd_ip addr_a))
     \<and> db_link_cache s (acmd_ifindex addr_a) = Some 1 \<and> lc_is_svi (the (h_link s 1))
     \<and> sys_clock s (tick s) \<noteq> None \<and> sys_clock s (Suc (tick s)) \<noteq> None
     \<and> \<not> sys_bpf_ok s (Suc (Suc (tick s))) \<and> \<not> sys_double_free_aborts s
     \<and> db_network_cache s = Map.empty \<and> db_lookup_addr s = Map.empty
     \<and> db_lookup_vlan_networkid s = Map.empty \<and> db_lookup_addr_ifindex s = Map.empty
     \<and> h_link_network s = Map.empty \<and> lc_network_list (the (h_link s 1)) = []
     \<and> handle_addr_add addr_a s = Inr (- 1, s')
     \<and> db_network_cache s' 1 = None
     \<and> db_lookup_addr s' 0x20010db8000000000000000000000000 = None
     \<and> db_lookup_vlan_networkid s' (1, 10) = Some 3
     \<and> db_lookup_addr_ifindex s' (0x20010db8000000000000000000000000, 2) = Some 3
     \<and> h_link_network s' 3
          = Some \<lparr>lnc_ip = 0x20010db8000000000000000000000001, lnc_network = 2, lnc_link = 1\<rparr>
     \<and> h_network s' 2 = None
     \<and> h_link s' 1 = Some l' \<and> lc_network_list l' = [(5, 3)]
     \<and> run ev_svi (boot world_bpf_fails) = Inr u
     \<and> db_link_cache u (acmd_ifindex addr_a) = Some 1 \<and> lc_is_svi (the (h_link u 1))
     \<and> \<not> sys_bpf_ok u (Suc (Suc (tick u))) \<and> sys_double_free_aborts u
     \<and> handle_addr_add addr_a u = Inl DoubleFree"
proof -
  from st_bpf_fails_facts obtain s where run: "run ev_svi (boot world_bpf_fails_lax) = Inr s"
    and a: "env_has_links s" "\<not> IN6_IS_ADDR_LINKLOCAL (acmd_ip addr_a)"
      "db_link_cache s (acmd_ifindex addr_a) = Some 1" "h_link s 1 \<noteq> None"
      "lc_is_svi (the (h_link s 1))" "db_lookup_addr s (acmd_network addr_a) = None"
      "sys_clock s (tick s) \<noteq> None" "sys_clock s (Suc (tick s)) \<noteq> None"
      "\<not> sys_bpf_ok s (Suc (Suc (tick s)))" "\<not> sys_double_free_aborts s"
    and v: "lc_vlan_id (the (h_link s 1)) = 10" "lc_ifindex (the (h_link s 1)) = 2"
      "lc_network_list (the (h_link s 1)) = []" "network_next_id s = 1" "brk s = 2"
    and e: "db_network_cache s = Map.empty" "db_lookup_addr s = Map.empty"
      "db_lookup_vlan_networkid s = Map.empty" "db_lookup_addr_ifindex s = Map.empty"
      "h_link_network s = Map.empty"
    by blast
  from a obtain l t0 t1 where l: "h_link s 1 = Some l" and t: "sys_clock s (tick s) = Some t0"
    "sys_clock s (Suc (tick s)) = Some t1" by auto
  have svi: "lc_is_svi l" using a l by simp
  have f: "\<not> (\<not> env_disable_ipv6ll_filter s \<and> IN6_IS_ADDR_LINKLOCAL (acmd_ip addr_a))"
    using a by simp
  have n: "acmd_network addr_a = 0x20010db8000000000000000000000000"
    "acmd_ip addr_a = 0x20010db8000000000000000000000001" by (simp_all add: addr_a_def)
  have k: "Suc 2 = 3" "Suc (Suc (Suc 2)) = 5" by simp_all
  from addr_add_bpf_failure [OF a(1) f a(3) l svi a(6) t a(9)] a(10) obtain s' l' where
    x: "handle_addr_add addr_a s = Inr (- 1, s')"
    "db_network_cache s' 1 = None"
    "db_lookup_addr s' 0x20010db8000000000000000000000000 = None"
    "db_lookup_vlan_networkid s' (1, 10) = Some 3"
    "db_lookup_addr_ifindex s' (0x20010db8000000000000000000000000, 2) = Some 3"
    "h_link_network s' 3
       = Some \<lparr>lnc_ip = 0x20010db8000000000000000000000001, lnc_network = 2, lnc_link = 1\<rparr>"
    "h_network s' 2 = None" "h_link s' 1 = Some l'" "lc_network_list l' = [(5, 3)]"
    using v l unfolding n by (auto simp: k)
  from st_bpf_fails_abort_facts obtain u where run2: "run ev_svi (boot world_bpf_fails) = Inr u"
    and b: "env_has_links u" "\<not> IN6_IS_ADDR_LINKLOCAL (acmd_ip addr_a)"
      "db_link_cache u (acmd_ifindex addr_a) = Some 1" "h_link u 1 \<noteq> None"
      "lc_is_svi (the (h_link u 1))" "db_lookup_addr u (acmd_network addr_a) = None"
      "sys_clock u (tick u) \<noteq> None" "sys_clock u (Suc (tick u)) \<noteq> None"
      "\<not> sys_bpf_ok u (Suc (Suc (tick u)))" "sys_double_free_aborts u"
    by blast
  from b obtain l2 u0 u1 where l2: "h_link u 1 = Some l2"
    and t2: "sys_clock u (tick u) = Some u0" "sys_clock u (Suc (tick u)) = Some u1" by auto
  have svi2: "lc_is_svi l2" using b l2 by simp
  have f2: "\<not> (\<not> env_disable_ipv6ll_filter u \<and> IN6_IS_ADDR_LINKLOCAL (acmd_ip addr_a))"
    using b by simp
  from addr_add_bpf_failure [OF b(1) f2 b(3) l2 svi2 b(6) t2 b(9)] b(10)
  have y: "handle_addr_add addr_a u = Inl DoubleFree" by simp
  from run a f e v x run2 b y show ?thesis by blast
qed

section \<open>FDB ADD\<close>

lemma cache_get_fdb_frame:
  "cache_get_fdb cmd s = Inr (r, s') \<Longrightarrow> db_fdb_cache s' = db_fdb_cache s"
  by (auto simp: cache_get_fdb_def clock_gettime_def seq_eq_Inr split: option.splits)

lemma cache_add_fdb_ok:
  assumes "db_link_cache s (ncmd_ifindex cmd) = Some lp" and "h_link s lp = Some l"
    and "sys_clock s (tick s) = Some t1" and "sys_clock s (Suc (tick s)) = Some t2"
    and "db_fdb_cache s (ncmd_mac cmd, ncmd_ifindex cmd, ncmd_vlan_id cmd) = None"
  shows "\<exists>s'. cache_add_fdb cmd s = Inr (Some (brk s), s')
           \<and> db_fdb_cache s'
               = (db_fdb_cache s)((ncmd_mac cmd, ncmd_ifindex cmd, ncmd_vlan_id cmd) \<mapsto> brk s)
           \<and> h_fdb s'
               = (h_fdb s)(brk s \<mapsto> \<lparr>fc_mac = ncmd_mac cmd, fc_link = lp,
                    fc_vlan_id = ncmd_vlan_id cmd,
                    fc_times = \<lparr>created = t2, updated = 0, referenced = t2\<rparr>,
                    fc_reference_count = 0\<rparr>)"
  using assms
  by (simp add: cache_add_fdb_def cache_get_link_def clock_gettime_def fdb_table_remove_def
        Let_def)

lemma handle_fdb_add_external:
  assumes "ncmd_is_externally_learned cmd" and "handle_fdb_add cmd s = Inr (r, s')"
  shows "db_fdb_cache s' = db_fdb_cache s \<and> h_fdb s' = h_fdb s"
  using assms
  by (auto simp: handle_fdb_add_def seq_eq_Inr split: if_splits option.splits
      dest!: cache_get_link_fdb)

lemma handle_fdb_add_local:
  assumes "env_has_links s" and "env_has_networks s" and "ncmd_ifindex cmd \<noteq> 0"
    and "db_link_cache s (ncmd_ifindex cmd) = Some lp" and "h_link s lp = Some l"
    and "sys_clock s (tick s) = Some t0" and "sys_clock s (Suc (tick s)) = Some t1"
    and "sys_clock s (Suc (Suc (tick s))) = Some t2"
    and "db_fdb_cache s (ncmd_mac cmd, ncmd_ifindex cmd, ncmd_vlan_id cmd) = None"
    and "\<not> ncmd_is_externally_learned cmd"
  shows "\<exists>s'. handle_fdb_add cmd s = Inr (0, s')
           \<and> db_fdb_cache s'
               = (db_fdb_cache s)((ncmd_mac cmd, ncmd_ifindex cmd, ncmd_vlan_id cmd) \<mapsto> brk s)
           \<and> h_fdb s'
               = (h_fdb s)(brk s \<mapsto> \<lparr>fc_mac = ncmd_mac cmd, fc_link = lp,
                    fc_vlan_id = ncmd_vlan_id cmd,
                    fc_times = \<lparr>created = t2, updated = 0, referenced = t2\<rparr>,
                    fc_reference_count = 0\<rparr>)"
proof -
  define l1 where "l1 = l\<lparr>lc_times := (lc_times l)\<lparr>referenced := t0\<rparr>,
                         lc_reference_count := Suc (lc_reference_count l)\<rparr>"
  define s1 where "s1 = s\<lparr>tick := Suc (tick s), h_link := (h_link s)(lp \<mapsto> l1)\<rparr>"
  have g: "cache_get_link (ncmd_ifindex cmd) s = Inr (Some lp, s1)"
    unfolding s1_def l1_def using assms(4,5,6) by (rule cache_get_link_ok)
  have p: "db_link_cache s1 (ncmd_ifindex cmd) = Some lp" "h_link s1 lp = Some l1"
    "sys_clock s1 (tick s1) = Some t1" "sys_clock s1 (Suc (tick s1)) = Some t2"
    "db_fdb_cache s1 (ncmd_mac cmd, ncmd_ifindex cmd, ncmd_vlan_id cmd) = None"
    using assms by (simp_all add: s1_def)
  have q: "db_fdb_cache s1 = db_fdb_cache s" "h_fdb s1 = h_fdb s" "brk s1 = brk s"
    by (simp_all add: s1_def)
  have m: "cache_get_fdb cmd s1 = Inr (None, s1)"
    using p(5) by (simp add: cache_get_fdb_def)
  from cache_add_fdb_ok [OF p] obtain s' where
    a: "cache_add_fdb cmd s1 = Inr (Some (brk s1), s')"
    and r: "db_fdb_cache s'
             = (db_fdb_cache s1)((ncmd_mac cmd, ncmd_ifindex cmd, ncmd_vlan_id cmd) \<mapsto> brk s1)"
       "h_fdb s'
          = (h_fdb s1)(brk s1 \<mapsto> \<lparr>fc_mac = ncmd_mac cmd, fc_link = lp,
               fc_vlan_id = ncmd_vlan_id cmd,
               fc_times = \<lparr>created = t2, updated = 0, referenced = t2\<rparr>,
               fc_reference_count = 0\<rparr>)"
    by blast
  have "handle_fdb_add cmd s = Inr (0, s')"
    using assms(1,2,3,10) g m a by (simp add: handle_fdb_add_def)
  with r show ?thesis unfolding q by blast
qed

lemma st_net_fdb_facts:
  "\<exists>s. run ev_net (boot world0) = Inr s
     \<and> env_has_links s \<and> env_has_networks s
     \<and> db_link_cache s 2 = Some 1 \<and> h_link s 1 \<noteq> None
     \<and> sys_clock s (tick s) \<noteq> None \<and> sys_clock s (Suc (tick s)) \<noteq> None
     \<and> sys_clock s (Suc (Suc (tick s))) \<noteq> None
     \<and> db_fdb_cache s = Map.empty \<and> h_fdb s = Map.empty \<and> brk s = 6"
  by (simp add: example_defs model_defs)

text \<open>The claim as stated fails both ways: after the network is up, the
  externally-learned entry is not cached and the locally learned one is.\<close>

theorem fdb_add_counterexample:
  "\<exists>s s1 s2. run ev_net (boot world0) = Inr s
     \<and> ncmd_is_externally_learned fdb_ext
     \<and> handle_fdb_add fdb_ext s = Inr (0, s1)
     \<and> db_fdb_cache s1 (ncmd_mac fdb_ext, ncmd_ifindex fdb_ext, ncmd_vlan_id fdb_ext) = None
     \<and> \<not> ncmd_is_externally_learned fdb_local
     \<and> handle_fdb_add fdb_local s = Inr (0, s2)
     \<and> db_fdb_cache s2 (ncmd_mac fdb_local, ncmd_ifindex fdb_local, ncmd_vlan_id fdb_local)
          = Some 6"
  by (simp add: example_defs model_defs)

text \<open>
  C1, as amended. An FDB ADD that the kernel marks externally-learned never changes the
  fdb table. An FDB ADD that is not so marked, arriving when \<open>has_links\<close> and
  \<open>has_networks\<close> are set, for a non-zero \<open>ifindex\<close> of a cached Link, with the clock
  answering and the key not yet in the table, is inserted into the fdb table with a
  back-reference to that Link.
\<close>

theorem fdb_add_caches_unless_external:
  "(ncmd_is_externally_learned cmd
      \<longrightarrow> (\<forall>r s'. handle_fdb_add cmd s = Inr (r, s')
             \<longrightarrow> db_fdb_cache s' = db_fdb_cache s \<and> h_fdb s' = h_fdb s))
   \<and> (\<not> ncmd_is_externally_learned cmd
       \<and> env_has_links s \<and> env_has_networks s \<and> ncmd_ifindex cmd \<noteq> 0
       \<and> db_link_cache s (ncmd_ifindex cmd) = Some lp \<and> h_link s lp = Some l
       \<and> sys_clock s (tick s) = Some t0 \<and> sys_clock s (Suc (tick s)) = Some t1
       \<and> sys_clock s (Suc (Suc (tick s))) = Some t2
       \<and> db_fdb_cache s (ncmd_mac cmd, ncmd_ifindex cmd, ncmd_vlan_id cmd) = None
      \<longrightarrow> (\<exists>s'. handle_fdb_add cmd s = Inr (0, s')
             \<and> db_fdb_cache s'
                 = (db_fdb_cache s)((ncmd_mac cmd, ncmd_ifindex cmd, ncmd_vlan_id cmd) \<mapsto> brk s)
             \<and> h_fdb s'
                 = (h_fdb s)(brk s \<mapsto> \<lparr>fc_mac = ncmd_mac cmd, fc_link = lp,
                      fc_vlan_id = ncmd_vlan_id cmd,
                      fc_times = \<lparr>created = t2, updated = 0, referenced = t2\<rparr>,
                      fc_reference_count = 0\<rparr>)))"
  using handle_fdb_add_external [of cmd s] handle_fdb_add_local [of s cmd lp l t0 t1 t2]
  by blast

theorem fdb_add_caches_unless_external_witness:
  "\<exists>s s1 s2 fdb. run ev_net (boot world0) = Inr s
     \<and> ncmd_is_externally_learned fdb_ext
     \<and> handle_fdb_add fdb_ext s = Inr (0, s1)
     \<and> db_fdb_cache s1 = db_fdb_cache s \<and> h_fdb s1 = h_fdb s
     \<and> \<not> ncmd_is_externally_learned fdb_local
     \<and> env_has_links s \<and> env_has_networks s \<and> ncmd_ifindex fdb_local \<noteq> 0
     \<and> db_link_cache s (ncmd_ifindex fdb_local) = Some 1 \<and> h_link s 1 \<noteq> None
     \<and> sys_clock s (tick s) \<noteq> None \<and> sys_clock s (Suc (tick s)) \<noteq> None
     \<and> sys_clock s (Suc (Suc (tick s))) \<noteq> None
     \<and> db_fdb_cache s (0x020000000005, 2, 10) = None
     \<and> handle_fdb_add fdb_local s = Inr (0, s2)
     \<and> db_fdb_cache s2 = (db_fdb_cache s)((0x020000000005, 2, 10) \<mapsto> 6)
     \<and> h_fdb s2 6 = Some fdb \<and> fc_mac fdb = 0x020000000005 \<and> fc_link fdb = 1
     \<and> fc_vlan_id fdb = 10"
proof -
  from st_net_fdb_facts obtain s where run: "run ev_net (boot world0) = Inr s"
    and a: "env_has_links s" "env_has_networks s" "db_link_cache s 2 = Some 1"
      "h_link s 1 \<noteq> None" "sys_clock s (tick s) \<noteq> None" "sys_clock s (Suc (tick s)) \<noteq> None"
      "sys_clock s (Suc (Suc (tick s))) \<noteq> None" "db_fdb_cache s = Map.empty"
      "h_fdb s = Map.empty" "brk s = 6"
    by blast
  from a obtain l t0 t1 t2 where l: "h_link s 1 = Some l"
    and t: "sys_clock s (tick s) = Some t0" "sys_clock s (Suc (tick s)) = Some t1"
       "sys_clock s (Suc (Suc (tick s))) = Some t2" by auto
  have c: "ncmd_is_externally_learned fdb_ext" "\<not> ncmd_is_externally_learned fdb_local"
    "ncmd_ifindex fdb_local = 2" "ncmd_mac fdb_local = 0x020000000005"
    "ncmd_vlan_id fdb_local = 10" "ncmd_ifindex fdb_ext = 2"
    by (simp_all add: fdb_ext_def fdb_local_def)
  have x: "\<exists>s1. handle_fdb_add fdb_ext s = Inr (0, s1)"
    using a(1,2,3) l t(1) c
    by (simp add: handle_fdb_add_def cache_get_link_def clock_gettime_def)
  then obtain s1 where x1: "handle_fdb_add fdb_ext s = Inr (0, s1)" by blast
  have e: "db_fdb_cache s1 = db_fdb_cache s \<and> h_fdb s1 = h_fdb s"
    using fdb_add_caches_unless_external [of fdb_ext s] c(1) x1 by blast
  have k: "db_fdb_cache s (ncmd_mac fdb_local, ncmd_ifindex fdb_local, ncmd_vlan_id fdb_local)
             = None"
    using a(8) by simp
  have i0: "ncmd_ifindex fdb_local \<noteq> 0" using c by simp
  have lk: "db_link_cache s (ncmd_ifindex fdb_local) = Some 1" using a c by simp
  from fdb_add_caches_unless_external [of fdb_local s 1 l t0 t1 t2] c(2) a(1,2) i0 lk l t k
  obtain s2 where y: "handle_fdb_add fdb_local s = Inr (0, s2)"
    and z: "db_fdb_cache s2
              = (db_fdb_cache s)((ncmd_mac fdb_local, ncmd_ifindex fdb_local,
                   ncmd_vlan_id fdb_local) \<mapsto> brk s)"
      "h_fdb s2 = (h_fdb s)(brk s \<mapsto> \<lparr>fc_mac = ncmd_mac fdb_local, fc_link = 1,
                      fc_vlan_id = ncmd_vlan_id fdb_local,
                      fc_times = \<lparr>created = t2, updated = 0, referenced = t2\<rparr>,
                      fc_reference_count = 0\<rparr>)"
    by blast
  have z1: "db_fdb_cache s2 = (db_fdb_cache s)((0x020000000005, 2, 10) \<mapsto> 6)"
    using z(1) c a(10) by simp
  have z2: "\<exists>fdb. h_fdb s2 6 = Some fdb \<and> fc_mac fdb = 0x020000000005 \<and> fc_link fdb = 1
              \<and> fc_vlan_id fdb = 10"
    using z(2) c a(10) by simp
  from run c x1 e a i0 lk k y z1 z2 show ?thesis unfolding c by blast
qed

section \<open>A reply whose MAC is in the fdb table\<close>

lemma cache_get_fdb_hit:
  assumes "db_fdb_cache s (ncmd_mac cmd, ncmd_ifindex cmd, ncmd_vlan_id cmd) = Some p"
    and "h_fdb s p = Some f"
  shows "\<exists>s'. cache_get_fdb cmd s = Inr (Some p, s')
           \<and> netlink_tx s' = netlink_tx s \<and> timers s' = timers s \<and> same_tables s s'
           \<and> h_link s' = h_link s \<and> h_network s' = h_network s
           \<and> h_link_network s' = h_link_network s \<and> h_neigh s' = h_neigh s
           \<and> (h_fdb s' = h_fdb s
                \<or> (\<exists>now. h_fdb s' = (h_fdb s)(p \<mapsto>
                       f\<lparr>fc_times := (fc_times f)\<lparr>referenced := now\<rparr>,
                         fc_reference_count := Suc (fc_reference_count f)\<rparr>)))"
  using assms
  by (cases "sys_clock s (tick s)")
     (auto simp: cache_get_fdb_def clock_gettime_def same_tables_def)

lemma st_full_reply_fdb_facts:
  "\<exists>s s'. run ev_full (boot world0) = Inr s
     \<and> db_lookup_vlan_networkid s (nr_network_id reply_fdb, nr_vlan_id reply_fdb) = Some 3
     \<and> h_link_network s 3 \<noteq> None \<and> lnc_link (the (h_link_network s 3)) = 1
     \<and> h_link s 1 \<noteq> None \<and> lc_ifindex (the (h_link s 1)) = 2
     \<and> db_fdb_cache s (nr_mac reply_fdb, 2, nr_vlan_id reply_fdb) = Some 6
     \<and> h_fdb s 6 \<noteq> None \<and> fc_reference_count (the (h_fdb s 6)) = 0
     \<and> handle_neighbor_reply reply_fdb s = Inr (0, s')
     \<and> fc_reference_count (the (h_fdb s' 6)) = 1"
  by (simp add: example_defs model_defs)

text \<open>The claim as stated, "no cache mutation", fails: the lookup that finds the FDB
  entry counts the reference in the entry.\<close>

theorem reply_fdb_hit_counterexample:
  "\<exists>s s'. run ev_full (boot world0) = Inr s
     \<and> db_fdb_cache s (nr_mac reply_fdb, 2, nr_vlan_id reply_fdb) = Some 6
     \<and> handle_neighbor_reply reply_fdb s = Inr (0, s')
     \<and> fc_reference_count (the (h_fdb s 6)) = 0
     \<and> fc_reference_count (the (h_fdb s' 6)) = 1
     \<and> h_fdb s' \<noteq> h_fdb s"
proof -
  from st_full_reply_fdb_facts obtain s s' where
    a: "run ev_full (boot world0) = Inr s"
      "db_fdb_cache s (nr_mac reply_fdb, 2, nr_vlan_id reply_fdb) = Some 6"
      "handle_neighbor_reply reply_fdb s = Inr (0, s')"
      "fc_reference_count (the (h_fdb s 6)) = 0"
      "fc_reference_count (the (h_fdb s' 6)) = 1"
    by blast
  then have "h_fdb s' \<noteq> h_fdb s" by auto
  with a show ?thesis by blast
qed

text \<open>
  C2, as amended. A reply that resolves a LinkNetwork and whose
  \<open>(mac, link.ifindex, vlan_id)\<close> is in the fdb table enqueues no netlink \<open>NEIGH_ADD\<close>,
  touches no timer, leaves all seven tables as they are and leaves every cached block
  as it is, except that the lookup may bump the matched FDB entry's \<open>referenced\<close> time
  and \<open>reference_count\<close>.
\<close>

theorem reply_fdb_hit:
  assumes "db_lookup_vlan_networkid s (nr_network_id r, nr_vlan_id r) = Some q"
    and "h_link_network s q = Some b" and "h_link s (lnc_link b) = Some l"
    and "db_fdb_cache s (nr_mac r, lc_ifindex l, nr_vlan_id r) = Some p"
    and "h_fdb s p = Some f"
  shows "\<exists>ret s'. handle_neighbor_reply r s = Inr (ret, s')
           \<and> netlink_tx s' = netlink_tx s \<and> timers s' = timers s \<and> same_tables s s'
           \<and> h_link s' = h_link s \<and> h_network s' = h_network s
           \<and> h_link_network s' = h_link_network s \<and> h_neigh s' = h_neigh s
           \<and> (h_fdb s' = h_fdb s
                \<or> (\<exists>now. h_fdb s' = (h_fdb s)(p \<mapsto>
                       f\<lparr>fc_times := (fc_times f)\<lparr>referenced := now\<rparr>,
                         fc_reference_count := Suc (fc_reference_count f)\<rparr>)))"
proof (cases "(env_only_ipv6 s \<and> nr_in_family r \<noteq> AF_INET6)
              \<or> (env_only_ipv4 s \<and> nr_in_family r \<noteq> AF_INET)")
  case True
  then have "handle_neighbor_reply r s = Inr (1, s)"
    by (auto simp: handle_neighbor_reply_def)
  then show ?thesis by (simp add: same_tables_def)
next
  case False
  define s0 where "s0 = s\<lparr>env_count := env_count s - 1\<rparr>"
  define cmd where "cmd = \<lparr>ncmd_ifindex = lc_ifindex l, ncmd_vlan_id = nr_vlan_id r,
                    ncmd_mac = nr_mac r, ncmd_ip = 0, ncmd_nud_state = 0,
                    ncmd_is_externally_learned = False\<rparr>"
  have p0: "db_fdb_cache s0 (ncmd_mac cmd, ncmd_ifindex cmd, ncmd_vlan_id cmd) = Some p"
    "h_fdb s0 p = Some f"
    using assms by (simp_all add: s0_def cmd_def)
  have q0: "netlink_tx s0 = netlink_tx s" "timers s0 = timers s" "same_tables s s0"
    "h_link s0 = h_link s" "h_network s0 = h_network s"
    "h_link_network s0 = h_link_network s" "h_neigh s0 = h_neigh s" "h_fdb s0 = h_fdb s"
    by (simp_all add: s0_def same_tables_def)
  from cache_get_fdb_hit [OF p0] obtain s' where
    g: "cache_get_fdb cmd s0 = Inr (Some p, s')"
    and fr: "netlink_tx s' = netlink_tx s0" "timers s' = timers s0" "same_tables s0 s'"
      "h_link s' = h_link s0" "h_network s' = h_network s0"
      "h_link_network s' = h_link_network s0" "h_neigh s' = h_neigh s0"
    and fd: "h_fdb s' = h_fdb s0
             \<or> (\<exists>now. h_fdb s' = (h_fdb s0)(p \<mapsto>
                    f\<lparr>fc_times := (fc_times f)\<lparr>referenced := now\<rparr>,
                      fc_reference_count := Suc (fc_reference_count f)\<rparr>))"
    by blast
  have gb: "cache_get_fdb_by_reply r (lc_ifindex l) s0 = Inr (Some p, s')"
    using g by (simp add: cache_get_fdb_by_reply_def cmd_def)
  have l0: "db_lookup_vlan_networkid s0 (nr_network_id r, nr_vlan_id r) = Some q"
    using assms(1) by (simp add: s0_def)
  have "handle_neighbor_reply r s = Inr (0, s')"
    using False assms(2,3) gb l0
    by (simp add: handle_neighbor_reply_def cache_get_link_network_by_reply_def
          s0_def [symmetric] q0 Let_def)
  moreover have "same_tables s s'" using q0(3) fr(3) by (simp add: same_tables_def)
  ultimately show ?thesis using fr fd unfolding q0 by blast
qed

theorem reply_fdb_hit_witness:
  "\<exists>s b l f ret s'. run ev_full (boot world0) = Inr s
     \<and> db_lookup_vlan_networkid s (nr_network_id reply_fdb, nr_vlan_id reply_fdb) = Some 3
     \<and> h_link_network s 3 = Some b \<and> h_link s (lnc_link b) = Some l
     \<and> db_fdb_cache s (nr_mac reply_fdb, lc_ifindex l, nr_vlan_id reply_fdb) = Some 6
     \<and> h_fdb s 6 = Some f
     \<and> handle_neighbor_reply reply_fdb s = Inr (ret, s')
     \<and> netlink_tx s' = netlink_tx s \<and> timers s' = timers s \<and> same_tables s s'
     \<and> h_link s' = h_link s \<and> h_network s' = h_network s
     \<and> h_link_network s' = h_link_network s \<and> h_neigh s' = h_neigh s
     \<and> (h_fdb s' = h_fdb s
          \<or> (\<exists>now. h_fdb s' = (h_fdb s)(6 \<mapsto>
                 f\<lparr>fc_times := (fc_times f)\<lparr>referenced := now\<rparr>,
                   fc_reference_count := Suc (fc_reference_count f)\<rparr>)))"
proof -
  from st_full_reply_fdb_facts obtain s where run: "run ev_full (boot world0) = Inr s"
    and a: "db_lookup_vlan_networkid s (nr_network_id reply_fdb, nr_vlan_id reply_fdb) = Some 3"
      "h_link_network s 3 \<noteq> None" "lnc_link (the (h_link_network s 3)) = 1"
      "h_link s 1 \<noteq> None" "lc_ifindex (the (h_link s 1)) = 2"
      "db_fdb_cache s (nr_mac reply_fdb, 2, nr_vlan_id reply_fdb) = Some 6"
      "h_fdb s 6 \<noteq> None"
    by blast
  from a obtain b where b: "h_link_network s 3 = Some b" by auto
  from a b obtain l where l: "h_link s (lnc_link b) = Some l" by auto
  have k: "db_fdb_cache s (nr_mac reply_fdb, lc_ifindex l, nr_vlan_id reply_fdb) = Some 6"
    using a b l by auto
  from a obtain f where f: "h_fdb s 6 = Some f" by auto
  show ?thesis
    using reply_fdb_hit [OF a(1) b l k f] run a(1) b l k f by blast
qed

section \<open>A reply that misses the fdb table\<close>

lemma cache_get_neigh_hit:
  assumes "db_neigh_cache s (ncmd_ifindex cmd, ncmd_ip cmd) = Some np"
    and "h_neigh s np = Some c"
  shows "\<exists>c'. cache_get_neigh cmd s
               = Inr (Some np, s\<lparr>tick := Suc (tick s), h_neigh := (h_neigh s)(np \<mapsto> c')\<rparr>)
           \<and> ngc_timer c' = ngc_timer c
           \<and> ngc_sending_link_network c' = ngc_sending_link_network c
           \<and> ngc_ip c' = ngc_ip c \<and> ngc_mac c' = ngc_mac c"
proof (cases "sys_clock s (tick s)")
  case None
  have "(h_neigh s)(np \<mapsto> c) = h_neigh s" using assms(2) by (rule map_upd_triv)
  with None assms show ?thesis
    by (intro exI [of _ c]) (simp add: cache_get_neigh_def clock_gettime_def)
next
  case (Some now)
  with assms show ?thesis
    by (intro exI [of _ "c\<lparr>ngc_times := (ngc_times c)\<lparr>referenced := now\<rparr>,
                            ngc_reference_count := Suc (ngc_reference_count c)\<rparr>"])
       (simp add: cache_get_neigh_def clock_gettime_def)
qed

lemma new_neigh_timer_ok:
  assumes "h_neigh s np = Some c"
    and "h_link_network s (ngc_sending_link_network c) = Some b"
    and "h_link s (lnc_link b) = Some l"
    and "sys_base_reachable_time s (tick s) (IN6_IS_ADDR_V4MAPPED (ngc_ip c)) (lc_ifname l)
           = Some B"
    and "sys_timer_ok s (Suc (Suc (tick s)))"
  shows "new_neigh_timer np s
           = Inr (0, s\<lparr>tick := Suc (Suc (Suc (tick s))), brk := Suc (brk s),
                       timers := (timers s)(brk s \<mapsto>
                          (np, next_gratuitous_seconds B (sys_rand s (Suc (tick s))))),
                       h_neigh := (h_neigh s)(np \<mapsto> c\<lparr>ngc_timer := Some (brk s)\<rparr>)\<rparr>)"
  using assms
  by (simp add: new_neigh_timer_def get_next_gratuitous_time_def timer_add_neigh_def Let_def)

lemma new_neigh_timer_fails:
  assumes "h_neigh s np = Some c"
    and "h_link_network s (ngc_sending_link_network c) = Some b"
    and "h_link s (lnc_link b) = Some l"
    and "sys_base_reachable_time s (tick s) (IN6_IS_ADDR_V4MAPPED (ngc_ip c)) (lc_ifname l)
           = None \<or> \<not> sys_timer_ok s (Suc (Suc (tick s)))"
  shows "\<exists>s'. new_neigh_timer np s = Inr (- 1, s') \<and> netlink_tx s' = netlink_tx s"
  using assms
  by (cases "sys_base_reachable_time s (tick s) (IN6_IS_ADDR_V4MAPPED (ngc_ip c)) (lc_ifname l)")
     (auto simp: new_neigh_timer_def get_next_gratuitous_time_def timer_add_neigh_def Let_def)

lemma reply_after_fdb_miss:
  assumes "\<not> (env_only_ipv6 s \<and> nr_in_family r \<noteq> AF_INET6)"
    and "\<not> (env_only_ipv4 s \<and> nr_in_family r \<noteq> AF_INET)"
    and "db_lookup_vlan_networkid s (nr_network_id r, nr_vlan_id r) = Some q"
    and "h_link_network s q = Some b" and "h_link s (lnc_link b) = Some l"
    and "db_fdb_cache s (nr_mac r, lc_ifindex l, nr_vlan_id r) = None"
  shows "handle_neighbor_reply r s
           = seq (cache_get_neigh_by_reply r (lc_ifindex l) (s\<lparr>env_count := env_count s - 1\<rparr>))
               (\<lambda>(neigh, s2).
                  case neigh of
                    None \<Rightarrow> Inr (0, netlink_send_neigh r (lc_ifindex l) s2)
                  | Some np \<Rightarrow>
                      seq (deref (h_neigh s2) np) (\<lambda>c.
                        let s3 = (case ngc_timer c of
                                    None \<Rightarrow> s2
                                  | Some t \<Rightarrow> timer_remove_event t s2)
                        in seq (new_neigh_timer np s3) (\<lambda>(ret, s4).
                             if ret \<noteq> 0 then Inr (1, s4)
                             else Inr (0, netlink_send_neigh r (lc_ifindex l) s4))))"
  using assms
  by (auto simp: handle_neighbor_reply_def cache_get_link_network_by_reply_def
        cache_get_fdb_by_reply_def cache_get_fdb_def Let_def)

lemma reply_no_neigh:
  assumes "\<not> (env_only_ipv6 s \<and> nr_in_family r \<noteq> AF_INET6)"
    and "\<not> (env_only_ipv4 s \<and> nr_in_family r \<noteq> AF_INET)"
    and "db_lookup_vlan_networkid s (nr_network_id r, nr_vlan_id r) = Some q"
    and "h_link_network s q = Some b" and "h_link s (lnc_link b) = Some l"
    and "db_fdb_cache s (nr_mac r, lc_ifindex l, nr_vlan_id r) = None"
    and "db_neigh_cache s (lc_ifindex l, nr_ip r) = None"
  shows "\<exists>s'. handle_neighbor_reply r s = Inr (0, s')
           \<and> netlink_tx s' = netlink_tx s @ [(lc_ifindex l, nr_mac r, nr_ip r)]"
  using assms(7)
  by (simp add: reply_after_fdb_miss [OF assms(1-6)] cache_get_neigh_by_reply_def
        cache_get_neigh_def netlink_send_neigh_def)

lemma reply_rearm:
  assumes "\<not> (env_only_ipv6 s \<and> nr_in_family r \<noteq> AF_INET6)"
    and "\<not> (env_only_ipv4 s \<and> nr_in_family r \<noteq> AF_INET)"
    and "db_lookup_vlan_networkid s (nr_network_id r, nr_vlan_id r) = Some q"
    and "h_link_network s q = Some b" and "h_link s (lnc_link b) = Some l"
    and "db_fdb_cache s (nr_mac r, lc_ifindex l, nr_vlan_id r) = None"
    and "db_neigh_cache s (lc_ifindex l, nr_ip r) = Some np" and "h_neigh s np = Some c"
    and "h_link_network s (ngc_sending_link_network c) = Some b2"
    and "h_link s (lnc_link b2) = Some l2"
    and "sys_base_reachable_time s (Suc (tick s)) (IN6_IS_ADDR_V4MAPPED (ngc_ip c))
           (lc_ifname l2) = Some B"
    and "sys_timer_ok s (Suc (Suc (Suc (tick s))))"
  shows "\<exists>s' c'. handle_neighbor_reply r s = Inr (0, s')
           \<and> netlink_tx s' = netlink_tx s @ [(lc_ifindex l, nr_mac r, nr_ip r)]
           \<and> timers s'
               = (case ngc_timer c of None \<Rightarrow> timers s | Some t \<Rightarrow> (timers s)(t := None))
                   (brk s \<mapsto> (np, next_gratuitous_seconds B (sys_rand s (Suc (Suc (tick s))))))
           \<and> h_neigh s' np = Some c' \<and> ngc_timer c' = Some (brk s)
           \<and> ngc_mac c' = ngc_mac c"
proof -
  define s0 where "s0 = s\<lparr>env_count := env_count s - 1\<rparr>"
  define cmd where "cmd = \<lparr>ncmd_ifindex = lc_ifindex l, ncmd_vlan_id = 0,
                    ncmd_mac = nr_mac r, ncmd_ip = nr_ip r, ncmd_nud_state = 0,
                    ncmd_is_externally_learned = False\<rparr>"
  have n0: "db_neigh_cache s0 (ncmd_ifindex cmd, ncmd_ip cmd) = Some np" "h_neigh s0 np = Some c"
    using assms(7,8) by (simp_all add: s0_def cmd_def)
  from cache_get_neigh_hit [OF n0] obtain c1 where
    g: "cache_get_neigh cmd s0
          = Inr (Some np, s0\<lparr>tick := Suc (tick s0), h_neigh := (h_neigh s0)(np \<mapsto> c1)\<rparr>)"
    and c1: "ngc_timer c1 = ngc_timer c"
      "ngc_sending_link_network c1 = ngc_sending_link_network c"
      "ngc_ip c1 = ngc_ip c" "ngc_mac c1 = ngc_mac c"
    by blast
  define s2 where "s2 = s0\<lparr>tick := Suc (tick s0), h_neigh := (h_neigh s0)(np \<mapsto> c1)\<rparr>"
  define s3 where "s3 = (case ngc_timer c1 of None \<Rightarrow> s2 | Some t \<Rightarrow> timer_remove_event t s2)"
  have gb: "cache_get_neigh_by_reply r (lc_ifindex l) s0 = Inr (Some np, s2)"
    using g by (simp add: cache_get_neigh_by_reply_def cmd_def s2_def)
  have p2: "h_neigh s2 np = Some c1" by (simp add: s2_def)
  have p3: "h_neigh s3 np = Some c1" "h_link_network s3 = h_link_network s"
    "h_link s3 = h_link s" "tick s3 = Suc (tick s)" "brk s3 = brk s"
    "sys_base_reachable_time s3 = sys_base_reachable_time s"
    "sys_timer_ok s3 = sys_timer_ok s" "sys_rand s3 = sys_rand s"
    "netlink_tx s3 = netlink_tx s"
    "timers s3 = (case ngc_timer c of None \<Rightarrow> timers s | Some t \<Rightarrow> (timers s)(t := None))"
    by (simp_all add: s3_def s2_def s0_def c1 timer_remove_event_def split: option.splits)
  have a: "h_link_network s3 (ngc_sending_link_network c1) = Some b2"
    "h_link s3 (lnc_link b2) = Some l2"
    "sys_base_reachable_time s3 (tick s3) (IN6_IS_ADDR_V4MAPPED (ngc_ip c1)) (lc_ifname l2)
       = Some B"
    "sys_timer_ok s3 (Suc (Suc (tick s3)))"
    using assms(9-12) by (simp_all add: p3 c1)
  define s4 where "s4 = s3\<lparr>tick := Suc (Suc (Suc (tick s3))), brk := Suc (brk s3),
                       timers := (timers s3)(brk s3 \<mapsto>
                          (np, next_gratuitous_seconds B (sys_rand s3 (Suc (tick s3))))),
                       h_neigh := (h_neigh s3)(np \<mapsto> c1\<lparr>ngc_timer := Some (brk s3)\<rparr>)\<rparr>"
  have t: "new_neigh_timer np s3 = Inr (0, s4)"
    unfolding s4_def by (rule new_neigh_timer_ok [OF p3(1) a])
  have h: "handle_neighbor_reply r s = Inr (0, netlink_send_neigh r (lc_ifindex l) s4)"
    using gb p2 t
    by (simp add: reply_after_fdb_miss [OF assms(1-6)] s0_def [symmetric] s3_def [symmetric])
  have "netlink_tx (netlink_send_neigh r (lc_ifindex l) s4)
          = netlink_tx s @ [(lc_ifindex l, nr_mac r, nr_ip r)]"
    "timers (netlink_send_neigh r (lc_ifindex l) s4)
       = (case ngc_timer c of None \<Rightarrow> timers s | Some t \<Rightarrow> (timers s)(t := None))
           (brk s \<mapsto> (np, next_gratuitous_seconds B (sys_rand s (Suc (Suc (tick s))))))"
    "h_neigh (netlink_send_neigh r (lc_ifindex l) s4) np = Some (c1\<lparr>ngc_timer := Some (brk s)\<rparr>)"
    by (simp_all add: netlink_send_neigh_def s4_def p3)
  with h c1 show ?thesis by (intro exI [of _ "netlink_send_neigh r (lc_ifindex l) s4"]
        exI [of _ "c1\<lparr>ngc_timer := Some (brk s)\<rparr>"]) simp
qed

lemma reply_rearm_fails:
  assumes "\<not> (env_only_ipv6 s \<and> nr_in_family r \<noteq> AF_INET6)"
    and "\<not> (env_only_ipv4 s \<and> nr_in_family r \<noteq> AF_INET)"
    and "db_lookup_vlan_networkid s (nr_network_id r, nr_vlan_id r) = Some q"
    and "h_link_network s q = Some b" and "h_link s (lnc_link b) = Some l"
    and "db_fdb_cache s (nr_mac r, lc_ifindex l, nr_vlan_id r) = None"
    and "db_neigh_cache s (lc_ifindex l, nr_ip r) = Some np" and "h_neigh s np = Some c"
    and "h_link_network s (ngc_sending_link_network c) = Some b2"
    and "h_link s (lnc_link b2) = Some l2"
    and "sys_base_reachable_time s (Suc (tick s)) (IN6_IS_ADDR_V4MAPPED (ngc_ip c))
           (lc_ifname l2) = None \<or> \<not> sys_timer_ok s (Suc (Suc (Suc (tick s))))"
  shows "\<exists>s'. handle_neighbor_reply r s = Inr (1, s') \<and> netlink_tx s' = netlink_tx s"
proof -
  define s0 where "s0 = s\<lparr>env_count := env_count s - 1\<rparr>"
  define cmd where "cmd = \<lparr>ncmd_ifindex = lc_ifindex l, ncmd_vlan_id = 0,
                    ncmd_mac = nr_mac r, ncmd_ip = nr_ip r, ncmd_nud_state = 0,
                    ncmd_is_externally_learned = False\<rparr>"
  have n0: "db_neigh_cache s0 (ncmd_ifindex cmd, ncmd_ip cmd) = Some np" "h_neigh s0 np = Some c"
    using assms(7,8) by (simp_all add: s0_def cmd_def)
  from cache_get_neigh_hit [OF n0] obtain c1 where
    g: "cache_get_neigh cmd s0
          = Inr (Some np, s0\<lparr>tick := Suc (tick s0), h_neigh := (h_neigh s0)(np \<mapsto> c1)\<rparr>)"
    and c1: "ngc_timer c1 = ngc_timer c"
      "ngc_sending_link_network c1 = ngc_sending_link_network c"
      "ngc_ip c1 = ngc_ip c" "ngc_mac c1 = ngc_mac c"
    by blast
  define s2 where "s2 = s0\<lparr>tick := Suc (tick s0), h_neigh := (h_neigh s0)(np \<mapsto> c1)\<rparr>"
  define s3 where "s3 = (case ngc_timer c1 of None \<Rightarrow> s2 | Some t \<Rightarrow> timer_remove_event t s2)"
  have gb: "cache_get_neigh_by_reply r (lc_ifindex l) s0 = Inr (Some np, s2)"
    using g by (simp add: cache_get_neigh_by_reply_def cmd_def s2_def)
  have p2: "h_neigh s2 np = Some c1" by (simp add: s2_def)
  have p3: "h_neigh s3 np = Some c1" "h_link_network s3 = h_link_network s"
    "h_link s3 = h_link s" "tick s3 = Suc (tick s)"
    "sys_base_reachable_time s3 = sys_base_reachable_time s"
    "sys_timer_ok s3 = sys_timer_ok s" "netlink_tx s3 = netlink_tx s"
    by (simp_all add: s3_def s2_def s0_def c1 timer_remove_event_def split: option.splits)
  have a: "h_link_network s3 (ngc_sending_link_network c1) = Some b2"
    "h_link s3 (lnc_link b2) = Some l2"
    "sys_base_reachable_time s3 (tick s3) (IN6_IS_ADDR_V4MAPPED (ngc_ip c1)) (lc_ifname l2)
       = None \<or> \<not> sys_timer_ok s3 (Suc (Suc (tick s3)))"
    using assms(9-11) by (simp_all add: p3 c1)
  from new_neigh_timer_fails [OF p3(1) a] obtain s4 where
    t: "new_neigh_timer np s3 = Inr (- 1, s4)" and x: "netlink_tx s4 = netlink_tx s3"
    by blast
  have "handle_neighbor_reply r s = Inr (1, s4)"
    using gb p2 t
    by (simp add: reply_after_fdb_miss [OF assms(1-6)] s0_def [symmetric] s3_def [symmetric])
  with x p3 show ?thesis by simp
qed

lemma st_net_reply_a_facts:
  "\<exists>s. run ev_net (boot world0) = Inr s
     \<and> \<not> (env_only_ipv6 s \<and> nr_in_family reply_a \<noteq> AF_INET6)
     \<and> \<not> (env_only_ipv4 s \<and> nr_in_family reply_a \<noteq> AF_INET)
     \<and> db_lookup_vlan_networkid s (nr_network_id reply_a, nr_vlan_id reply_a) = Some 3
     \<and> h_link_network s 3 \<noteq> None \<and> lnc_link (the (h_link_network s 3)) = 1
     \<and> h_link s 1 \<noteq> None \<and> lc_ifindex (the (h_link s 1)) = 2
     \<and> db_fdb_cache s (nr_mac reply_a, 2, nr_vlan_id reply_a) = None
     \<and> db_neigh_cache s (2, nr_ip reply_a) = None"
  by (simp add: example_defs model_defs)

lemma st_full_reply_a_facts:
  "\<exists>s. run ev_full (boot world0) = Inr s
     \<and> \<not> (env_only_ipv6 s \<and> nr_in_family reply_a \<noteq> AF_INET6)
     \<and> \<not> (env_only_ipv4 s \<and> nr_in_family reply_a \<noteq> AF_INET)
     \<and> db_lookup_vlan_networkid s (nr_network_id reply_a, nr_vlan_id reply_a) = Some 3
     \<and> h_link_network s 3 \<noteq> None \<and> lnc_link (the (h_link_network s 3)) = 1
     \<and> h_link s 1 \<noteq> None \<and> lc_ifindex (the (h_link s 1)) = 2
     \<and> db_fdb_cache s (nr_mac reply_a, 2, nr_vlan_id reply_a) = None
     \<and> db_neigh_cache s (2, nr_ip reply_a) = Some 7 \<and> h_neigh s 7 \<noteq> None
     \<and> ngc_sending_link_network (the (h_neigh s 7)) = 3
     \<and> ngc_timer (the (h_neigh s 7)) = Some 8
     \<and> ngc_mac (the (h_neigh s 7)) = 0x020000000007
     \<and> nr_mac reply_a = 0x020000000099
     \<and> sys_base_reachable_time s = (\<lambda>_ _ _. Some 30000)
     \<and> sys_timer_ok s = (\<lambda>_. True) \<and> brk s = 9 \<and> fst (the (timers s 8)) = 7"
  by (simp add: example_defs model_defs)

lemma st_sysctl_fails_reply_a_facts:
  "\<exists>s. run ev_full (boot world_sysctl_fails) = Inr s
     \<and> \<not> (env_only_ipv6 s \<and> nr_in_family reply_a \<noteq> AF_INET6)
     \<and> \<not> (env_only_ipv4 s \<and> nr_in_family reply_a \<noteq> AF_INET)
     \<and> db_lookup_vlan_networkid s (nr_network_id reply_a, nr_vlan_id reply_a) = Some 3
     \<and> h_link_network s 3 \<noteq> None \<and> lnc_link (the (h_link_network s 3)) = 1
     \<and> h_link s 1 \<noteq> None \<and> lc_ifindex (the (h_link s 1)) = 2
     \<and> db_fdb_cache s (nr_mac reply_a, 2, nr_vlan_id reply_a) = None
     \<and> db_neigh_cache s (2, nr_ip reply_a) = Some 7 \<and> h_neigh s 7 \<noteq> None
     \<and> ngc_sending_link_network (the (h_neigh s 7)) = 3
     \<and> sys_base_reachable_time s = (\<lambda>_ _ _. None)
     \<and> netlink_tx s = []"
  by (simp add: example_defs model_defs)

section \<open>The netlink enqueue\<close>

text \<open>The claim as stated, "whether or not re-arming succeeds", fails: with the sysctl
  file unreadable the reply for the cached Neighbor is answered with 1 and the TX queue
  stays empty.\<close>

theorem reply_enqueue_counterexample:
  "\<exists>s s'. run ev_full (boot world_sysctl_fails) = Inr s
     \<and> \<not> (env_only_ipv6 s \<and> nr_in_family reply_a \<noteq> AF_INET6)
     \<and> \<not> (env_only_ipv4 s \<and> nr_in_family reply_a \<noteq> AF_INET)
     \<and> db_lookup_vlan_networkid s (nr_network_id reply_a, nr_vlan_id reply_a) = Some 3
     \<and> lnc_link (the (h_link_network s 3)) = 1 \<and> lc_ifindex (the (h_link s 1)) = 2
     \<and> db_fdb_cache s (nr_mac reply_a, 2, nr_vlan_id reply_a) = None
     \<and> handle_neighbor_reply reply_a s = Inr (1, s')
     \<and> netlink_tx s = [] \<and> netlink_tx s' = []"
  by (simp add: example_defs model_defs)

text \<open>
  C7, as amended. A reply that passes the family filters, resolves a LinkNetwork and
  its Link and misses the fdb table enqueues a netlink \<open>NEIGH_ADD\<close> for
  \<open>(link.ifindex, mac, ip)\<close> when no Neighbor is cached for \<open>(link.ifindex, ip)\<close>, and
  when one is cached and re-arming its timer succeeds (the sysctl file is read and the
  timer module accepts the timer). When re-arming fails the handler returns 1 and
  enqueues nothing.
\<close>

theorem reply_enqueue:
  assumes "\<not> (env_only_ipv6 s \<and> nr_in_family r \<noteq> AF_INET6)"
    and "\<not> (env_only_ipv4 s \<and> nr_in_family r \<noteq> AF_INET)"
    and "db_lookup_vlan_networkid s (nr_network_id r, nr_vlan_id r) = Some q"
    and "h_link_network s q = Some b" and "h_link s (lnc_link b) = Some l"
    and "db_fdb_cache s (nr_mac r, lc_ifindex l, nr_vlan_id r) = None"
  shows "(db_neigh_cache s (lc_ifindex l, nr_ip r) = None
            \<longrightarrow> (\<exists>s'. handle_neighbor_reply r s = Inr (0, s')
                   \<and> netlink_tx s' = netlink_tx s @ [(lc_ifindex l, nr_mac r, nr_ip r)]))
       \<and> (\<forall>np c b2 l2.
             db_neigh_cache s (lc_ifindex l, nr_ip r) = Some np \<and> h_neigh s np = Some c
             \<and> h_link_network s (ngc_sending_link_network c) = Some b2
             \<and> h_link s (lnc_link b2) = Some l2
            \<longrightarrow> (if sys_base_reachable_time s (Suc (tick s)) (IN6_IS_ADDR_V4MAPPED (ngc_ip c))
                       (lc_ifname l2) \<noteq> None
                     \<and> sys_timer_ok s (Suc (Suc (Suc (tick s))))
                  then \<exists>s'. handle_neighbor_reply r s = Inr (0, s')
                         \<and> netlink_tx s' = netlink_tx s @ [(lc_ifindex l, nr_mac r, nr_ip r)]
                  else \<exists>s'. handle_neighbor_reply r s = Inr (1, s')
                         \<and> netlink_tx s' = netlink_tx s))"
proof (intro conjI impI allI)
  assume "db_neigh_cache s (lc_ifindex l, nr_ip r) = None"
  then show "\<exists>s'. handle_neighbor_reply r s = Inr (0, s')
               \<and> netlink_tx s' = netlink_tx s @ [(lc_ifindex l, nr_mac r, nr_ip r)]"
    by (rule reply_no_neigh [OF assms])
next
  fix np c b2 l2
  assume h: "db_neigh_cache s (lc_ifindex l, nr_ip r) = Some np \<and> h_neigh s np = Some c
             \<and> h_link_network s (ngc_sending_link_network c) = Some b2
             \<and> h_link s (lnc_link b2) = Some l2"
  then have n: "db_neigh_cache s (lc_ifindex l, nr_ip r) = Some np" "h_neigh s np = Some c"
    "h_link_network s (ngc_sending_link_network c) = Some b2" "h_link s (lnc_link b2) = Some l2"
    by simp_all
  show "if sys_base_reachable_time s (Suc (tick s)) (IN6_IS_ADDR_V4MAPPED (ngc_ip c))
             (lc_ifname l2) \<noteq> None
           \<and> sys_timer_ok s (Suc (Suc (Suc (tick s))))
        then \<exists>s'. handle_neighbor_reply r s = Inr (0, s')
               \<and> netlink_tx s' = netlink_tx s @ [(lc_ifindex l, nr_mac r, nr_ip r)]
        else \<exists>s'. handle_neighbor_reply r s = Inr (1, s')
               \<and> netlink_tx s' = netlink_tx s"
  proof (cases "sys_base_reachable_time s (Suc (tick s)) (IN6_IS_ADDR_V4MAPPED (ngc_ip c))
                  (lc_ifname l2) \<noteq> None
                \<and> sys_timer_ok s (Suc (Suc (Suc (tick s))))")
    case True
    then obtain B where B: "sys_base_reachable_time s (Suc (tick s))
        (IN6_IS_ADDR_V4MAPPED (ngc_ip c)) (lc_ifname l2) = Some B"
      and ok: "sys_timer_ok s (Suc (Suc (Suc (tick s))))" by auto
    from reply_rearm [OF assms n B ok] True show ?thesis by auto
  next
    case False
    then have "sys_base_reachable_time s (Suc (tick s)) (IN6_IS_ADDR_V4MAPPED (ngc_ip c))
        (lc_ifname l2) = None \<or> \<not> sys_timer_ok s (Suc (Suc (Suc (tick s))))" by auto
    from reply_rearm_fails [OF assms n this] False show ?thesis by auto
  qed
qed

theorem reply_enqueue_witness:
  "\<exists>s1 s1' s2 s2' s3 s3'.
     run ev_net (boot world0) = Inr s1
     \<and> db_neigh_cache s1 (2, nr_ip reply_a) = None
     \<and> handle_neighbor_reply reply_a s1 = Inr (0, s1')
     \<and> netlink_tx s1' = netlink_tx s1 @ [(2, nr_mac reply_a, nr_ip reply_a)]
     \<and> run ev_full (boot world0) = Inr s2
     \<and> db_neigh_cache s2 (2, nr_ip reply_a) = Some 7
     \<and> sys_base_reachable_time s2 = (\<lambda>_ _ _. Some 30000) \<and> sys_timer_ok s2 = (\<lambda>_. True)
     \<and> handle_neighbor_reply reply_a s2 = Inr (0, s2')
     \<and> netlink_tx s2' = netlink_tx s2 @ [(2, nr_mac reply_a, nr_ip reply_a)]
     \<and> run ev_full (boot world_sysctl_fails) = Inr s3
     \<and> db_neigh_cache s3 (2, nr_ip reply_a) = Some 7
     \<and> sys_base_reachable_time s3 = (\<lambda>_ _ _. None)
     \<and> handle_neighbor_reply reply_a s3 = Inr (1, s3')
     \<and> netlink_tx s3' = netlink_tx s3"
proof -
  from st_net_reply_a_facts obtain s1 where r1: "run ev_net (boot world0) = Inr s1"
    and a1: "\<not> (env_only_ipv6 s1 \<and> nr_in_family reply_a \<noteq> AF_INET6)"
      "\<not> (env_only_ipv4 s1 \<and> nr_in_family reply_a \<noteq> AF_INET)"
      "db_lookup_vlan_networkid s1 (nr_network_id reply_a, nr_vlan_id reply_a) = Some 3"
    and h1: "h_link_network s1 3 \<noteq> None" "lnc_link (the (h_link_network s1 3)) = 1"
      "h_link s1 1 \<noteq> None" "lc_ifindex (the (h_link s1 1)) = 2"
      "db_fdb_cache s1 (nr_mac reply_a, 2, nr_vlan_id reply_a) = None"
      "db_neigh_cache s1 (2, nr_ip reply_a) = None"
    by blast
  from h1 obtain b1 where b1: "h_link_network s1 3 = Some b1" "lnc_link b1 = 1" by auto
  from h1 b1 obtain l1 where l1: "h_link s1 (lnc_link b1) = Some l1" "lc_ifindex l1 = 2" by auto
  have f1: "db_fdb_cache s1 (nr_mac reply_a, lc_ifindex l1, nr_vlan_id reply_a) = None"
    using h1 l1 by simp
  have n1: "db_neigh_cache s1 (lc_ifindex l1, nr_ip reply_a) = None" using h1 l1 by simp
  from reply_enqueue [OF a1 b1(1) l1(1) f1] n1 obtain s1' where
    x1: "handle_neighbor_reply reply_a s1 = Inr (0, s1')"
      "netlink_tx s1' = netlink_tx s1 @ [(2, nr_mac reply_a, nr_ip reply_a)]"
    unfolding l1(2) by blast
  from st_full_reply_a_facts obtain s2 where r2: "run ev_full (boot world0) = Inr s2"
    and a2: "\<not> (env_only_ipv6 s2 \<and> nr_in_family reply_a \<noteq> AF_INET6)"
      "\<not> (env_only_ipv4 s2 \<and> nr_in_family reply_a \<noteq> AF_INET)"
      "db_lookup_vlan_networkid s2 (nr_network_id reply_a, nr_vlan_id reply_a) = Some 3"
    and h2: "h_link_network s2 3 \<noteq> None" "lnc_link (the (h_link_network s2 3)) = 1"
      "h_link s2 1 \<noteq> None" "lc_ifindex (the (h_link s2 1)) = 2"
      "db_fdb_cache s2 (nr_mac reply_a, 2, nr_vlan_id reply_a) = None"
      "db_neigh_cache s2 (2, nr_ip reply_a) = Some 7" "h_neigh s2 7 \<noteq> None"
      "ngc_sending_link_network (the (h_neigh s2 7)) = 3"
      "sys_base_reachable_time s2 = (\<lambda>_ _ _. Some 30000)" "sys_timer_ok s2 = (\<lambda>_. True)"
    by blast
  from h2 obtain b2 where b2: "h_link_network s2 3 = Some b2" "lnc_link b2 = 1" by auto
  from h2 b2 obtain l2 where l2: "h_link s2 (lnc_link b2) = Some l2" "lc_ifindex l2 = 2" by auto
  from h2 obtain c2 where c2: "h_neigh s2 7 = Some c2" "ngc_sending_link_network c2 = 3" by auto
  have f2: "db_fdb_cache s2 (nr_mac reply_a, lc_ifindex l2, nr_vlan_id reply_a) = None"
    using h2 l2 by simp
  have n2: "db_neigh_cache s2 (lc_ifindex l2, nr_ip reply_a) = Some 7 \<and> h_neigh s2 7 = Some c2
            \<and> h_link_network s2 (ngc_sending_link_network c2) = Some b2
            \<and> h_link s2 (lnc_link b2) = Some l2"
    using h2 l2 c2 b2 by simp
  have ok2: "sys_base_reachable_time s2 (Suc (tick s2)) (IN6_IS_ADDR_V4MAPPED (ngc_ip c2))
               (lc_ifname l2) \<noteq> None \<and> sys_timer_ok s2 (Suc (Suc (Suc (tick s2))))"
    using h2 by simp
  from reply_enqueue [OF a2 b2(1) l2(1) f2] n2 ok2 obtain s2' where
    x2: "handle_neighbor_reply reply_a s2 = Inr (0, s2')"
      "netlink_tx s2' = netlink_tx s2 @ [(2, nr_mac reply_a, nr_ip reply_a)]"
    unfolding l2(2) by (metis (no_types, lifting))
  from st_sysctl_fails_reply_a_facts obtain s3 where
    r3: "run ev_full (boot world_sysctl_fails) = Inr s3"
    and a3: "\<not> (env_only_ipv6 s3 \<and> nr_in_family reply_a \<noteq> AF_INET6)"
      "\<not> (env_only_ipv4 s3 \<and> nr_in_family reply_a \<noteq> AF_INET)"
      "db_lookup_vlan_networkid s3 (nr_network_id reply_a, nr_vlan_id reply_a) = Some 3"
    and h3: "h_link_network s3 3 \<noteq> None" "lnc_link (the (h_link_network s3 3)) = 1"
      "h_link s3 1 \<noteq> None" "lc_ifindex (the (h_link s3 1)) = 2"
      "db_fdb_cache s3 (nr_mac reply_a, 2, nr_vlan_id reply_a) = None"
      "db_neigh_cache s3 (2, nr_ip reply_a) = Some 7" "h_neigh s3 7 \<noteq> None"
      "ngc_sending_link_network (the (h_neigh s3 7)) = 3"
      "sys_base_reachable_time s3 = (\<lambda>_ _ _. None)"
    by blast
  from h3 obtain b3 where b3: "h_link_network s3 3 = Some b3" "lnc_link b3 = 1" by auto
  from h3 b3 obtain l3 where l3: "h_link s3 (lnc_link b3) = Some l3" "lc_ifindex l3 = 2" by auto
  from h3 obtain c3 where c3: "h_neigh s3 7 = Some c3" "ngc_sending_link_network c3 = 3" by auto
  have f3: "db_fdb_cache s3 (nr_mac reply_a, lc_ifindex l3, nr_vlan_id reply_a) = None"
    using h3 l3 by simp
  have n3: "db_neigh_cache s3 (lc_ifindex l3, nr_ip reply_a) = Some 7 \<and> h_neigh s3 7 = Some c3
            \<and> h_link_network s3 (ngc_sending_link_network c3) = Some b3
            \<and> h_link s3 (lnc_link b3) = Some l3"
    using h3 l3 c3 b3 by simp
  have no3: "\<not> (sys_base_reachable_time s3 (Suc (tick s3)) (IN6_IS_ADDR_V4MAPPED (ngc_ip c3))
               (lc_ifname l3) \<noteq> None \<and> sys_timer_ok s3 (Suc (Suc (Suc (tick s3)))))"
    using h3 by simp
  from reply_enqueue [OF a3 b3(1) l3(1) f3] n3 no3 obtain s3' where
    x3: "handle_neighbor_reply reply_a s3 = Inr (1, s3')" "netlink_tx s3' = netlink_tx s3"
    by (metis (no_types, lifting))
  from r1 h1(6) x1 r2 h2(6,9,10) x2 r3 h3(6,9) x3 show ?thesis by blast
qed

section \<open>The MAC of a reply and the cached Neighbor\<close>




section \<open>The address stored in a LinkNetwork\<close>

subsection \<open>Masking twice\<close>

lemma v4mapped_mask_low:
  "k \<le> 32 \<Longrightarrow> drop_bit 32 (ip AND NOT (mask k)) = drop_bit 32 (ip :: in6_addr)"
  by (rule bit_eqI) (auto simp: bit_simps dest: bit_imp_le_length)

lemma v4mapped_mask_high:
  assumes "32 < k"
  shows "drop_bit 32 ((ip :: in6_addr) AND NOT (mask k)) \<noteq> 0xFFFF"
proof
  assume "drop_bit 32 (ip AND NOT (mask k)) = 0xFFFF"
  then have "bit (drop_bit 32 (ip AND NOT (mask k))) 0 = bit (0xFFFF :: in6_addr) 0" by simp
  with assms show False by (simp add: bit_simps)
qed

lemma v4mapped_masked:
  "IN6_IS_ADDR_V4MAPPED (ip AND NOT (mask (32 - n))) = IN6_IS_ADDR_V4MAPPED ip"
proof -
  have e: "drop_bit 32 (ip AND NOT (mask (32 - n))) = drop_bit 32 ip"
    by (rule v4mapped_mask_low) simp
  show ?thesis unfolding IN6_IS_ADDR_V4MAPPED_def e ..
qed

lemma not_v4mapped_masked:
  assumes "\<not> IN6_IS_ADDR_V4MAPPED ip"
  shows "\<not> IN6_IS_ADDR_V4MAPPED (ip AND NOT (mask (128 - n)))"
proof (cases "128 - n \<le> 32")
  case True
  have e: "drop_bit 32 (ip AND NOT (mask (128 - n))) = drop_bit 32 ip"
    by (rule v4mapped_mask_low [OF True])
  show ?thesis
    unfolding IN6_IS_ADDR_V4MAPPED_def e using assms unfolding IN6_IS_ADDR_V4MAPPED_def .
next
  case False
  then have "32 < 128 - n" by simp
  from v4mapped_mask_high [OF this] show ?thesis unfolding IN6_IS_ADDR_V4MAPPED_def .
qed

lemma and_not_mask_idem: "(x AND NOT m) AND NOT m = x AND NOT (m :: in6_addr)"
  by (simp add: and.assoc)

lemma calculate_network_using_cidr_idem:
  "calculate_network_using_cidr (calculate_network_using_cidr ip cidr) cidr
     = calculate_network_using_cidr ip cidr"
proof (cases "IN6_IS_ADDR_V4MAPPED ip")
  case True
  then have c: "calculate_network_using_cidr ip cidr = ip AND NOT (mask (32 - unat cidr))"
    by (simp add: calculate_network_using_cidr_def)
  from True have m: "IN6_IS_ADDR_V4MAPPED (ip AND NOT (mask (32 - unat cidr)))"
    unfolding v4mapped_masked .
  show ?thesis
    unfolding c unfolding calculate_network_using_cidr_def [of "ip AND NOT (mask (32 - unat cidr))"]
    using m by (simp only: if_True and_not_mask_idem)
next
  case False
  then have c: "calculate_network_using_cidr ip cidr = ip AND NOT (mask (128 - unat cidr))"
    by (simp add: calculate_network_using_cidr_def)
  from not_v4mapped_masked [OF False]
  have m: "\<not> IN6_IS_ADDR_V4MAPPED (ip AND NOT (mask (128 - unat cidr)))" .
  show ?thesis
    unfolding c unfolding calculate_network_using_cidr_def [of "ip AND NOT (mask (128 - unat cidr))"]
    using m by (simp only: if_False and_not_mask_idem)
qed

subsection \<open>The two creation paths\<close>

lemma cache_add_network_ok:
  assumes "db_link_cache s (acmd_ifindex cmd) = Some lp" and "h_link s lp = Some l"
    and "sys_clock s (tick s) = Some t1"
    and "sys_bpf_ok s (Suc (tick s))"
    and "sys_clock s (Suc (Suc (tick s))) = Some t2"
  shows "\<exists>s' n l'. cache_add_network cmd s = Inr (Some (brk s), s')
           \<and> h_network s' (brk s) = Some n \<and> nc_network n = acmd_network cmd
           \<and> h_link s' lp = Some l' \<and> lc_ifindex l' = lc_ifindex l
           \<and> db_lookup_addr_ifindex s' (acmd_network cmd, lc_ifindex l) = Some (Suc (brk s))
           \<and> db_lookup_vlan_networkid s' (network_next_id s, lc_vlan_id l) = Some (Suc (brk s))
           \<and> db_lookup_addr s' (acmd_network cmd) = Some (brk s)
           \<and> h_link_network s' (Suc (brk s))
                = Some \<lparr>lnc_ip = acmd_ip cmd, lnc_network = brk s, lnc_link = lp\<rparr>"
  using assms
  by (simp add: cache_get_link_def cache_add_network_def cache_add_link_network_def
        bpf_map_update_elem_def clock_gettime_def Let_def)

lemma addr_add_new_network:
  assumes "env_has_links s"
    and "\<not> (\<not> env_disable_ipv6ll_filter s \<and> IN6_IS_ADDR_LINKLOCAL (acmd_ip cmd))"
    and "db_link_cache s (acmd_ifindex cmd) = Some lp" and "h_link s lp = Some l"
    and "lc_is_svi l" and "sys_clock s (tick s) = Some t0"
    and "db_lookup_addr s (acmd_network cmd) = None"
    and "sys_clock s (Suc (tick s)) = Some t1"
    and "sys_bpf_ok s (Suc (Suc (tick s)))"
    and "sys_clock s (Suc (Suc (Suc (tick s)))) = Some t2"
  shows "\<exists>s'. handle_addr_add cmd s = Inr (0, s')
           \<and> db_lookup_addr s' (acmd_network cmd) = Some (brk s)
           \<and> db_lookup_vlan_networkid s' (network_next_id s, lc_vlan_id l) = Some (Suc (brk s))
           \<and> h_link_network s' (Suc (brk s))
                = Some \<lparr>lnc_ip = acmd_ip cmd, lnc_network = brk s, lnc_link = lp\<rparr>"
proof -
  define l1 where "l1 = l\<lparr>lc_times := (lc_times l)\<lparr>referenced := t0\<rparr>,
                         lc_reference_count := Suc (lc_reference_count l)\<rparr>"
  define s1 where "s1 = s\<lparr>tick := Suc (tick s), h_link := (h_link s)(lp \<mapsto> l1)\<rparr>"
  have g: "cache_get_link (acmd_ifindex cmd) s = Inr (Some lp, s1)"
    unfolding s1_def l1_def using assms(3,4,6) by (rule cache_get_link_ok)
  have p: "db_link_cache s1 (acmd_ifindex cmd) = Some lp" "h_link s1 lp = Some l1"
    "sys_clock s1 (tick s1) = Some t1" "sys_bpf_ok s1 (Suc (tick s1))"
    "sys_clock s1 (Suc (Suc (tick s1))) = Some t2"
    using assms by (simp_all add: s1_def)
  have q: "network_next_id s1 = network_next_id s" "brk s1 = brk s"
    "lc_vlan_id l1 = lc_vlan_id l" "lc_ifindex l1 = lc_ifindex l" "lc_is_svi l1"
    "db_lookup_addr s1 (acmd_network cmd) = None"
    using assms(5,7) by (simp_all add: s1_def l1_def)
  from cache_add_network_ok [OF p] obtain s' n l' where
    a: "cache_add_network cmd s1 = Inr (Some (brk s1), s')"
    and r: "h_network s' (brk s1) = Some n" "nc_network n = acmd_network cmd"
      "h_link s' lp = Some l'" "lc_ifindex l' = lc_ifindex l1"
      "db_lookup_addr_ifindex s' (acmd_network cmd, lc_ifindex l1) = Some (Suc (brk s1))"
    and c: "db_lookup_vlan_networkid s' (network_next_id s1, lc_vlan_id l1) = Some (Suc (brk s1))"
      "db_lookup_addr s' (acmd_network cmd) = Some (brk s1)"
      "h_link_network s' (Suc (brk s1))
         = Some \<lparr>lnc_ip = acmd_ip cmd, lnc_network = brk s1, lnc_link = lp\<rparr>"
    by blast
  have f: "(\<not> env_disable_ipv6ll_filter s \<and> IN6_IS_ADDR_LINKLOCAL (acmd_ip cmd)) = False"
    using assms(2) by simp
  have "handle_addr_add cmd s = Inr (0, s')"
    using assms(1) g p(2) q(5,6) a r
    by (simp add: handle_addr_add_def cache_get_network_def cache_get_link_network_def f)
  with c show ?thesis unfolding q by blast
qed

lemma addr_add_existing_network:
  assumes "env_has_links s"
    and "\<not> (\<not> env_disable_ipv6ll_filter s \<and> IN6_IS_ADDR_LINKLOCAL (acmd_ip cmd))"
    and "db_link_cache s (acmd_ifindex cmd) = Some lp" and "h_link s lp = Some l"
    and "lc_is_svi l" and "sys_clock s (tick s) = Some t0"
    and "db_lookup_addr s (acmd_network cmd) = Some np" and "h_network s np = Some n"
    and "db_lookup_addr_ifindex s (nc_network n, lc_ifindex l) = None"
  shows "\<exists>s'. handle_addr_add cmd s = Inr (0, s')
           \<and> h_link_network s' (brk s)
                = Some \<lparr>lnc_ip = calculate_network_using_cidr (nc_network n) (acmd_prefixlen cmd),
                        lnc_network = np, lnc_link = lp\<rparr>"
proof -
  define l1 where "l1 = l\<lparr>lc_times := (lc_times l)\<lparr>referenced := t0\<rparr>,
                         lc_reference_count := Suc (lc_reference_count l)\<rparr>"
  define s1 where "s1 = s\<lparr>tick := Suc (tick s), h_link := (h_link s)(lp \<mapsto> l1)\<rparr>"
  define bnd where "bnd = \<lparr>lnc_ip = calculate_network_using_cidr (nc_network n) (acmd_prefixlen cmd),
                           lnc_network = np, lnc_link = lp\<rparr>"
  define s3 where "s3 = s1\<lparr>brk := Suc (brk s1),
                          h_link_network := (h_link_network s1)(brk s1 \<mapsto> bnd)\<rparr>"
  have g: "cache_get_link (acmd_ifindex cmd) s = Inr (Some lp, s1)"
    unfolding s1_def l1_def using assms(3,4,6) by (rule cache_get_link_ok)
  have p: "h_link s1 lp = Some l1" "lc_is_svi l1" "lc_ifindex l1 = lc_ifindex l"
    "db_lookup_addr s1 (acmd_network cmd) = Some np" "h_network s1 np = Some n"
    "db_lookup_addr_ifindex s1 (nc_network n, lc_ifindex l) = None" "brk s1 = brk s"
    using assms by (simp_all add: s1_def l1_def)
  have p3: "h_link_network s3 (brk s1) = Some bnd" "h_network s3 (lnc_network bnd) = Some n"
    "h_link s3 (lnc_link bnd) = Some l1"
    using p by (simp_all add: s3_def bnd_def)
  define s4 where "s4 = s3\<lparr>db_lookup_vlan_networkid :=
                      (db_lookup_vlan_networkid s3)((nc_id n, lc_vlan_id l1) \<mapsto> brk s1),
                    db_lookup_addr_ifindex :=
                      (db_lookup_addr_ifindex s3)((nc_network n, lc_ifindex l1) \<mapsto> brk s1),
                    brk := Suc (Suc (brk s3)),
                    h_network := (h_network s3)(lnc_network bnd \<mapsto>
                       n\<lparr>nc_links := nc_links n @ [(brk s3, brk s1)], nc_refcnt := nc_refcnt n + 1\<rparr>),
                    h_link := (h_link s3)(lnc_link bnd \<mapsto>
                       l1\<lparr>lc_network_list := lc_network_list l1 @ [(Suc (brk s3), brk s1)]\<rparr>)\<rparr>"
  have a: "cache_add_link_network (brk s1) s3 = Inr (0, s4)"
    unfolding s4_def using p3 by (simp add: cache_add_link_network_def Let_def)
  have f: "(\<not> env_disable_ipv6ll_filter s \<and> IN6_IS_ADDR_LINKLOCAL (acmd_ip cmd)) = False"
    using assms(2) by simp
  have a': "cache_add_link_network (brk s1)
              (s1\<lparr>brk := Suc (brk s1),
                  h_link_network := (h_link_network s1)(brk s1 \<mapsto>
                    \<lparr>lnc_ip = calculate_network_using_cidr (nc_network n) (acmd_prefixlen cmd),
                     lnc_network = np, lnc_link = lp\<rparr>)\<rparr>) = Inr (0, s4)"
    using a by (simp add: s3_def bnd_def)
  have "handle_addr_add cmd s = Inr (0, s4)"
    using assms(1) g p(1-6) a'
    by (simp add: handle_addr_add_def cache_get_network_def cache_get_link_network_def
          Let_def f)
  moreover have "h_link_network s4 (brk s) = Some bnd"
    using p3(1) by (simp add: s4_def p(7))
  ultimately show ?thesis unfolding bnd_def by blast
qed

lemma st_svi_addr_facts:
  "\<exists>s. run ev_svi (boot world0) = Inr s
     \<and> env_has_links s
     \<and> \<not> (\<not> env_disable_ipv6ll_filter s \<and> IN6_IS_ADDR_LINKLOCAL (acmd_ip addr_a))
     \<and> \<not> (\<not> env_disable_ipv6ll_filter s \<and> IN6_IS_ADDR_LINKLOCAL (acmd_ip addr_v4))
     \<and> db_link_cache s 2 = Some 1 \<and> h_link s 1 \<noteq> None \<and> lc_is_svi (the (h_link s 1))
     \<and> sys_clock s (tick s) \<noteq> None \<and> sys_clock s (Suc (tick s)) \<noteq> None
     \<and> sys_bpf_ok s (Suc (Suc (tick s)))
     \<and> sys_clock s (Suc (Suc (Suc (tick s)))) \<noteq> None
     \<and> db_lookup_addr s = Map.empty \<and> brk s = 2"
  by (simp add: example_defs model_defs)

lemma st_two_addr_facts:
  "\<exists>s. run ev_two (boot world0) = Inr s
     \<and> env_has_links s
     \<and> \<not> (\<not> env_disable_ipv6ll_filter s \<and> IN6_IS_ADDR_LINKLOCAL (acmd_ip addr_b))
     \<and> db_link_cache s 3 = Some 6 \<and> h_link s 6 \<noteq> None \<and> lc_is_svi (the (h_link s 6))
     \<and> lc_ifindex (the (h_link s 6)) = 3
     \<and> sys_clock s (tick s) \<noteq> None
     \<and> db_lookup_addr s 0x20010db8000000000000000000000000 = Some 2
     \<and> h_network s 2 \<noteq> None
     \<and> nc_network (the (h_network s 2)) = 0x20010db8000000000000000000000000
     \<and> db_lookup_addr_ifindex s (0x20010db8000000000000000000000000, 3) = None
     \<and> brk s = 7"
  by (simp add: example_defs model_defs)

lemma st_two_v4_facts:
  "\<exists>s. run ev_two_v4 (boot world0) = Inr s
     \<and> env_has_links s
     \<and> \<not> (\<not> env_disable_ipv6ll_filter s \<and> IN6_IS_ADDR_LINKLOCAL (acmd_ip addr_v4b))
     \<and> db_link_cache s 3 = Some 6 \<and> h_link s 6 \<noteq> None \<and> lc_is_svi (the (h_link s 6))
     \<and> lc_ifindex (the (h_link s 6)) = 3
     \<and> sys_clock s (tick s) \<noteq> None
     \<and> db_lookup_addr s 0xffff0a000000 = Some 2
     \<and> h_network s 2 \<noteq> None
     \<and> nc_network (the (h_network s 2)) = 0xffff0a000000
     \<and> db_lookup_addr_ifindex s (0xffff0a000000, 3) = None
     \<and> brk s = 7"
  by (simp add: example_defs model_defs)

lemma masked_examples:
  "calculate_network_using_cidr (acmd_ip addr_a) (acmd_prefixlen addr_a)
     = 0x20010db8000000000000000000000000"
  "calculate_network_using_cidr (acmd_ip addr_b) (acmd_prefixlen addr_b)
     = 0x20010db8000000000000000000000000"
  "calculate_network_using_cidr (acmd_ip addr_v4) (acmd_prefixlen addr_v4) = 0xffff0a000000"
  "calculate_network_using_cidr (acmd_ip addr_v4b) (acmd_prefixlen addr_v4b) = 0xffff0a000000"
  by (simp_all add: addr_a_def addr_b_def addr_v4_def addr_v4b_def
        calculate_network_using_cidr_def IN6_IS_ADDR_V4MAPPED_def mask_eq_exp_minus_1)

text \<open>Seeds 2 and 4 of section 8 of the specification, on the SVI \<open>br0.10\<close>: the ADDR
  ADD of 10.0.0.1/24 creates Network 1 with the address ::ffff:10.0.0.0 and its entry in
  the target-networks map, and the NEIGH ADD of 10.0.0.5 finds that network by masking
  and is cached with a timer.\<close>

lemma seed_ipv4_network:
  "\<exists>s. run (ev_svi @ [Netlink (CMD_ADDR_ADD addr_v4), Netlink (CMD_NEIGH_ADD neigh_v4)])
           (boot world0) = Inr s
     \<and> db_network_cache s 1 = Some 2
     \<and> nc_network (the (h_network s 2)) = 0xffff0a000000
     \<and> nc_prefixlen (the (h_network s 2)) = 24
     \<and> target_networks s (24, 0xffff0a000000) = Some 1
     \<and> db_neigh_cache s (2, 0xffff0a000005) = Some 6
     \<and> ngc_sending_link_network (the (h_neigh s 6)) = 3
     \<and> ngc_timer (the (h_neigh s 6)) = Some 7"
  by (simp add: example_defs model_defs)

text \<open>
  C6. The two creation paths of an accepted ADDR ADD (\<open>has_links\<close> set, not filtered as
  link-local, its Link cached and an SVI, the clock readable) store different things in
  the \<open>ip\<close> of the LinkNetwork they create. When the event creates a new Network (and the
  BPF map update succeeds), \<open>cache_add_network\<close> stores the event's address as
  delivered, \<open>addr_cmd->ip\<close>, unmasked. When the event binds another SVI to an existing
  Network, \<open>handle_addr_add\<close> stores the Network's address masked to the event's
  prefixlen, which is the event's address masked to its prefixlen whenever the Network's
  address is that masked address. In the witness 2001:db8::1/64 and 10.0.0.1/24 are
  stored as they are on the first path, where their masked addresses are 2001:db8:: and
  ::ffff:10.0.0.0, and the second path stores these masked addresses.
\<close>

theorem addr_add_link_network_ip:
  assumes "env_has_links s"
    and "\<not> (\<not> env_disable_ipv6ll_filter s \<and> IN6_IS_ADDR_LINKLOCAL (acmd_ip cmd))"
    and "db_link_cache s (acmd_ifindex cmd) = Some lp" and "h_link s lp = Some l"
    and "lc_is_svi l" and "sys_clock s (tick s) = Some t0"
  shows "(db_lookup_addr s (acmd_network cmd) = None
          \<and> sys_clock s (Suc (tick s)) = Some t1 \<and> sys_bpf_ok s (Suc (Suc (tick s)))
          \<and> sys_clock s (Suc (Suc (Suc (tick s)))) = Some t2
          \<longrightarrow> (\<exists>s'. handle_addr_add cmd s = Inr (0, s')
                 \<and> db_lookup_addr s' (acmd_network cmd) = Some (brk s)
                 \<and> h_link_network s' (Suc (brk s))
                      = Some \<lparr>lnc_ip = acmd_ip cmd, lnc_network = brk s, lnc_link = lp\<rparr>))
       \<and> (db_lookup_addr s (acmd_network cmd) = Some np \<and> h_network s np = Some n
          \<and> db_lookup_addr_ifindex s (nc_network n, lc_ifindex l) = None
          \<longrightarrow> (\<exists>s' b. handle_addr_add cmd s = Inr (0, s')
                 \<and> h_link_network s' (brk s) = Some b
                 \<and> lnc_network b = np \<and> lnc_link b = lp
                 \<and> lnc_ip b = calculate_network_using_cidr (nc_network n) (acmd_prefixlen cmd)
                 \<and> (nc_network n = calculate_network_using_cidr (acmd_ip cmd) (acmd_prefixlen cmd)
                      \<longrightarrow> lnc_ip b
                           = calculate_network_using_cidr (acmd_ip cmd) (acmd_prefixlen cmd))))"
proof (intro conjI impI)
  assume h: "db_lookup_addr s (acmd_network cmd) = None
          \<and> sys_clock s (Suc (tick s)) = Some t1 \<and> sys_bpf_ok s (Suc (Suc (tick s)))
          \<and> sys_clock s (Suc (Suc (Suc (tick s)))) = Some t2"
  then have "db_lookup_addr s (acmd_network cmd) = None" "sys_clock s (Suc (tick s)) = Some t1"
    "sys_bpf_ok s (Suc (Suc (tick s)))" "sys_clock s (Suc (Suc (Suc (tick s)))) = Some t2"
    by simp_all
  from addr_add_new_network [OF assms this]
  show "\<exists>s'. handle_addr_add cmd s = Inr (0, s')
          \<and> db_lookup_addr s' (acmd_network cmd) = Some (brk s)
          \<and> h_link_network s' (Suc (brk s))
               = Some \<lparr>lnc_ip = acmd_ip cmd, lnc_network = brk s, lnc_link = lp\<rparr>"
    by blast
next
  assume h: "db_lookup_addr s (acmd_network cmd) = Some np \<and> h_network s np = Some n
          \<and> db_lookup_addr_ifindex s (nc_network n, lc_ifindex l) = None"
  then have "db_lookup_addr s (acmd_network cmd) = Some np" "h_network s np = Some n"
    "db_lookup_addr_ifindex s (nc_network n, lc_ifindex l) = None"
    by simp_all
  from addr_add_existing_network [OF assms this] obtain s' where
    x: "handle_addr_add cmd s = Inr (0, s')"
      "h_link_network s' (brk s)
         = Some \<lparr>lnc_ip = calculate_network_using_cidr (nc_network n) (acmd_prefixlen cmd),
                 lnc_network = np, lnc_link = lp\<rparr>"
    by blast
  show "\<exists>s' b. handle_addr_add cmd s = Inr (0, s')
          \<and> h_link_network s' (brk s) = Some b
          \<and> lnc_network b = np \<and> lnc_link b = lp
          \<and> lnc_ip b = calculate_network_using_cidr (nc_network n) (acmd_prefixlen cmd)
          \<and> (nc_network n = calculate_network_using_cidr (acmd_ip cmd) (acmd_prefixlen cmd)
               \<longrightarrow> lnc_ip b = calculate_network_using_cidr (acmd_ip cmd) (acmd_prefixlen cmd))"
    using x
    by (intro exI [of _ s']
          exI [of _ "\<lparr>lnc_ip = calculate_network_using_cidr (nc_network n) (acmd_prefixlen cmd),
                     lnc_network = np, lnc_link = lp\<rparr>"])
       (simp add: calculate_network_using_cidr_idem)
qed

theorem addr_add_link_network_ip_witness:
  "\<exists>s s' v' u u' b w w' b'. run ev_svi (boot world0) = Inr s
     \<and> env_has_links s \<and> db_link_cache s 2 = Some 1 \<and> lc_is_svi (the (h_link s 1))
     \<and> db_lookup_addr s = Map.empty
     \<and> handle_addr_add addr_a s = Inr (0, s')
     \<and> h_link_network s' 3
          = Some \<lparr>lnc_ip = 0x20010db8000000000000000000000001, lnc_network = 2, lnc_link = 1\<rparr>
     \<and> calculate_network_using_cidr (acmd_ip addr_a) (acmd_prefixlen addr_a)
          = 0x20010db8000000000000000000000000
     \<and> handle_addr_add addr_v4 s = Inr (0, v')
     \<and> h_link_network v' 3 = Some \<lparr>lnc_ip = 0xffff0a000001, lnc_network = 2, lnc_link = 1\<rparr>
     \<and> calculate_network_using_cidr (acmd_ip addr_v4) (acmd_prefixlen addr_v4) = 0xffff0a000000
     \<and> run ev_two (boot world0) = Inr u
     \<and> db_link_cache u 3 = Some 6 \<and> lc_is_svi (the (h_link u 6))
     \<and> db_lookup_addr u (acmd_network addr_b) = Some 2
     \<and> db_lookup_addr_ifindex u (nc_network (the (h_network u 2)), 3) = None
     \<and> handle_addr_add addr_b u = Inr (0, u')
     \<and> h_link_network u' 7 = Some b \<and> lnc_network b = 2 \<and> lnc_link b = 6
     \<and> lnc_ip b = 0x20010db8000000000000000000000000
     \<and> run ev_two_v4 (boot world0) = Inr w
     \<and> db_link_cache w 3 = Some 6 \<and> lc_is_svi (the (h_link w 6))
     \<and> db_lookup_addr w (acmd_network addr_v4b) = Some 2
     \<and> db_lookup_addr_ifindex w (nc_network (the (h_network w 2)), 3) = None
     \<and> handle_addr_add addr_v4b w = Inr (0, w')
     \<and> h_link_network w' 7 = Some b' \<and> lnc_network b' = 2 \<and> lnc_link b' = 6
     \<and> lnc_ip b' = 0xffff0a000000"
proof -
  from st_svi_addr_facts obtain s where run: "run ev_svi (boot world0) = Inr s"
    and a: "env_has_links s"
      "\<not> (\<not> env_disable_ipv6ll_filter s \<and> IN6_IS_ADDR_LINKLOCAL (acmd_ip addr_a))"
      "\<not> (\<not> env_disable_ipv6ll_filter s \<and> IN6_IS_ADDR_LINKLOCAL (acmd_ip addr_v4))"
      "db_link_cache s 2 = Some 1" "h_link s 1 \<noteq> None" "lc_is_svi (the (h_link s 1))"
      "sys_clock s (tick s) \<noteq> None" "sys_clock s (Suc (tick s)) \<noteq> None"
      "sys_bpf_ok s (Suc (Suc (tick s)))" "sys_clock s (Suc (Suc (Suc (tick s)))) \<noteq> None"
      "db_lookup_addr s = Map.empty" "brk s = 2"
    by (elim exE conjE)
  from a obtain l t0 t1 t2 where l: "h_link s 1 = Some l"
    and t: "sys_clock s (tick s) = Some t0" "sys_clock s (Suc (tick s)) = Some t1"
      "sys_clock s (Suc (Suc (Suc (tick s)))) = Some t2"
    by auto
  have svi: "lc_is_svi l" using a(6) l by simp
  have c: "acmd_ifindex addr_a = 2" "acmd_network addr_a = 0x20010db8000000000000000000000000"
    "acmd_ip addr_a = 0x20010db8000000000000000000000001"
    by (simp_all add: addr_a_def)
  have lk: "db_link_cache s (acmd_ifindex addr_a) = Some 1" using a(4) c by simp
  have na: "db_lookup_addr s (acmd_network addr_a) = None" using a(11) by simp
  from addr_add_link_network_ip [OF a(1,2) lk l svi t(1), of t1 t2] na t(2,3) a(9)
  obtain s' where x: "handle_addr_add addr_a s = Inr (0, s')"
    "h_link_network s' (Suc (brk s))
       = Some \<lparr>lnc_ip = acmd_ip addr_a, lnc_network = brk s, lnc_link = 1\<rparr>"
    by blast
  have x3: "h_link_network s' 3
      = Some \<lparr>lnc_ip = 0x20010db8000000000000000000000001, lnc_network = 2, lnc_link = 1\<rparr>"
    using x(2) c(3) a(12) by (simp add: numeral_3_eq_3)
  have c4: "acmd_ifindex addr_v4 = 2" "acmd_network addr_v4 = 0xffff0a000000"
    "acmd_ip addr_v4 = 0xffff0a000001"
    by (simp_all add: addr_v4_def)
  have lk4: "db_link_cache s (acmd_ifindex addr_v4) = Some 1" using a(4) c4 by simp
  have na4: "db_lookup_addr s (acmd_network addr_v4) = None" using a(11) by simp
  from addr_add_link_network_ip [OF a(1,3) lk4 l svi t(1), of t1 t2] na4 t(2,3) a(9)
  obtain v' where x4: "handle_addr_add addr_v4 s = Inr (0, v')"
    "h_link_network v' (Suc (brk s))
       = Some \<lparr>lnc_ip = acmd_ip addr_v4, lnc_network = brk s, lnc_link = 1\<rparr>"
    by blast
  have x43: "h_link_network v' 3
      = Some \<lparr>lnc_ip = 0xffff0a000001, lnc_network = 2, lnc_link = 1\<rparr>"
    using x4(2) c4(3) a(12) by (simp add: numeral_3_eq_3)
  from st_two_addr_facts obtain u where run2: "run ev_two (boot world0) = Inr u"
    and b: "env_has_links u"
      "\<not> (\<not> env_disable_ipv6ll_filter u \<and> IN6_IS_ADDR_LINKLOCAL (acmd_ip addr_b))"
      "db_link_cache u 3 = Some 6" "h_link u 6 \<noteq> None" "lc_is_svi (the (h_link u 6))"
      "lc_ifindex (the (h_link u 6)) = 3" "sys_clock u (tick u) \<noteq> None"
      "db_lookup_addr u 0x20010db8000000000000000000000000 = Some 2"
      "h_network u 2 \<noteq> None"
      "nc_network (the (h_network u 2)) = 0x20010db8000000000000000000000000"
      "db_lookup_addr_ifindex u (0x20010db8000000000000000000000000, 3) = None"
      "brk u = 7"
    by (elim exE conjE)
  from b obtain l2 n u0 where l2: "h_link u 6 = Some l2" and n: "h_network u 2 = Some n"
    and u0: "sys_clock u (tick u) = Some u0"
    by auto
  have d: "acmd_ifindex addr_b = 3" "acmd_network addr_b = 0x20010db8000000000000000000000000"
    by (simp_all add: addr_b_def)
  have lk2: "db_link_cache u (acmd_ifindex addr_b) = Some 6" using b(3) d by simp
  have svi2: "lc_is_svi l2" using b(5) l2 by simp
  have nn: "nc_network n = 0x20010db8000000000000000000000000" using b(10) n by simp
  have e: "db_lookup_addr u (acmd_network addr_b) = Some 2"
    "db_lookup_addr_ifindex u (nc_network n, lc_ifindex l2) = None"
    using b(6,8,11) l2 nn d by simp_all
  have m: "nc_network n = calculate_network_using_cidr (acmd_ip addr_b) (acmd_prefixlen addr_b)"
    unfolding nn masked_examples ..
  from addr_add_link_network_ip [OF b(1,2) lk2 l2 svi2 u0, of _ _ 2 n] e n m
  obtain u' bb where y: "handle_addr_add addr_b u = Inr (0, u')"
    "h_link_network u' (brk u) = Some bb" "lnc_network bb = 2" "lnc_link bb = 6"
    "lnc_ip bb = calculate_network_using_cidr (acmd_ip addr_b) (acmd_prefixlen addr_b)"
    by blast
  have z: "lnc_ip bb = 0x20010db8000000000000000000000000" using y(5) m nn by simp
  have e2: "db_lookup_addr_ifindex u (nc_network (the (h_network u 2)), 3) = None"
    using b(10,11) by simp
  have y2: "h_link_network u' 7 = Some bb" using y(2) b(12) by simp
  from st_two_v4_facts obtain w where run4: "run ev_two_v4 (boot world0) = Inr w"
    and g: "env_has_links w"
      "\<not> (\<not> env_disable_ipv6ll_filter w \<and> IN6_IS_ADDR_LINKLOCAL (acmd_ip addr_v4b))"
      "db_link_cache w 3 = Some 6" "h_link w 6 \<noteq> None" "lc_is_svi (the (h_link w 6))"
      "lc_ifindex (the (h_link w 6)) = 3" "sys_clock w (tick w) \<noteq> None"
      "db_lookup_addr w 0xffff0a000000 = Some 2"
      "h_network w 2 \<noteq> None"
      "nc_network (the (h_network w 2)) = 0xffff0a000000"
      "db_lookup_addr_ifindex w (0xffff0a000000, 3) = None"
      "brk w = 7"
    by (elim exE conjE)
  from g obtain l4 n4 w0 where l4: "h_link w 6 = Some l4" and n4: "h_network w 2 = Some n4"
    and w0: "sys_clock w (tick w) = Some w0"
    by auto
  have d4: "acmd_ifindex addr_v4b = 3" "acmd_network addr_v4b = 0xffff0a000000"
    by (simp_all add: addr_v4b_def)
  have lk5: "db_link_cache w (acmd_ifindex addr_v4b) = Some 6" using g(3) d4 by simp
  have svi4: "lc_is_svi l4" using g(5) l4 by simp
  have nn4: "nc_network n4 = 0xffff0a000000" using g(10) n4 by simp
  have e4: "db_lookup_addr w (acmd_network addr_v4b) = Some 2"
    "db_lookup_addr_ifindex w (nc_network n4, lc_ifindex l4) = None"
    using g(6,8,11) l4 nn4 d4 by simp_all
  have m4: "nc_network n4
      = calculate_network_using_cidr (acmd_ip addr_v4b) (acmd_prefixlen addr_v4b)"
    unfolding nn4 masked_examples ..
  from addr_add_link_network_ip [OF g(1,2) lk5 l4 svi4 w0, of _ _ 2 n4] e4 n4 m4
  obtain w' b4 where y4: "handle_addr_add addr_v4b w = Inr (0, w')"
    "h_link_network w' (brk w) = Some b4" "lnc_network b4 = 2" "lnc_link b4 = 6"
    "lnc_ip b4 = calculate_network_using_cidr (acmd_ip addr_v4b) (acmd_prefixlen addr_v4b)"
    by blast
  have z4: "lnc_ip b4 = 0xffff0a000000" using y4(5) m4 nn4 by simp
  have e5: "db_lookup_addr_ifindex w (nc_network (the (h_network w 2)), 3) = None"
    using g(10,11) by simp
  have y5: "h_link_network w' 7 = Some b4" using y4(2) g(12) by simp
  from run a(1,4,6,11) x(1) x3 masked_examples(1) x4(1) x43 masked_examples(3)
    run2 b(3,5) e(1) e2 y(1) y2 y(3,4) z
    run4 g(3,5) e4(1) e5 y4(1) y5 y4(3,4) z4
  show ?thesis by blast
qed

section \<open>The refcnt law\<close>

subsection \<open>ADDR DEL walks the list that it unlinks\<close>

lemma find_network_frame:
  assumes "h_link_network s' = h_link_network s" and "h_network s' = h_network s"
  shows "find_network xs cmd s' = find_network xs cmd s"
proof (induction xs)
  case Nil
  show ?case by simp
next
  case (Cons x xs)
  obtain node d where x: "x = (node, d)" by (cases x)
  show ?case unfolding x by (simp add: assms Cons.IH cong: if_cong)
qed

lemma del_network_links_head:
  assumes "h_network s np = Some n" and "nc_links n = (node, q) # rest"
    and "node \<notin> fst ` set rest"
    and "h_link_network s q = Some b" and "lnc_network b = np"
  shows "del_network_links np (nc_links n) s = Inl UseAfterFree"
proof (cases "h_link s (lnc_link b)")
  case None
  with assms have "cache_del_link_network q s = Inl UseAfterFree"
    by (simp add: cache_del_link_network_def)
  with assms show ?thesis by (simp add: g_list_has_node_def)
next
  case (Some lk)
  with assms show ?thesis
    by (simp add: cache_del_link_network_def Let_def g_list_has_node_def)
qed

lemma run_append: "run (xs @ ys) s = seq (run xs s) (run ys)"
proof (induction xs arbitrary: s)
  case Nil
  show ?case by simp
next
  case (Cons x xs)
  show ?case by (cases "step x s") (simp_all add: Cons.IH)
qed

lemma st_net_del_facts:
  "\<exists>s. run ev_net (boot world0) = Inr s
     \<and> db_lookup_addr s (acmd_network addr_del_net) = Some 2
     \<and> db_link_cache s (acmd_ifindex addr_del_net) = Some 1 \<and> h_link s 1 \<noteq> None
     \<and> sys_clock s (tick s) \<noteq> None
     \<and> find_network (lc_network_list (the (h_link s 1))) addr_del_net s = Inr (Some 2)
     \<and> db_network_cache s 1 = Some 2 \<and> h_network s 2 \<noteq> None
     \<and> nc_links (the (h_network s 2)) = [(4, 3)] \<and> nc_refcnt (the (h_network s 2)) = 1
     \<and> h_link_network s 3 \<noteq> None \<and> lnc_network (the (h_link_network s 3)) = 2"
  by (simp add: example_defs model_defs)

text \<open>
  C5. An ADDR DEL that finds its Network, the first node of \<open>network->links\<close> carrying a
  binding of that Network, never yields a cache state in which the law could be read:
  \<open>cache_del_network\<close> walks \<open>network->links\<close> with \<open>g_list_next(iter)\<close> while
  \<open>cache_del_link_network(iter->data)\<close> unlinks and frees the node \<open>iter\<close> points to, so the
  step to the next node reads a freed block. (When the Link of that binding is already
  freed, \<open>cache_del_link_network\<close> itself reads a freed block.) In the witness this is the
  ADDR DEL of 2001:db8::/64 right after the ADDR ADD that created the Network.
\<close>

theorem addr_del_use_after_free:
  assumes "db_lookup_addr s (acmd_network cmd) = Some x"
    and "db_link_cache s (acmd_ifindex cmd) = Some lp" and "h_link s lp = Some l"
    and "sys_clock s (tick s) = Some t0"
    and "find_network (lc_network_list l) cmd s = Inr (Some np)"
    and "h_network s np = Some n" and "nc_links n = (node, q) # rest"
    and "node \<notin> fst ` set rest"
    and "h_link_network s q = Some b" and "lnc_network b = np"
  shows "handle_addr_del cmd s = Inl UseAfterFree"
proof -
  define l1 where "l1 = l\<lparr>lc_times := (lc_times l)\<lparr>referenced := t0\<rparr>,
                         lc_reference_count := Suc (lc_reference_count l)\<rparr>"
  define s1 where "s1 = s\<lparr>tick := Suc (tick s), h_link := (h_link s)(lp \<mapsto> l1)\<rparr>"
  have g: "cache_get_link (acmd_ifindex cmd) s = Inr (Some lp, s1)"
    unfolding s1_def l1_def using assms(2,3,4) by (rule cache_get_link_ok)
  have p: "h_link s1 lp = Some l1" "lc_network_list l1 = lc_network_list l"
    "h_network s1 np = Some n"
    using assms(6) by (simp_all add: s1_def l1_def)
  have "find_network (lc_network_list l) cmd s1 = find_network (lc_network_list l) cmd s"
    by (rule find_network_frame) (simp_all add: s1_def)
  with assms(5) have fn: "find_network (lc_network_list l) cmd s1 = Inr (Some np)" by simp
  have d: "del_network_links np (nc_links n)
             (s1\<lparr>db_network_cache := (db_network_cache s1)(nc_id n := None),
                 db_lookup_addr := (db_lookup_addr s1)(nc_network n := None)\<rparr>)
           = Inl UseAfterFree"
    using assms(6-10) by (intro del_network_links_head) (simp_all add: s1_def)
  have "cache_del_network cmd s = Inl UseAfterFree"
    using g p fn d by (simp add: cache_del_network_def Let_def)
  with assms(1) show ?thesis
    by (simp add: handle_addr_del_def cache_get_network_def)
qed

theorem addr_del_use_after_free_witness:
  "\<exists>s. run ev_net (boot world0) = Inr s
     \<and> db_lookup_addr s (acmd_network addr_del_net) = Some 2
     \<and> db_link_cache s (acmd_ifindex addr_del_net) = Some 1
     \<and> sys_clock s (tick s) \<noteq> None
     \<and> find_network (lc_network_list (the (h_link s 1))) addr_del_net s = Inr (Some 2)
     \<and> db_network_cache s 1 = Some 2
     \<and> nc_links (the (h_network s 2)) = [(4, 3)] \<and> nc_refcnt (the (h_network s 2)) = 1
     \<and> lnc_network (the (h_link_network s 3)) = 2
     \<and> handle_addr_del addr_del_net s = Inl UseAfterFree
     \<and> run (ev_net @ [Netlink (CMD_ADDR_DEL addr_del_net)]) (boot world0) = Inl UseAfterFree"
proof -
  from st_net_del_facts obtain s where run: "run ev_net (boot world0) = Inr s"
    and a: "db_lookup_addr s (acmd_network addr_del_net) = Some 2"
      "db_link_cache s (acmd_ifindex addr_del_net) = Some 1" "h_link s 1 \<noteq> None"
      "sys_clock s (tick s) \<noteq> None"
      "find_network (lc_network_list (the (h_link s 1))) addr_del_net s = Inr (Some 2)"
      "db_network_cache s 1 = Some 2" "h_network s 2 \<noteq> None"
      "nc_links (the (h_network s 2)) = [(4, 3)]" "nc_refcnt (the (h_network s 2)) = 1"
      "h_link_network s 3 \<noteq> None" "lnc_network (the (h_link_network s 3)) = 2"
    by (elim exE conjE)
  from a obtain l t0 n b where l: "h_link s 1 = Some l" and t: "sys_clock s (tick s) = Some t0"
    and n: "h_network s 2 = Some n" and b: "h_link_network s 3 = Some b"
    by auto
  have f: "find_network (lc_network_list l) addr_del_net s = Inr (Some 2)" using a(5) l by simp
  have k: "nc_links n = (4, 3) # []" using a(8) n by simp
  have e: "4 \<notin> fst ` set ([] :: glist)" by simp
  have m: "lnc_network b = 2" using a(11) b by simp
  from addr_del_use_after_free [OF a(1,2) l t f n k e b m]
  have x: "handle_addr_del addr_del_net s = Inl UseAfterFree" .
  have "run (ev_net @ [Netlink (CMD_ADDR_DEL addr_del_net)]) (boot world0) = Inl UseAfterFree"
    using run x by (simp add: run_append)
  with run a x show ?thesis by blast
qed

text \<open>
  What is left of the law: on every run that ends in a state, that is, reads no freed
  block and is not aborted by the allocator, every entry of the network table points to
  an allocated Network whose \<open>id\<close> is the entry's key and whose \<open>refcnt\<close> equals the
  length of its \<open>links\<close> list. This is an invariant of the handlers; the rest of this
  section proves it.
\<close>

subsection \<open>Calls that leave the Networks alone\<close>

lemma net_inv_mono: "net_inv ex b hn hl db \<Longrightarrow> b \<le> b' \<Longrightarrow> net_inv ex b' hn hl db"
  unfolding net_inv_def by (meson less_le_trans)

lemma net_frame_inv: "net_frame s s' \<Longrightarrow> refcnt_inv ex s \<Longrightarrow> refcnt_inv ex s'"
  by (auto simp: net_frame_def refcnt_inv_def elim: net_inv_mono)

lemma cache_get_link_net: "cache_get_link i s = Inr (r, s') \<Longrightarrow> net_frame s s'"
  by (auto simp: cache_get_link_def clock_gettime_def seq_eq_Inr net_frame_def
        split: option.splits)

lemma cache_add_link_net: "cache_add_link c s = (r, s') \<Longrightarrow> net_frame s s'"
  by (auto simp: cache_add_link_def clock_gettime_def net_frame_def Let_def
        split: option.splits)

lemma cache_update_link_net: "cache_update_link p c s = Inr (r, s') \<Longrightarrow> net_frame s s'"
  by (auto simp: cache_update_link_def clock_gettime_def seq_eq_Inr net_frame_def Let_def
        split: option.splits if_splits)

lemma fdb_table_remove_net: "net_frame s (fdb_table_remove key s)"
  by (simp add: fdb_table_remove_def net_frame_def split: option.splits)

lemma cache_get_fdb_net: "cache_get_fdb c s = Inr (r, s') \<Longrightarrow> net_frame s s'"
  by (auto simp: cache_get_fdb_def clock_gettime_def seq_eq_Inr net_frame_def
        split: option.splits)

lemma cache_add_fdb_net: "cache_add_fdb c s = Inr (r, s') \<Longrightarrow> net_frame s s'"
  apply (clarsimp simp: cache_add_fdb_def seq_eq_Inr)
  apply (frule cache_get_link_net)
  apply (auto simp: clock_gettime_def net_frame_def Let_def fdb_table_remove_def
           split: option.splits)
  done

lemma cache_del_fdb_net: "net_frame s (snd (cache_del_fdb c s))"
  by (simp add: cache_del_fdb_def net_frame_def fdb_table_remove_def Let_def
        split: option.splits)

lemma cache_add_neigh_net: "cache_add_neigh q c s = (r, s') \<Longrightarrow> net_frame s s'"
  by (auto simp: cache_add_neigh_def clock_gettime_def net_frame_def Let_def
        split: option.splits)

lemma cache_get_neigh_net: "cache_get_neigh c s = Inr (r, s') \<Longrightarrow> net_frame s s'"
  by (auto simp: cache_get_neigh_def clock_gettime_def seq_eq_Inr net_frame_def
        split: option.splits)

lemma cache_neigh_update_net: "cache_neigh_update c s = Inr (r, s') \<Longrightarrow> net_frame s s'"
  by (auto simp: cache_neigh_update_def clock_gettime_def seq_eq_Inr net_frame_def Let_def
        split: option.splits if_splits)

lemma cache_del_neigh_net: "cache_del_neigh p s = Inr s' \<Longrightarrow> net_frame s s'"
  by (auto simp: cache_del_neigh_def seq_eq_Inr net_frame_def)

lemma get_next_gratuitous_time_net:
  "get_next_gratuitous_time p s = Inr (r, s') \<Longrightarrow> net_frame s s'"
  by (auto simp: get_next_gratuitous_time_def seq_eq_Inr net_frame_def Let_def
        split: option.splits)

lemma timer_add_neigh_net: "timer_add_neigh p x s = Inr (r, s') \<Longrightarrow> net_frame s s'"
  by (auto simp: timer_add_neigh_def seq_eq_Inr net_frame_def Let_def split: if_splits)

lemma net_frame_trans: "net_frame s s1 \<Longrightarrow> net_frame s1 s2 \<Longrightarrow> net_frame s s2"
  by (simp add: net_frame_def)

lemma net_frame_refl [simp]: "net_frame s s"
  by (simp add: net_frame_def)

lemma new_neigh_timer_net: "new_neigh_timer p s = Inr (r, s') \<Longrightarrow> net_frame s s'"
  apply (clarsimp simp: new_neigh_timer_def seq_eq_Inr)
  apply (frule get_next_gratuitous_time_net)
  apply (auto split: option.splits if_splits simp: seq_eq_Inr net_frame_def
           dest!: timer_add_neigh_net)
  done

lemma send_gratuitous_neighbor_request_net:
  "send_gratuitous_neighbor_request p s = Inr s' \<Longrightarrow> net_frame s s'"
  by (cases "sys_send_ok s (tick s)")
     (auto simp: send_gratuitous_neighbor_request_def seq_eq_Inr net_frame_def Let_def)

lemma cache_del_fdb_snd [simp]:
  "brk (snd (cache_del_fdb c s)) = brk s"
  "h_network (snd (cache_del_fdb c s)) = h_network s"
  "h_link_network (snd (cache_del_fdb c s)) = h_link_network s"
  "db_network_cache (snd (cache_del_fdb c s)) = db_network_cache s"
  by (simp_all add: cache_del_fdb_def fdb_table_remove_def Let_def split: option.splits)

lemma timer_remove_event_net [simp]:
  "brk (timer_remove_event t s) = brk s"
  "h_network (timer_remove_event t s) = h_network s"
  "h_link_network (timer_remove_event t s) = h_link_network s"
  "db_network_cache (timer_remove_event t s) = db_network_cache s"
  by (simp_all add: timer_remove_event_def)

lemma netlink_send_neigh_net [simp]:
  "brk (netlink_send_neigh r i s) = brk s"
  "h_network (netlink_send_neigh r i s) = h_network s"
  "h_link_network (netlink_send_neigh r i s) = h_link_network s"
  "db_network_cache (netlink_send_neigh r i s) = db_network_cache s"
  by (simp_all add: netlink_send_neigh_def)

lemma handle_fdb_del_net: "handle_fdb_del c s = Inr (r, s') \<Longrightarrow> net_frame s s'"
  by (auto simp: handle_fdb_del_def seq_eq_Inr net_frame_def split: option.splits
        dest!: cache_get_fdb_net)

lemma handle_fdb_add_net: "handle_fdb_add c s = Inr (r, s') \<Longrightarrow> net_frame s s'"
  by (auto simp: handle_fdb_add_def seq_eq_Inr net_frame_def split: option.splits if_splits
        dest!: cache_get_fdb_net cache_get_link_net cache_add_fdb_net)

lemma handle_neigh_del_net: "handle_neigh_del c s = Inr (r, s') \<Longrightarrow> net_frame s s'"
  by (auto simp: handle_neigh_del_def seq_eq_Inr net_frame_def Let_def split: option.splits
        dest!: cache_get_neigh_net cache_del_neigh_net)

subsection \<open>Postconditions along \<open>seq\<close>\<close>

lemma post_seq: "post P (seq m f) = (\<forall>x. m = Inr x \<longrightarrow> post P (f x))"
  by (cases m) (simp_all add: post_def)

lemma post_Inr [simp]: "post P (Inr x) = P x"
  by (simp add: post_def)

lemma post_Inl [simp]: "post P (Inl e)"
  by (simp add: post_def)

lemma postD: "post P m \<Longrightarrow> m = Inr x \<Longrightarrow> P x"
  by (simp add: post_def)

lemma handle_link_add_net: "post (\<lambda>(r, s'). net_frame s s') (handle_link_add c s)"
  by (auto simp: handle_link_add_def post_seq net_frame_def Let_def
        split: option.split prod.split
        dest!: cache_get_link_net cache_update_link_net cache_add_link_net)

lemma handle_neighbor_reply_net:
  "post (\<lambda>(r, s'). net_frame s s') (handle_neighbor_reply r s)"
  by (auto simp: handle_neighbor_reply_def cache_get_fdb_by_reply_def
        cache_get_neigh_by_reply_def post_seq net_frame_def Let_def
        split: option.split
        dest!: cache_get_fdb_net cache_get_neigh_net new_neigh_timer_net)

lemma handle_neigh_add_net: "post (\<lambda>(r, s'). net_frame s s') (handle_neigh_add c s)"
  by (auto simp: handle_neigh_add_def post_seq seq_eq_Inr net_frame_def Let_def
        split: option.split prod.split
        dest!: cache_get_link_net cache_get_neigh_net cache_neigh_update_net
          cache_add_neigh_net new_neigh_timer_net send_gratuitous_neighbor_request_net)

subsection \<open>Binding and unbinding\<close>

lemma g_list_delete_data_Suc:
  "d \<in> snd ` set xs \<Longrightarrow> Suc (length (g_list_delete_data d xs)) = length xs"
  by (induction d xs rule: g_list_delete_data.induct) auto

lemma g_list_delete_data_length:
  "d \<in> snd ` set xs \<Longrightarrow> int (length (g_list_delete_data d xs)) = int (length xs) - 1"
  using g_list_delete_data_Suc [of d xs] by simp

lemma g_list_delete_data_other:
  "x \<in> snd ` set xs \<Longrightarrow> x \<noteq> d \<Longrightarrow> x \<in> snd ` set (g_list_delete_data d xs)"
  by (induction d xs rule: g_list_delete_data.induct) auto

lemma cache_add_link_network_inv:
  assumes "refcnt_inv {q} s"
  shows "post (\<lambda>(r, s'). refcnt_inv {} s' \<and> db_network_cache s' = db_network_cache s)
           (cache_add_link_network q s)"
  using assms
  by (auto simp: cache_add_link_network_def post_seq refcnt_inv_def net_inv_def Let_def less_Suc_eq;
      fastforce)

lemma cache_del_link_network_inv:
  assumes "refcnt_inv {} s"
  shows "post (\<lambda>s'. refcnt_inv {} s' \<and> db_network_cache s' = db_network_cache s)
           (cache_del_link_network q s)"
  using assms
  by (auto simp: cache_del_link_network_def post_seq refcnt_inv_def net_inv_def Let_def
        g_list_delete_data_length g_list_delete_data_other; fastforce)

lemma cache_del_link_network_invD:
  "cache_del_link_network q s = Inr s' \<Longrightarrow> refcnt_inv {} s \<Longrightarrow> refcnt_inv {} s'"
  using cache_del_link_network_inv [of s q] by (simp add: post_def)

lemma del_link_networks_inv:
  "refcnt_inv {} s \<Longrightarrow> post (refcnt_inv {}) (del_link_networks cache xs s)"
proof (induction xs arbitrary: s)
  case Nil
  then show ?case by simp
next
  case (Cons x xs)
  obtain node d where x: "x = (node, d)" by (cases x)
  show ?case
    unfolding x using Cons.prems
    by (auto simp: post_seq intro!: Cons.IH dest: cache_del_link_network_invD)
qed

lemma del_network_links_inv:
  "refcnt_inv {} s \<Longrightarrow> post (refcnt_inv {}) (del_network_links network xs s)"
proof (induction xs arbitrary: s)
  case Nil
  then show ?case by simp
next
  case (Cons x xs)
  obtain node d where x: "x = (node, d)" by (cases x)
  show ?case
    unfolding x using Cons.prems
    by (auto simp: post_seq intro!: Cons.IH dest: cache_del_link_network_invD)
qed

lemma del_link_fdbs_net: "post (net_frame s) (del_link_fdbs xs s)"
proof (induction xs arbitrary: s)
  case Nil
  then show ?case by simp
next
  case (Cons x xs)
  obtain node d where x: "x = (node, d)" by (cases x)
  have "post (net_frame s) (del_link_fdbs xs (fdb_table_remove k s))" for k
    using Cons.IH [of "fdb_table_remove k s"] fdb_table_remove_net [of s k]
    by (auto simp: post_def intro: net_frame_trans)
  then show ?case
    unfolding x by (simp add: post_seq)
qed

lemma refcnt_inv_link_update:
  "refcnt_inv ex s \<Longrightarrow> refcnt_inv ex (s\<lparr>db_link_cache := a, h_link := b\<rparr>)"
  by (simp add: refcnt_inv_def)

lemma cache_del_link_inv:
  assumes "refcnt_inv {} s"
  shows "post (\<lambda>(r, s'). refcnt_inv {} s') (cache_del_link c s)"
proof -
  have "refcnt_inv {} (s2\<lparr>db_link_cache := a, h_link := b\<rparr>)"
    if "del_link_networks cache xs s = Inr s1" and "del_link_fdbs ys s1 = Inr s2"
    for cache xs s1 ys s2 a b
  proof -
    from postD [OF del_link_networks_inv [OF assms] that(1)] have "refcnt_inv {} s1" .
    with postD [OF del_link_fdbs_net that(2)] have "refcnt_inv {} s2" by (rule net_frame_inv)
    then show ?thesis by (rule refcnt_inv_link_update)
  qed
  with assms show ?thesis
    by (simp add: cache_del_link_def post_seq split: option.split)
qed

lemma handle_link_del_inv:
  assumes "refcnt_inv {} s"
  shows "post (\<lambda>(r, s'). refcnt_inv {} s') (handle_link_del c s)"
proof -
  have "refcnt_inv {} s2"
    if "cache_get_link (lcmd_ifindex c) s = Inr (l, s1)" and "cache_del_link c s1 = Inr (r, s2)"
    for l s1 r s2
  proof -
    from cache_get_link_net [OF that(1)] assms have "refcnt_inv {} s1" by (rule net_frame_inv)
    from postD [OF cache_del_link_inv [OF this] that(2)] show ?thesis by simp
  qed
  moreover have "refcnt_inv {} s1" if "cache_get_link (lcmd_ifindex c) s = Inr (l, s1)" for l s1
    using cache_get_link_net [OF that] assms by (rule net_frame_inv)
  ultimately show ?thesis
    by (simp add: handle_link_del_def post_seq split: option.split)
qed

subsection \<open>Allocation, rollback and timestamps\<close>

lemma net_invD:
  assumes "net_inv ex b hn hl db"
  shows "\<And>p n. hn p = Some n \<Longrightarrow> p < b \<and> nc_refcnt n = int (length (nc_links n))"
    and "\<And>q c. hl q = Some c \<Longrightarrow> lnc_network c < b"
    and "\<And>q c n. hl q = Some c \<Longrightarrow> q \<notin> ex \<Longrightarrow> hn (lnc_network c) = Some n
           \<Longrightarrow> q \<in> snd ` set (nc_links n)"
    and "\<And>i p. db i = Some p \<Longrightarrow> \<exists>n. hn p = Some n \<and> nc_id n = i"
  using assms unfolding net_inv_def by blast+

lemma net_invI:
  assumes "\<And>p n. hn p = Some n \<Longrightarrow> p < b \<and> nc_refcnt n = int (length (nc_links n))"
    and "\<And>q c. hl q = Some c \<Longrightarrow> lnc_network c < b"
    and "\<And>q c n. hl q = Some c \<Longrightarrow> q \<notin> ex \<Longrightarrow> hn (lnc_network c) = Some n
           \<Longrightarrow> q \<in> snd ` set (nc_links n)"
    and "\<And>i p. db i = Some p \<Longrightarrow> \<exists>n. hn p = Some n \<and> nc_id n = i"
  shows "net_inv ex b hn hl db"
  unfolding net_inv_def using assms by blast

lemma net_inv_alloc:
  assumes "net_inv {} b hn hl db" and "nc_links n = []" and "nc_refcnt n = 0"
    and "nc_id n = ident"
  shows "net_inv {Suc b} (Suc (Suc b)) (hn(b \<mapsto> n))
           (hl(Suc b \<mapsto> \<lparr>lnc_ip = ip, lnc_network = b, lnc_link = lp\<rparr>)) (db(ident \<mapsto> b))"
proof (rule net_invI)
  note d = net_invD [OF assms(1)]
  fix p m assume "(hn(b \<mapsto> n)) p = Some m"
  then show "p < Suc (Suc b) \<and> nc_refcnt m = int (length (nc_links m))"
    using d(1) [of p m] assms(2,3) by (auto split: if_splits)
next
  note d = net_invD [OF assms(1)]
  fix q c assume "(hl(Suc b \<mapsto> \<lparr>lnc_ip = ip, lnc_network = b, lnc_link = lp\<rparr>)) q = Some c"
  then show "lnc_network c < Suc (Suc b)"
    using d(2) [of q c] by (auto split: if_splits)
next
  note d = net_invD [OF assms(1)]
  fix q c m
  assume h: "(hl(Suc b \<mapsto> \<lparr>lnc_ip = ip, lnc_network = b, lnc_link = lp\<rparr>)) q = Some c"
    "q \<notin> {Suc b}" "(hn(b \<mapsto> n)) (lnc_network c) = Some m"
  then have c: "hl q = Some c" by (auto split: if_splits)
  from d(2) [OF c] have "lnc_network c \<noteq> b" by simp
  with h(3) have "hn (lnc_network c) = Some m" by simp
  from d(3) [OF c _ this] show "q \<in> snd ` set (nc_links m)" by simp
next
  note d = net_invD [OF assms(1)]
  fix i p assume h: "(db(ident \<mapsto> b)) i = Some p"
  show "\<exists>m. (hn(b \<mapsto> n)) p = Some m \<and> nc_id m = i"
  proof (cases "i = ident")
    case True
    with h assms(4) show ?thesis by simp
  next
    case False
    with h have "db i = Some p" by simp
    from d(4) [OF this] obtain m where m: "hn p = Some m" "nc_id m = i" by blast
    from d(1) [OF m(1)] have "p \<noteq> b" by simp
    with m show ?thesis by simp
  qed
qed

lemma net_inv_err3:
  assumes "net_inv {} b hn hl db" and "db ident = Some cache"
  shows "net_inv {} b (hn(cache := None)) hl (db(ident := None))"
proof (rule net_invI)
  note d = net_invD [OF assms(1)]
  fix p m assume "(hn(cache := None)) p = Some m"
  then show "p < b \<and> nc_refcnt m = int (length (nc_links m))"
    using d(1) [of p m] by (auto split: if_splits)
next
  note d = net_invD [OF assms(1)]
  fix q c assume "hl q = Some c"
  then show "lnc_network c < b" by (rule d(2))
next
  note d = net_invD [OF assms(1)]
  fix q c m
  assume h: "hl q = Some c" "q \<notin> {}" "(hn(cache := None)) (lnc_network c) = Some m"
  then have "hn (lnc_network c) = Some m" by (auto split: if_splits)
  from d(3) [OF h(1,2) this] show "q \<in> snd ` set (nc_links m)" .
next
  note d = net_invD [OF assms(1)]
  fix i p assume h: "(db(ident := None)) i = Some p"
  then have i: "i \<noteq> ident" "db i = Some p" by (auto split: if_splits)
  from d(4) [OF i(2)] obtain m where m: "hn p = Some m" "nc_id m = i" by blast
  from d(4) [OF assms(2)] obtain m0 where m0: "hn cache = Some m0" "nc_id m0 = ident" by blast
  from m m0 i(1) have "p \<noteq> cache" by auto
  with m show "\<exists>m. (hn(cache := None)) p = Some m \<and> nc_id m = i" by simp
qed

lemma net_inv_times:
  assumes "net_inv ex b hn hl db" and "hn p = Some n"
  shows "net_inv ex b (hn(p \<mapsto> n\<lparr>nc_times := t\<rparr>)) hl db"
proof (rule net_invI)
  note d = net_invD [OF assms(1)]
  fix p' m assume "(hn(p \<mapsto> n\<lparr>nc_times := t\<rparr>)) p' = Some m"
  then show "p' < b \<and> nc_refcnt m = int (length (nc_links m))"
    using d(1) [of p' m] d(1) [OF assms(2)] by (auto split: if_splits)
next
  note d = net_invD [OF assms(1)]
  fix q c assume "hl q = Some c"
  then show "lnc_network c < b" by (rule d(2))
next
  note d = net_invD [OF assms(1)]
  fix q c m
  assume h: "hl q = Some c" "q \<notin> ex" "(hn(p \<mapsto> n\<lparr>nc_times := t\<rparr>)) (lnc_network c) = Some m"
  show "q \<in> snd ` set (nc_links m)"
  proof (cases "lnc_network c = p")
    case True
    with h(3) have "nc_links m = nc_links n" by auto
    with d(3) [OF h(1,2)] True assms(2) show ?thesis by simp
  next
    case False
    with h(3) have "hn (lnc_network c) = Some m" by simp
    from d(3) [OF h(1,2) this] show ?thesis .
  qed
next
  note d = net_invD [OF assms(1)]
  fix i p' assume "db i = Some p'"
  from d(4) [OF this] obtain m where m: "hn p' = Some m" "nc_id m = i" by blast
  show "\<exists>m. (hn(p \<mapsto> n\<lparr>nc_times := t\<rparr>)) p' = Some m \<and> nc_id m = i"
  proof (cases "p' = p")
    case True
    with m assms(2) show ?thesis by simp
  next
    case False
    with m show ?thesis by simp
  qed
qed

lemma net_inv_bind:
  assumes "net_inv {} b hn hl db" and "hn np = Some n"
  shows "net_inv {b} (Suc b) hn (hl(b \<mapsto> \<lparr>lnc_ip = ip, lnc_network = np, lnc_link = lp\<rparr>)) db"
proof (rule net_invI)
  note d = net_invD [OF assms(1)]
  fix p m assume "hn p = Some m"
  from d(1) [OF this] show "p < Suc b \<and> nc_refcnt m = int (length (nc_links m))" by simp
next
  note d = net_invD [OF assms(1)]
  fix q c assume "(hl(b \<mapsto> \<lparr>lnc_ip = ip, lnc_network = np, lnc_link = lp\<rparr>)) q = Some c"
  then show "lnc_network c < Suc b"
    using d(2) [of q c] d(1) [OF assms(2)] by (auto split: if_splits)
next
  note d = net_invD [OF assms(1)]
  fix q c m
  assume h: "(hl(b \<mapsto> \<lparr>lnc_ip = ip, lnc_network = np, lnc_link = lp\<rparr>)) q = Some c"
    "q \<notin> {b}" "hn (lnc_network c) = Some m"
  then have "hl q = Some c" by (auto split: if_splits)
  from d(3) [OF this _ h(3)] show "q \<in> snd ` set (nc_links m)" by simp
next
  note d = net_invD [OF assms(1)]
  fix i p assume "db i = Some p"
  then show "\<exists>m. hn p = Some m \<and> nc_id m = i" by (rule d(4))
qed

lemma net_inv_table_del:
  "net_inv ex b hn hl db \<Longrightarrow> net_inv ex b hn hl (db(i := None))"
  by (simp add: net_inv_def)

lemma cache_add_network_inv:
  assumes "refcnt_inv {} s"
  shows "post (\<lambda>(r, s'). refcnt_inv {} s') (cache_add_network cmd s)"
proof (cases "cache_get_link (acmd_ifindex cmd) s")
  case (Inl e)
  then show ?thesis by (simp add: cache_add_network_def)
next
  case (Inr x)
  then obtain l s1 where g: "cache_get_link (acmd_ifindex cmd) s = Inr (l, s1)"
    by (cases x) simp
  from cache_get_link_net [OF g] assms have i1: "refcnt_inv {} s1" by (rule net_frame_inv)
  show ?thesis
  proof (cases l)
    case None
    with g i1 show ?thesis by (simp add: cache_add_network_def)
  next
    case (Some lp)
    define s2 where "s2 = s1\<lparr>brk := Suc (Suc (brk s1)),
        network_next_id := network_next_id s1 + 1,
        h_network := (h_network s1)(brk s1 \<mapsto>
          \<lparr>nc_id = network_next_id s1, nc_network = acmd_network cmd,
           nc_prefixlen = acmd_prefixlen cmd,
           nc_true_prefixlen = acmd_true_prefixlen cmd,
           nc_links = [], nc_refcnt = 0, nc_times = times0,
           nc_reference_count = 0\<rparr>),
        h_link_network := (h_link_network s1)(Suc (brk s1) \<mapsto>
          \<lparr>lnc_ip = acmd_ip cmd, lnc_network = brk s1, lnc_link = lp\<rparr>),
        db_network_cache := (db_network_cache s1)(network_next_id s1 \<mapsto> brk s1),
        db_lookup_addr := (db_lookup_addr s1)(acmd_network cmd \<mapsto> brk s1)\<rparr>"
    have i2: "refcnt_inv {Suc (brk s1)} s2"
      using i1 unfolding refcnt_inv_def s2_def by (simp add: net_inv_alloc)
    have t2: "db_network_cache s2 (network_next_id s1) = Some (brk s1)"
      by (simp add: s2_def)
    show ?thesis
    proof (cases "cache_add_link_network (Suc (brk s1)) s2")
      case (Inl e)
      with g Some show ?thesis
        by (simp add: cache_add_network_def Let_def s2_def)
    next
      case (Inr y)
      then obtain r s3 where a: "cache_add_link_network (Suc (brk s1)) s2 = Inr (r, s3)"
        by (cases y) simp
      from postD [OF cache_add_link_network_inv [OF i2] a]
      have j3: "refcnt_inv {} s3" and e3: "db_network_cache s3 = db_network_cache s2"
        by simp_all
      from j3 have
        i3: "net_inv {} (brk s3) (h_network s3) (h_link_network s3) (db_network_cache s3)"
        by (simp add: refcnt_inv_def)
      from t2 e3 have t3: "db_network_cache s3 (network_next_id s1) = Some (brk s1)"
        by simp
      from g Some a [unfolded s2_def] i3 t3 show ?thesis
        by (auto simp: cache_add_network_def Let_def bpf_map_update_elem_def clock_gettime_def
              cache_add_network_err3_def post_seq refcnt_inv_def
              split: option.split intro!: net_inv_err3 net_inv_times)
    qed
  qed
qed

lemma cache_del_network_inv:
  assumes "refcnt_inv {} s"
  shows "post (\<lambda>(r, s'). refcnt_inv {} s') (cache_del_network cmd s)"
proof -
  have a: "refcnt_inv {} s1" if "cache_get_link (acmd_ifindex cmd) s = Inr (l, s1)" for l s1
    using cache_get_link_net [OF that] assms by (rule net_frame_inv)
  have b: "refcnt_inv {} (s3\<lparr>tick := t\<rparr>)"
          "refcnt_inv {} (s3\<lparr>tick := t, target_networks := u\<rparr>)"
    if "cache_get_link (acmd_ifindex cmd) s = Inr (l, s1)"
      and "del_network_links network xs
             (s1\<lparr>db_network_cache := (db_network_cache s1)(i := None),
                 db_lookup_addr := y\<rparr>) = Inr s3"
    for l s1 network xs i y s3 t u
  proof -
    have "refcnt_inv {} (s1\<lparr>db_network_cache := (db_network_cache s1)(i := None),
                 db_lookup_addr := y\<rparr>)"
      using a [OF that(1)] by (simp add: refcnt_inv_def net_inv_table_del)
    from postD [OF del_network_links_inv [OF this] that(2)]
    show "refcnt_inv {} (s3\<lparr>tick := t\<rparr>)"
      "refcnt_inv {} (s3\<lparr>tick := t, target_networks := u\<rparr>)"
      by (simp_all add: refcnt_inv_def)
  qed
  show ?thesis
    using a b
    by (simp add: cache_del_network_def post_seq Let_def bpf_map_delete_elem_def
          split: option.split)
qed

lemma handle_addr_del_inv:
  assumes "refcnt_inv {} s"
  shows "post (\<lambda>(r, s'). refcnt_inv {} s') (handle_addr_del cmd s)"
  using assms postD [OF cache_del_network_inv [OF assms]]
  by (auto simp: handle_addr_del_def post_seq split: option.split)

subsection \<open>The handlers and the run\<close>

lemma handle_addr_add_inv:
  assumes "refcnt_inv {} s"
  shows "post (\<lambda>(r, s'). refcnt_inv {} s') (handle_addr_add cmd s)"
proof -
  have a: "refcnt_inv {} s1" if "cache_get_link (acmd_ifindex cmd) s = Inr (l, s1)" for l s1
    using cache_get_link_net [OF that] assms by (rule net_frame_inv)
  have b: "refcnt_inv {} s2"
    if "cache_get_link (acmd_ifindex cmd) s = Inr (l, s1)"
      and "cache_add_network cmd s1 = Inr (r, s2)" for l s1 r s2
    using postD [OF cache_add_network_inv [OF a [OF that(1)]] that(2)] by simp
  have c: "post (\<lambda>(r, s'). refcnt_inv {} s')
             (cache_add_link_network (brk s2)
                (s2\<lparr>brk := Suc (brk s2),
                    h_link_network := (h_link_network s2)(brk s2 \<mapsto>
                      \<lparr>lnc_ip = ip, lnc_network = np, lnc_link = lp\<rparr>)\<rparr>))"
    if "refcnt_inv {} s2" and "h_network s2 np = Some n" for s2 np n ip lp
  proof -
    have "refcnt_inv {brk s2}
            (s2\<lparr>brk := Suc (brk s2),
                h_link_network := (h_link_network s2)(brk s2 \<mapsto>
                  \<lparr>lnc_ip = ip, lnc_network = np, lnc_link = lp\<rparr>)\<rparr>)"
      using that by (simp add: refcnt_inv_def net_inv_bind)
    from cache_add_link_network_inv [OF this] show ?thesis
      by (auto simp: post_def)
  qed
  show ?thesis
    using assms a b c
    by (auto simp: handle_addr_add_def cache_get_network_def cache_get_link_network_def
          post_seq Let_def split: option.split)
qed

lemma post_frame_inv:
  assumes "post (\<lambda>(r, s'). net_frame s s') m" and "refcnt_inv ex s"
  shows "post (\<lambda>(r, s'). refcnt_inv ex s') m"
  unfolding post_def
proof (intro allI impI)
  fix x assume "m = Inr x"
  from postD [OF assms(1) this] have "net_frame s (snd x)" by (cases x) simp
  from this assms(2) have "refcnt_inv ex (snd x)" by (rule net_frame_inv)
  then show "case x of (r, s') \<Rightarrow> refcnt_inv ex s'" by (cases x) simp
qed

lemma handle_netlink_cmd_inv:
  assumes "refcnt_inv {} s"
  shows "post (\<lambda>(r, s'). refcnt_inv {} s') (handle_netlink_cmd cmd s)"
proof (cases cmd)
  case (CMD_NEIGH_ADD c)
  with post_frame_inv [OF handle_neigh_add_net assms] show ?thesis by simp
next
  case (CMD_NEIGH_DEL c)
  have "post (\<lambda>(r, s'). net_frame s s') (handle_neigh_del c s)"
    by (auto simp: post_def dest: handle_neigh_del_net)
  from post_frame_inv [OF this assms] CMD_NEIGH_DEL show ?thesis by simp
next
  case (CMD_FDB_ADD c)
  have "post (\<lambda>(r, s'). net_frame s s') (handle_fdb_add c s)"
    by (auto simp: post_def dest: handle_fdb_add_net)
  from post_frame_inv [OF this assms] CMD_FDB_ADD show ?thesis by simp
next
  case (CMD_FDB_DEL c)
  have "post (\<lambda>(r, s'). net_frame s s') (handle_fdb_del c s)"
    by (auto simp: post_def dest: handle_fdb_del_net)
  from post_frame_inv [OF this assms] CMD_FDB_DEL show ?thesis by simp
next
  case (CMD_ADDR_ADD c)
  with handle_addr_add_inv [OF assms] show ?thesis by simp
next
  case (CMD_ADDR_DEL c)
  with handle_addr_del_inv [OF assms] show ?thesis by simp
next
  case (CMD_LINK_ADD c)
  with post_frame_inv [OF handle_link_add_net assms] show ?thesis by simp
next
  case (CMD_LINK_DEL c)
  with handle_link_del_inv [OF assms] show ?thesis by simp
qed

lemma step_inv:
  assumes "refcnt_inv {} s"
  shows "post (refcnt_inv {}) (step e s)"
proof (cases e)
  case (Netlink cmd)
  with postD [OF handle_netlink_cmd_inv [OF assms, of cmd]] show ?thesis
    by (auto simp: post_seq)
next
  case (RingBuffer r)
  with postD [OF post_frame_inv [OF handle_neighbor_reply_net assms, of r]] show ?thesis
    by (auto simp: post_seq)
next
  case (DumpDone a b c)
  with assms show ?thesis by (simp add: refcnt_inv_def)
qed

lemma run_inv: "refcnt_inv {} s \<Longrightarrow> post (refcnt_inv {}) (run es s)"
proof (induction es arbitrary: s)
  case Nil
  then show ?case by simp
next
  case (Cons e es)
  from postD [OF step_inv [OF Cons.prems, of e]] Cons.IH show ?case
    by (simp add: post_seq)
qed

lemma boot_inv: "refcnt_inv {} (boot w)"
  by (simp add: boot_def refcnt_inv_def net_inv_def)

lemma st_unbind_facts:
  "\<exists>s. run ev_unbind (boot world0) = Inr s
     \<and> db_network_cache s 1 = Some 2 \<and> h_network s 2 \<noteq> None
     \<and> map snd (nc_links (the (h_network s 2))) = [7]
     \<and> db_link_cache s 2 = None \<and> db_link_cache s 3 = Some 6"
  by (simp add: example_defs model_defs)

lemma refcnt_law_defined_runs:
  assumes "run evs (boot w) = Inr s" and "db_network_cache s i = Some p"
  shows "\<exists>n. h_network s p = Some n \<and> nc_id n = i
           \<and> nc_refcnt n = int (length (nc_links n))"
proof -
  from postD [OF run_inv [OF boot_inv] assms(1)] have "refcnt_inv {} s" .
  then have d: "net_inv {} (brk s) (h_network s) (h_link_network s) (db_network_cache s)"
    by (simp add: refcnt_inv_def)
  from net_invD(4) [OF d assms(2)] obtain n where n: "h_network s p = Some n" "nc_id n = i"
    by blast
  from net_invD(1) [OF d n(1)] n show ?thesis by blast
qed

lemma refcnt_law_example:
  "\<exists>s n. run ev_unbind (boot world0) = Inr s \<and> db_network_cache s 1 = Some 2
     \<and> h_network s 2 = Some n \<and> nc_id n = 1 \<and> map snd (nc_links n) = [7]
     \<and> nc_refcnt n = 1"
proof -
  from st_unbind_facts obtain s where run: "run ev_unbind (boot world0) = Inr s"
    and a: "db_network_cache s 1 = Some 2" "h_network s 2 \<noteq> None"
      "map snd (nc_links (the (h_network s 2))) = [7]"
      "db_link_cache s 2 = None" "db_link_cache s 3 = Some 6"
    by (elim exE conjE)
  from refcnt_law_defined_runs [OF run a(1)] obtain n where n: "h_network s 2 = Some n" "nc_id n = 1"
    "nc_refcnt n = int (length (nc_links n))"
    by blast
  from a(3) n(1) have l: "map snd (nc_links n) = [7]" by simp
  from arg_cong [OF l, of length] have "length (nc_links n) = 1" by simp
  with n(3) have "nc_refcnt n = 1" by simp
  with run a(1) n(1,2) l show ?thesis
    by (intro exI [of _ s] exI [of _ n]) simp
qed

end
